theory Spec2Isabelle
  imports
    Complex_Main
    "HOL-Library.Word"
    "HOL-Library.List_Lexorder"
    "HOL-Library.Multiset"
begin

section \<open>Segmentation frame codec and indexing engine of highdicom\<close>

text \<open>
  A shallow embedding of \<^verbatim>\<open>highdicom/frame.py\<close>, \<^verbatim>\<open>highdicom/seg/content.py\<close>
  (class \<^verbatim>\<open>DimensionIndexSequence\<close>) and \<^verbatim>\<open>highdicom/seg/sop.py\<close> (class
  \<^verbatim>\<open>Segmentation\<close>). Exceptions are values of \<open>py_error\<close>; a method that mutates
  \<^verbatim>\<open>self\<close> takes the object and returns the updated one. Functions of numpy, pydicom and
  Pillow are not part of the repository: the few that are needed are defined next to
  their first use from their documented behaviour, and compression codecs are
  parameters (record \<open>codecs\<close>).
\<close>

subsection \<open>Exceptions\<close>

datatype py_error =
    ValueError string
  | TypeError string
  | AttributeError string
  | IndexError string
  | KeyError string
  | RuntimeError string
  | NotImplementedError string
  | DicomAttributeError string

subsection \<open>numpy helpers\<close>

text \<open>
  \<^verbatim>\<open>np.unique(a)\<close> returns the sorted distinct elements; with \<^verbatim>\<open>axis=0\<close> the elements are
  the rows, compared lexicographically. With \<^verbatim>\<open>return_index=True\<close> it also returns, for
  every distinct element, the index of its first occurrence in the input.
\<close>

definition np_unique :: "'a::linorder list \<Rightarrow> 'a list" where
  "np_unique xs = sort (remdups xs)"

fun first_index :: "'a list \<Rightarrow> 'a \<Rightarrow> nat" where
  "first_index [] v = 0"
| "first_index (x # xs) v = (if x = v then 0 else Suc (first_index xs v))"

definition np_unique_index :: "'a::linorder list \<Rightarrow> nat list" where
  "np_unique_index xs = map (first_index xs) (np_unique xs)"

text \<open>\<^verbatim>\<open>np.where(col == v)[0][0]\<close>: the first position holding \<open>v\<close>, IndexError when
  there is none.\<close>

definition np_where_first :: "'a list \<Rightarrow> 'a \<Rightarrow> py_error + nat" where
  "np_where_first xs v =
     (if v \<in> set xs then Inr (first_index xs v)
      else Inl (IndexError ''index 0 is out of bounds for axis 0 with size 0''))"

subsection \<open>Plane positions and the dimension index (seg/content.py)\<close>

datatype coordinate_system = PATIENT | SLIDE

text \<open>
  A plane position holds either the three components of Image Position (Patient), or the
  five attributes of the Plane Position (Slide) Sequence. Coordinates are decimal values, modelled as rationals.
\<close>

datatype plane_position =
    PlanePositionPatient rat rat rat
  | PlanePositionSlide
      (ColumnPositionInTotalImagePixelMatrix: int)
      (RowPositionInTotalImagePixelMatrix: int)
      (XOffsetInSlideCoordinateSystem: rat)
      (YOffsetInSlideCoordinateSystem: rat)
      (ZOffsetInSlideCoordinateSystem: rat)

text \<open>
  The indexed attributes after Referenced Segment Number, in the order in which
  \<^verbatim>\<open>DimensionIndexSequence.__init__\<close> puts them: for SLIDE the item named
  \<^verbatim>\<open>row_dimension_index\<close> points to Column Position In Total Image Pixel Matrix and comes
  first. Reading an attribute a position does not hold raises KeyError.
  Each attribute value is a vector (one component for the scalar attributes).
\<close>

fun indexed_values :: "coordinate_system \<Rightarrow> plane_position \<Rightarrow> py_error + rat list list" where
  "indexed_values PATIENT (PlanePositionPatient x y z) = Inr [[x, y, z]]"
| "indexed_values SLIDE (PlanePositionSlide c r x y z) =
     Inr [[of_int c], [of_int r], [x], [y], [z]]"
| "indexed_values PATIENT (PlanePositionSlide c r x y z) = Inl (KeyError ''ImagePositionPatient'')"
| "indexed_values SLIDE (PlanePositionPatient x y z) =
     Inl (KeyError ''ColumnPositionInTotalImagePixelMatrix'')"

fun plane_position_values_of ::
  "coordinate_system \<Rightarrow> plane_position list \<Rightarrow> py_error + rat list list list" where
  "plane_position_values_of cs [] = Inr []"
| "plane_position_values_of cs (p # ps) =
     (case indexed_values cs p of
        Inl e \<Rightarrow> Inl e
      | Inr v \<Rightarrow>
          (case plane_position_values_of cs ps of
             Inl e \<Rightarrow> Inl e
           | Inr vs \<Rightarrow> Inr (v # vs)))"

text \<open>
  \<^verbatim>\<open>DimensionIndexSequence.get_index_values\<close>: the array of attribute values of every
  plane, and \<^verbatim>\<open>np.unique(plane_position_values, axis=0, return_index=True)[1]\<close>, where
  every plane's values are flattened into one row.
\<close>

definition get_index_values ::
  "coordinate_system \<Rightarrow> plane_position list \<Rightarrow> py_error + (rat list list list \<times> nat list)" where
  "get_index_values cs plane_positions =
     (case plane_position_values_of cs plane_positions of
        Inl e \<Rightarrow> Inl e
      | Inr plane_position_values \<Rightarrow>
          Inr (plane_position_values, np_unique_index (map concat plane_position_values)))"

subsection \<open>Arrays and bytes\<close>

type_synonym byte = "8 word"

text \<open>
  A numpy array: its shape and its elements in row-major order, typed by the dtype.
  \<^verbatim>\<open>np.float_\<close>, \<^verbatim>\<open>np.float32\<close> and \<^verbatim>\<open>np.float64\<close> values are modelled as exact rationals.
  \<open>IntData bits is_signed\<close> holds the elements of an array of any other integer dtype by
  their values: \<^verbatim>\<open>int8\<close>, \<^verbatim>\<open>int16\<close>, \<^verbatim>\<open>int32\<close>, \<^verbatim>\<open>int64\<close> (signed) and \<^verbatim>\<open>uint32\<close>, \<^verbatim>\<open>uint64\<close>,
  each value within the range of the dtype. \<open>OtherData\<close> stands for every other dtype
  (complex, objects).
\<close>

datatype array_data =
    BoolData "bool list"
  | UInt8Data "8 word list"
  | UInt16Data "16 word list"
  | FloatData "rat list"
  | IntData nat bool "int list"
  | OtherData

record ndarray =
  shape :: "nat list"
  data :: array_data

definition ndim :: "ndarray \<Rightarrow> nat" where
  "ndim a = length (shape a)"

fun data_size :: "array_data \<Rightarrow> nat" where
  "data_size (BoolData xs) = length xs"
| "data_size (UInt8Data xs) = length xs"
| "data_size (UInt16Data xs) = length xs"
| "data_size (FloatData xs) = length xs"
| "data_size (IntData bits is_signed xs) = length xs"
| "data_size OtherData = 0"

text \<open>The numeric value of every element (\<^verbatim>\<open>True\<close> is 1), used to compare arrays of
  different dtypes as \<^verbatim>\<open>==\<close> and \<^verbatim>\<open>np.array_equal\<close> do.\<close>

fun data_values :: "array_data \<Rightarrow> rat list" where
  "data_values (BoolData xs) = map of_bool xs"
| "data_values (UInt8Data xs) = map (\<lambda>w. of_nat (unat w)) xs"
| "data_values (UInt16Data xs) = map (\<lambda>w. of_nat (unat w)) xs"
| "data_values (FloatData xs) = xs"
| "data_values (IntData bits is_signed xs) = map of_int xs"
| "data_values OtherData = []"

definition np_array_equal :: "ndarray \<Rightarrow> ndarray \<Rightarrow> bool" where
  "np_array_equal a b \<longleftrightarrow> shape a = shape b \<and> data_values (data a) = data_values (data b)"

subsection \<open>Transfer syntaxes, pixel format enumerations, external codecs\<close>

text \<open>The transfer syntaxes the repository names; any other UID carries its
  \<^verbatim>\<open>is_encapsulated\<close> property.\<close>

datatype transfer_syntax =
    ImplicitVRLittleEndian
  | ExplicitVRLittleEndian
  | JPEGBaseline
  | JPEG2000Lossless
  | RLELossless
  | OtherTransferSyntax string bool

fun is_encapsulated :: "transfer_syntax \<Rightarrow> bool" where
  "is_encapsulated ImplicitVRLittleEndian = False"
| "is_encapsulated ExplicitVRLittleEndian = False"
| "is_encapsulated JPEGBaseline = True"
| "is_encapsulated JPEG2000Lossless = True"
| "is_encapsulated RLELossless = True"
| "is_encapsulated (OtherTransferSyntax uid e) = e"

datatype photometric_interpretation =
  MONOCHROME1 | MONOCHROME2 | PALETTE_COLOR | RGB | YBR_FULL | YBR_FULL_422
  | YBR_PARTIAL_420 | YBR_ICT | YBR_RCT

datatype pixel_representation = UNSIGNED_INTEGER | COMPLEMENT

datatype planar_configuration = COLOR_BY_PIXEL | COLOR_BY_PLANE

text \<open>
  The collaborators outside the repository that have no model here: Pillow's encoders
  (\<^verbatim>\<open>Image.fromarray(array).save(buf, format=...)\<close>), pydicom's RLE encoder, pydicom's
  decoding of encapsulated Pixel Data (given the transfer syntax, the shape of the
  result, Bits Allocated and the data), Pillow's JPEG decoder in YCbCr mode,
  pydicom's \<^verbatim>\<open>encapsulate\<close> and \<^verbatim>\<open>decode_data_sequence\<close>, and numpy's byte image of a
  float.
\<close>

record codecs =
  pillow_save :: "string \<Rightarrow> ndarray \<Rightarrow> py_error + byte list"
  rle_encode_frame :: "ndarray \<Rightarrow> py_error + byte list"
  decode_encapsulated :: "transfer_syntax \<Rightarrow> nat list \<Rightarrow> nat \<Rightarrow> byte list \<Rightarrow> py_error + ndarray"
  pillow_open_ycbcr :: "byte list \<Rightarrow> py_error + ndarray"
  encapsulate :: "byte list list \<Rightarrow> byte list"
  decode_data_sequence :: "byte list \<Rightarrow> byte list list"
  float_tobytes :: "rat \<Rightarrow> byte list"

subsection \<open>Bit packing and native decoding (pydicom)\<close>

text \<open>
  Modelled from the spec: pydicom's \<^verbatim>\<open>pack_bits\<close> is not part of the repository. The
  spec (4.1) says: pack 8 samples per byte, bit 0 = first sample. A last group of fewer
  than 8 samples is filled with zeros. \<^verbatim>\<open>unpack_bits\<close> is its inverse on whole bytes.
\<close>

definition byte_of_bits :: "bool list \<Rightarrow> byte" where
  "byte_of_bits bs = horner_sum of_bool 2 (take 8 bs)"

definition bits_of_byte :: "byte \<Rightarrow> bool list" where
  "bits_of_byte w = map (bit w) [0..<8]"

fun pack_bool_list :: "bool list \<Rightarrow> byte list" where
  "pack_bool_list (b0 # b1 # b2 # b3 # b4 # b5 # b6 # b7 # bs) =
     byte_of_bits [b0, b1, b2, b3, b4, b5, b6, b7] # pack_bool_list bs"
| "pack_bool_list [] = []"
| "pack_bool_list bs = [byte_of_bits bs]"

definition unpack_bits :: "byte list \<Rightarrow> bool list" where
  "unpack_bits bytes = concat (map bits_of_byte bytes)"

text \<open>\<^verbatim>\<open>pack_bits(arr)\<close> refuses an array that holds a value other than 0 and 1.\<close>

definition pack_bits :: "array_data \<Rightarrow> py_error + byte list" where
  "pack_bits d =
     (if d = OtherData \<or> (\<exists>v \<in> set (data_values d). v \<noteq> 0 \<and> v \<noteq> 1)
      then Inl (ValueError ''Only binary arrays (containing ones or zeroes) can be packed.'')
      else Inr (pack_bool_list (map (\<lambda>v. v \<noteq> 0) (data_values d))))"

text \<open>The bytes of an integer of \<open>n\<close> bytes in little-endian order (two's complement), and
  the integer that \<open>n\<close> bytes stand for, unsigned or signed.\<close>

definition int_tobytes :: "nat \<Rightarrow> int \<Rightarrow> byte list" where
  "int_tobytes n v = map (\<lambda>k. of_int (v div 256 ^ k)) [0..<n]"

definition int_from_bytes :: "bool \<Rightarrow> byte list \<Rightarrow> int" where
  "int_from_bytes is_signed bs =
     (let u = horner_sum uint 256 bs in
      if is_signed \<and> u \<ge> 2 ^ (8 * length bs - 1) then u - 2 ^ (8 * length bs) else u)"

text \<open>\<^verbatim>\<open>array.flatten().tobytes()\<close>: the elements' bytes in native (little-endian) order.\<close>

fun tobytes :: "codecs \<Rightarrow> array_data \<Rightarrow> byte list" where
  "tobytes env (BoolData xs) = map of_bool xs"
| "tobytes env (UInt8Data xs) = xs"
| "tobytes env (UInt16Data xs) = concat (map (\<lambda>w. [ucast w, ucast (drop_bit 8 w)]) xs)"
| "tobytes env (FloatData xs) = concat (map (float_tobytes env) xs)"
| "tobytes env (IntData bits is_signed xs) = concat (map (int_tobytes (bits div 8)) xs)"
| "tobytes env OtherData = []"

text \<open>
  pydicom's \<^verbatim>\<open>get_expected_length\<close> for one sample plane per pixel: the number of pixels
  of all frames, and the bytes they take (bit-packed when Bits Allocated is 1).
\<close>

definition expected_pixels :: "nat \<Rightarrow> nat \<Rightarrow> nat \<Rightarrow> nat \<Rightarrow> nat" where
  "expected_pixels rows columns samples_per_pixel number_of_frames =
     rows * columns * samples_per_pixel * number_of_frames"

text \<open>pydicom's \<^verbatim>\<open>get_nr_frames\<close>: a Number Of Frames of 0 counts as 1.\<close>

definition get_nr_frames :: "nat \<Rightarrow> nat" where
  "get_nr_frames number_of_frames = (if number_of_frames = 0 then 1 else number_of_frames)"

definition get_expected_length :: "nat \<Rightarrow> nat \<Rightarrow> nat \<Rightarrow> nat \<Rightarrow> nat \<Rightarrow> nat" where
  "get_expected_length rows columns samples_per_pixel number_of_frames bits_allocated =
     (let n = expected_pixels rows columns samples_per_pixel number_of_frames in
      if bits_allocated = 1 then n div 8 + (if n mod 8 > 0 then 1 else 0)
      else n * (bits_allocated div 8))"

text \<open>\<^verbatim>\<open>np.frombuffer(data, dtype)\<close> for an integer dtype of \<open>n\<close> bytes: the values of the
  groups of \<open>n\<close> bytes.\<close>

definition frombuffer :: "nat \<Rightarrow> bool \<Rightarrow> byte list \<Rightarrow> int list" where
  "frombuffer n is_signed bytes =
     map (\<lambda>i. int_from_bytes is_signed (take n (drop (i * n) bytes))) [0..<length bytes div n]"

text \<open>
  \<^verbatim>\<open>Dataset.pixel_array\<close> for native (not encapsulated) Pixel Data, as pydicom's numpy
  handler computes it: the data must hold at least the expected number of bytes
  (a missing pad byte only warns); excess bytes are dropped; 1-bit data is unpacked to
  \<^verbatim>\<open>uint8\<close>; other data is read by \<^verbatim>\<open>np.frombuffer\<close> with the unsigned or signed integer
  dtype of 8, 16, 32 or 64 bits that Bits Allocated and Pixel Representation name, and
  no other value of Bits Allocated is supported; the result has shape (frames, rows,
  columns), without the first axis when there is one frame, and with a last axis of
  samples when there are several samples per pixel.
\<close>

definition native_shape :: "nat \<Rightarrow> nat \<Rightarrow> nat \<Rightarrow> nat \<Rightarrow> nat list" where
  "native_shape rows columns samples_per_pixel number_of_frames =
     (if number_of_frames > 1 then [number_of_frames] else []) @ [rows, columns] @
     (if samples_per_pixel > 1 then [samples_per_pixel] else [])"

definition native_pixel_array ::
  "codecs \<Rightarrow> nat \<Rightarrow> nat \<Rightarrow> nat \<Rightarrow> nat \<Rightarrow> nat \<Rightarrow> pixel_representation \<Rightarrow> byte list
    \<Rightarrow> py_error + ndarray" where
  "native_pixel_array env rows columns samples_per_pixel number_of_frames bits_allocated
      pixel_repr pixel_data =
     (let expected_len =
            get_expected_length rows columns samples_per_pixel number_of_frames bits_allocated;
          nr_pixels = expected_pixels rows columns samples_per_pixel number_of_frames;
          shp = native_shape rows columns samples_per_pixel number_of_frames
      in
      if length pixel_data < expected_len
      then Inl (ValueError ''The length of the pixel data in the dataset does not match the expected length'')
      else if bits_allocated = 1
      then Inr \<lparr>shape = shp,
                data = UInt8Data (map of_bool (take nr_pixels (unpack_bits pixel_data)))\<rparr>
      else if bits_allocated = 8 \<and> pixel_repr = UNSIGNED_INTEGER
      then Inr \<lparr>shape = shp, data = UInt8Data (take expected_len pixel_data)\<rparr>
      else if bits_allocated = 16 \<and> pixel_repr = UNSIGNED_INTEGER
      then Inr \<lparr>shape = shp,
                data = UInt16Data (map of_int (frombuffer 2 False (take expected_len pixel_data)))\<rparr>
      else if bits_allocated \<in> {8, 16, 32, 64}
      then Inr \<lparr>shape = shp,
                data = IntData bits_allocated (pixel_repr = COMPLEMENT)
                         (frombuffer (bits_allocated div 8) (pixel_repr = COMPLEMENT)
                            (take expected_len pixel_data))\<rparr>
      else Inl (NotImplementedError
        ''Unable to determine the data type to use to contain the Pixel Data''))"

subsection \<open>The frame codec (frame.py)\<close>

text \<open>
  \<^verbatim>\<open>encode_frame\<close>. The enumeration arguments are typed, so the conversions
  \<^verbatim>\<open>PixelRepresentationValues(...)\<close> and \<^verbatim>\<open>PhotometricInterpretationValues(...)\<close> cannot fail.
  \<^verbatim>\<open>array.shape[1]\<close> raises IndexError for an array of fewer than two dimensions.
\<close>

definition encode_frame ::
  "codecs \<Rightarrow> ndarray \<Rightarrow> transfer_syntax \<Rightarrow> nat \<Rightarrow> nat \<Rightarrow> photometric_interpretation
    \<Rightarrow> pixel_representation \<Rightarrow> planar_configuration option \<Rightarrow> py_error + byte list" where
  "encode_frame env array transfer_syntax_uid bits_allocated bits_stored
      photometric_interp pixel_repr planar_config =
     (if ndim array < 2 then Inl (IndexError ''tuple index out of range'')
      else
        let rows = shape array ! 0;
            cols = shape array ! 1
        in
        if ndim array > 2 \<and> planar_config = None
        then Inl (ValueError
          ''Planar configuration needs to be specified for encoding of color image frames.'')
        else
          let samples_per_pixel = (if ndim array > 2 then shape array ! 2 else 1) in
          if transfer_syntax_uid \<notin> {ExplicitVRLittleEndian, ImplicitVRLittleEndian,
                JPEGBaseline, JPEG2000Lossless, RLELossless}
          then Inl (ValueError ''Transfer Syntax is not supported.'')
          else if transfer_syntax_uid \<in> {ExplicitVRLittleEndian, ImplicitVRLittleEndian}
          then
            (if bits_allocated = 1
             then
               (if (rows * cols * samples_per_pixel) mod 8 \<noteq> 0
                then Inl (ValueError
                  ''Frame cannot be bit packed because its size is not a multiple of 8.'')
                else pack_bits (data array))
             else Inr (tobytes env (data array)))
          else if transfer_syntax_uid = JPEGBaseline then pillow_save env ''jpeg'' array
          else if transfer_syntax_uid = JPEG2000Lossless then pillow_save env ''jpeg2000'' array
          else if transfer_syntax_uid = RLELossless then rle_encode_frame env array
          else Inl (ValueError ''Transfer Syntax is not supported.''))"

text \<open>
  \<^verbatim>\<open>decode_frame\<close>: a dataset of one frame is built and its \<^verbatim>\<open>pixel_array\<close> returned;
  a JPEG baseline frame with RGB photometric interpretation is decoded by Pillow.
\<close>

definition decode_frame ::
  "codecs \<Rightarrow> byte list \<Rightarrow> transfer_syntax \<Rightarrow> nat \<Rightarrow> nat \<Rightarrow> nat \<Rightarrow> nat \<Rightarrow> nat
    \<Rightarrow> photometric_interpretation \<Rightarrow> pixel_representation \<Rightarrow> planar_configuration option
    \<Rightarrow> py_error + ndarray" where
  "decode_frame env value transfer_syntax_uid rows columns samples_per_pixel bits_allocated
      bits_stored photometric_interp pixel_repr planar_config =
     (if samples_per_pixel > 1 \<and> planar_config = None
      then Inl (ValueError
        ''Planar configuration needs to be specified for decoding of color image frames.'')
      else if is_encapsulated transfer_syntax_uid
      then
        (if transfer_syntax_uid = JPEGBaseline \<and> photometric_interp = RGB
         then pillow_open_ycbcr env value
         else decode_encapsulated env transfer_syntax_uid
                (native_shape rows columns samples_per_pixel 1) bits_allocated
                (encapsulate env [value]))
      else native_pixel_array env rows columns samples_per_pixel 1 bits_allocated pixel_repr
             value)"

text \<open>An environment without external codecs, for evaluating the native paths:
  every encoder and decoder raises, encapsulation yields nothing.\<close>

definition no_codecs :: codecs where
  "no_codecs = \<lparr>
     pillow_save = (\<lambda>fmt a. Inl (RuntimeError ''encoder not available'')),
     rle_encode_frame = (\<lambda>a. Inl (RuntimeError ''encoder not available'')),
     decode_encapsulated = (\<lambda>ts shp b v. Inl (RuntimeError ''decoder not available'')),
     pillow_open_ycbcr = (\<lambda>v. Inl (RuntimeError ''decoder not available'')),
     encapsulate = (\<lambda>frames. []),
     decode_data_sequence = (\<lambda>v. []),
     float_tobytes = (\<lambda>x. [])\<rparr>"

text \<open>
  A stand-in for lossless codecs, for evaluating the encapsulated paths: the JPEG 2000 and
  the RLE encoder store the samples of a \<^verbatim>\<open>uint8\<close> array as they are and refuse every other
  array, and the decoder reads the samples back; there is no JPEG baseline codec.
\<close>

definition stored_codecs :: codecs where
  "stored_codecs = \<lparr>
     pillow_save = (\<lambda>fmt a.
       if fmt = ''jpeg2000''
       then (case data a of
               UInt8Data xs \<Rightarrow> Inr xs
             | _ \<Rightarrow> Inl (TypeError ''cannot handle this data type''))
       else Inl (RuntimeError ''encoder not available'')),
     rle_encode_frame = (\<lambda>a.
       case data a of
         UInt8Data xs \<Rightarrow> Inr xs
       | _ \<Rightarrow> Inl (TypeError ''cannot handle this data type'')),
     decode_encapsulated = (\<lambda>ts shp b v. Inr \<lparr>shape = shp, data = UInt8Data v\<rparr>),
     pillow_open_ycbcr = (\<lambda>v. Inl (RuntimeError ''decoder not available'')),
     encapsulate = concat,
     decode_data_sequence = (\<lambda>v. [v]),
     float_tobytes = (\<lambda>x. [])\<rparr>"

subsubsection \<open>Notions for stating the round trip\<close>

text \<open>The range of an integer dtype of the given number of bits.\<close>

definition int_in_range :: "nat \<Rightarrow> bool \<Rightarrow> int \<Rightarrow> bool" where
  "int_in_range bits is_signed v \<longleftrightarrow>
     (if is_signed then - (2 ^ (bits - 1)) \<le> v \<and> v < 2 ^ (bits - 1)
      else 0 \<le> v \<and> v < 2 ^ bits)"

text \<open>
  The samples of a plane are valid for a pixel format when their dtype is the one that
  Bits Allocated and Pixel Representation name: with Bits Allocated 1 the samples are 0
  or 1 (of any numeric dtype); otherwise a boolean array takes 8 bits, a \<^verbatim>\<open>uint8\<close> array 8
  bits unsigned, a \<^verbatim>\<open>uint16\<close> array 16 bits unsigned, and an array of another integer dtype
  its 8, 16, 32 or 64 bits with its signedness, every value within the range of the
  dtype. Pixel Data holds integers, so a floating point array is valid for 1 bit only.
\<close>

definition valid_samples :: "array_data \<Rightarrow> nat \<Rightarrow> pixel_representation \<Rightarrow> bool" where
  "valid_samples d bits_allocated pixel_repr \<longleftrightarrow>
     (if bits_allocated = 1
      then d \<noteq> OtherData \<and> (\<forall>v \<in> set (data_values d). v = 0 \<or> v = 1)
      else
        case d of
          BoolData xs \<Rightarrow> bits_allocated = 8
        | UInt8Data xs \<Rightarrow> bits_allocated = 8 \<and> pixel_repr = UNSIGNED_INTEGER
        | UInt16Data xs \<Rightarrow> bits_allocated = 16 \<and> pixel_repr = UNSIGNED_INTEGER
        | FloatData xs \<Rightarrow> False
        | IntData bits is_signed xs \<Rightarrow>
            bits = bits_allocated \<and> bits_allocated \<in> {8, 16, 32, 64} \<and>
            is_signed = (pixel_repr = COMPLEMENT) \<and>
            (\<forall>v \<in> set xs. int_in_range bits is_signed v)
        | OtherData \<Rightarrow> False)"

text \<open>
  Modelled from the spec: the external codecs are not part of the repository. The spec
  (1, non-goals, and 4.1) fixes their contract: raw samples in, a byte string out, and
  the reverse path is the exact inverse. For the functions of \<open>codecs\<close>: whenever an
  encoder returns bytes for an array of valid samples, the decoder of the same
  compressed format returns, for the encapsulated bytes and the shape of the array, an
  array equal to it; for JPEG baseline this holds for pydicom's decoder and for Pillow's
  decoder in YCbCr mode.
\<close>

definition codec_contract :: "codecs \<Rightarrow> bool" where
  "codec_contract env \<longleftrightarrow>
     (\<forall>array value bits_allocated pixel_repr.
        valid_samples (data array) bits_allocated pixel_repr \<longrightarrow>
        (pillow_save env ''jpeg'' array = Inr value \<longrightarrow>
           (\<exists>decoded. pillow_open_ycbcr env value = Inr decoded \<and> np_array_equal decoded array) \<and>
           (\<exists>decoded. decode_encapsulated env JPEGBaseline (shape array) bits_allocated
                         (encapsulate env [value]) = Inr decoded \<and>
                      np_array_equal decoded array)) \<and>
        (pillow_save env ''jpeg2000'' array = Inr value \<longrightarrow>
           (\<exists>decoded. decode_encapsulated env JPEG2000Lossless (shape array) bits_allocated
                         (encapsulate env [value]) = Inr decoded \<and>
                      np_array_equal decoded array)) \<and>
        (rle_encode_frame env array = Inr value \<longrightarrow>
           (\<exists>decoded. decode_encapsulated env RLELossless (shape array) bits_allocated
                         (encapsulate env [value]) = Inr decoded \<and>
                      np_array_equal decoded array)))"

subsection \<open>The Segmentation object (seg/sop.py)\<close>

datatype segmentation_type = BINARY | FRACTIONAL

datatype segments_overlap = Overlap_YES | Overlap_UNDEFINED | Overlap_NO

datatype spatial_locations_preserved =
  Preserved_YES | Preserved_NO | Preserved_REORIENTED_ONLY | Preserved_UNKNOWN

record segment_description =
  SegmentNumber :: int
  SegmentLabel :: string

text \<open>A source image: the attributes of the dataset that the class reads.
  \<open>src_NumberOfFrames\<close> is \<open>None\<close> when the dataset has no such attribute (a
  single-frame image); \<open>src_frame_positions\<close> are the plane positions of the frames of a
  multi-frame image; \<open>src_is_slide\<close> says whether the image has Image Orientation (Slide)
  or an Image Center Point Coordinates Sequence.\<close>

record source_image =
  src_StudyInstanceUID :: string
  src_SeriesInstanceUID :: string
  src_SOPClassUID :: string
  src_SOPInstanceUID :: string
  src_Rows :: nat
  src_Columns :: nat
  src_NumberOfFrames :: "nat option"
  src_is_slide :: bool
  src_ImagePositionPatient :: "rat \<times> rat \<times> rat"
  src_frame_positions :: "plane_position list"
  src_image_orientation :: "rat list"

text \<open>An item of the Source Image Sequence of a derivation item: Referenced Frame Number
  may be absent, a single value or a \<^verbatim>\<open>MultiValue\<close>.\<close>

datatype frame_number_ref = NoFrameNumber | FrameNumber int | FrameNumbers "int list"

record derivation_source_item =
  ReferencedSOPInstanceUID :: string
  ReferencedFrameNumber :: frame_number_ref
  SpatialLocationsPreserved :: "spatial_locations_preserved option"

text \<open>An item of the Per-frame Functional Groups Sequence; \<open>DerivationImageSequence\<close> lists,
  per derivation item, the items of its Source Image Sequence.\<close>

record frame_item =
  ReferencedSegmentNumber :: int
  DimensionIndexValues :: "int list"
  PlanePosition :: plane_position
  DerivationImageSequence :: "derivation_source_item list list"

text \<open>
  The attributes \<^verbatim>\<open>_frame_lut\<close>, \<^verbatim>\<open>_lut_seg_col\<close>, \<^verbatim>\<open>_lut_src_instance_col\<close> and
  \<^verbatim>\<open>_lut_src_frame_col\<close> are assigned by \<^verbatim>\<open>_build_luts\<close> only when every frame has a
  single source frame, so they can be absent. They are kept in a dictionary from
  attribute names to values (\<open>lut_attrs\<close>), as Python keeps them in the instance:
  reading a name that was never assigned raises AttributeError.
\<close>

datatype attr_value = FrameLut "int list list" | LutColumn nat

record segmentation =
  SOPClassUID :: string
  source_images :: "source_image list option"
  Rows :: nat
  Columns :: nat
  SamplesPerPixel :: nat
  BitsAllocated :: nat
  BitsStored :: nat
  SegmentationType :: segmentation_type
  MaximumFractionalValue :: "nat option"
  TransferSyntaxUID :: transfer_syntax
  coordinate_system_of :: coordinate_system
  plane_orientation :: "rat list"
  source_plane_orientation :: "rat list"
  SourceImageSequence :: "(string \<times> string) list"
  ReferencedSeriesSequence :: "(string \<times> string list) list"
  OtherReferencedInstances :: "string list"
  segment_inventory :: "int set"
  SegmentSequence :: "segment_description list"
  SegmentsOverlap :: "segments_overlap option"
  NumberOfFrames :: nat
  PerFrameFunctionalGroupsSequence :: "frame_item list"
  PixelData :: "byte list"
  source_sop_instance_uids_of :: "string list"
  single_source_frame_per_seg_frame :: bool
  locations_preserved :: "spatial_locations_preserved option"
  lut_attrs :: "string \<rightharpoonup> attr_value"

text \<open>A method that raises returns the exception together with the object as the
  exception leaves it; otherwise the updated object.\<close>

type_synonym mutation = "(py_error \<times> segmentation) + segmentation"

subsubsection \<open>The lookup tables\<close>

text \<open>\<^verbatim>\<open>_build_ref_instance_lut\<close>: the keys of the ordered dictionary, in the order of
  their first insertion: the instances of the Referenced Series Sequence, then those of
  the Studies Containing Other Referenced Instances Sequence (absent: empty).\<close>

definition ordered_keys :: "'a list \<Rightarrow> 'a list" where
  "ordered_keys xs = rev (remdups (rev xs))"

definition build_ref_instance_lut :: "segmentation \<Rightarrow> segmentation" where
  "build_ref_instance_lut self =
     self\<lparr>source_sop_instance_uids_of :=
       ordered_keys (concat (map snd (ReferencedSeriesSequence self)) @
                     OtherReferencedInstances self)\<rparr>"

text \<open>\<^verbatim>\<open>_get_src_uid_index\<close>.\<close>

definition get_src_uid_index :: "segmentation \<Rightarrow> string \<Rightarrow> py_error + nat" where
  "get_src_uid_index self sop_instance_uid =
     (if sop_instance_uid \<notin> set (source_sop_instance_uids_of self)
      then Inl (KeyError ''No such source frame'')
      else Inr (first_index (source_sop_instance_uids_of self) sop_instance_uid))"

definition source_frames_of :: "derivation_source_item \<Rightarrow> int list" where
  "source_frames_of src_im =
     (case ReferencedFrameNumber src_im of
        NoFrameNumber \<Rightarrow> [- 1]
      | FrameNumber f \<Rightarrow> [f]
      | FrameNumbers fs \<Rightarrow> fs)"

definition frame_source_instances :: "frame_item \<Rightarrow> string list" where
  "frame_source_instances frame_item =
     map ReferencedSOPInstanceUID (concat (DerivationImageSequence frame_item))"

definition frame_source_frames :: "frame_item \<Rightarrow> int list" where
  "frame_source_frames frame_item =
     concat (map source_frames_of (concat (DerivationImageSequence frame_item)))"

definition frame_locations_preserved :: "frame_item \<Rightarrow> spatial_locations_preserved list" where
  "frame_locations_preserved frame_item =
     map (\<lambda>src_im. case SpatialLocationsPreserved src_im of
                      Some v \<Rightarrow> v | None \<Rightarrow> Preserved_UNKNOWN)
         (concat (DerivationImageSequence frame_item))"

text \<open>The columns collected by the loop of \<^verbatim>\<open>_build_luts\<close>.\<close>

record lut_columns =
  segnum_col_data :: "int list"
  source_instance_col_data :: "int list"
  source_frame_col_data :: "int list"
  locations_preserved_list :: "spatial_locations_preserved list"

text \<open>
  The loop of \<^verbatim>\<open>_build_luts\<close> over the frames. The flag
  \<^verbatim>\<open>_single_source_frame_per_seg_frame\<close> is an attribute of the object and is cleared as
  soon as a frame references no or several source instances or source frames; a frame
  with a single reference to an unknown instance raises.
\<close>

fun build_luts_loop ::
  "frame_item list \<Rightarrow> segmentation \<Rightarrow> lut_columns \<Rightarrow> (py_error \<times> segmentation) + (segmentation \<times> lut_columns)" where
  "build_luts_loop [] self cols = Inr (self, cols)"
| "build_luts_loop (frame_item # frames) self cols =
     (let cols1 = cols\<lparr>
            segnum_col_data := segnum_col_data cols @ [ReferencedSegmentNumber frame_item],
            locations_preserved_list :=
              locations_preserved_list cols @ frame_locations_preserved frame_item\<rparr>
      in
      if length (remdups (frame_source_instances frame_item)) \<noteq> 1 \<or>
         length (remdups (frame_source_frames frame_item)) \<noteq> 1
      then build_luts_loop frames (self\<lparr>single_source_frame_per_seg_frame := False\<rparr>) cols1
      else
        let ref_instance_uid = hd (frame_source_instances frame_item) in
        (case get_src_uid_index self ref_instance_uid of
           Inl e \<Rightarrow>
             Inl (DicomAttributeError
               ''SOP instance referenced in the source image sequence is not included in the Referenced Series Sequence'',
               self)
         | Inr src_uid_ind \<Rightarrow>
             build_luts_loop frames self
               (cols1\<lparr>
                  source_instance_col_data := source_instance_col_data cols1 @ [int src_uid_ind],
                  source_frame_col_data :=
                    source_frame_col_data cols1 @ [hd (frame_source_frames frame_item)]\<rparr>)))"

definition summarise_locations_preserved ::
  "spatial_locations_preserved list \<Rightarrow> spatial_locations_preserved option" where
  "summarise_locations_preserved vs =
     (if \<exists>v \<in> set vs. v = Preserved_NO then Some Preserved_NO
      else if \<forall>v \<in> set vs. v = Preserved_YES then Some Preserved_YES
      else None)"

text \<open>\<^verbatim>\<open>np.array([a, b, c]).T\<close> for three columns of the same length.\<close>

definition lut_rows :: "lut_columns \<Rightarrow> int list list" where
  "lut_rows cols =
     map (\<lambda>i. [segnum_col_data cols ! i, source_instance_col_data cols ! i,
                source_frame_col_data cols ! i])
         [0..<length (segnum_col_data cols)]"

definition build_luts :: "segmentation \<Rightarrow> mutation" where
  "build_luts self0 =
     (let self1 = (build_ref_instance_lut self0)\<lparr>single_source_frame_per_seg_frame := True\<rparr> in
      case build_luts_loop (PerFrameFunctionalGroupsSequence self1) self1
             \<lparr>segnum_col_data = [], source_instance_col_data = [],
              source_frame_col_data = [], locations_preserved_list = []\<rparr> of
        Inl err \<Rightarrow> Inl err
      | Inr (self2, cols) \<Rightarrow>
          let self3 = self2\<lparr>locations_preserved :=
                        summarise_locations_preserved (locations_preserved_list cols)\<rparr>
          in
          if single_source_frame_per_seg_frame self3
          then Inr (self3\<lparr>lut_attrs := (lut_attrs self3)
                      (''_frame_lut'' \<mapsto> FrameLut (lut_rows cols),
                       ''_lut_seg_col'' \<mapsto> LutColumn 0,
                       ''_lut_src_instance_col'' \<mapsto> LutColumn 1,
                       ''_lut_src_frame_col'' \<mapsto> LutColumn 2)\<rparr>)
          else Inr self3)"

text \<open>Reading an attribute of the lookup tables.\<close>

definition get_frame_lut :: "segmentation \<Rightarrow> string \<Rightarrow> py_error + int list list" where
  "get_frame_lut self name =
     (case lut_attrs self name of
        Some (FrameLut lut) \<Rightarrow> Inr lut
      | _ \<Rightarrow> Inl (AttributeError name))"

definition get_lut_column :: "segmentation \<Rightarrow> string \<Rightarrow> py_error + nat" where
  "get_lut_column self name =
     (case lut_attrs self name of
        Some (LutColumn c) \<Rightarrow> Inr c
      | _ \<Rightarrow> Inl (AttributeError name))"

definition number_of_segments :: "segmentation \<Rightarrow> nat" where
  "number_of_segments self = length (SegmentSequence self)"

definition segment_numbers_of :: "segmentation \<Rightarrow> int list" where
  "segment_numbers_of self = map int [1..<number_of_segments self + 1]"

text \<open>\<^verbatim>\<open>np.where(column == v)[0].tolist()\<close>: the (0-based) positions of the rows whose
  entry in the column is \<open>v\<close>.\<close>

definition np_where_column :: "int list list \<Rightarrow> nat \<Rightarrow> int \<Rightarrow> nat list" where
  "np_where_column lut col v = filter (\<lambda>i. lut ! i ! col = v) [0..<length lut]"

text \<open>\<^verbatim>\<open>list_seg_frames_for_segment_number\<close>. It reads the attributes \<^verbatim>\<open>frame_lut\<close> and
  \<^verbatim>\<open>lut_seg_col\<close> (without the leading underscore), in this order.\<close>

definition list_seg_frames_for_segment_number :: "segmentation \<Rightarrow> int \<Rightarrow> py_error + nat list" where
  "list_seg_frames_for_segment_number self segment_number =
     (if segment_number \<notin> set (segment_numbers_of self)
      then Inl (KeyError ''No segment found with specified segment number'')
      else
        case get_frame_lut self ''frame_lut'' of
          Inl e \<Rightarrow> Inl e
        | Inr lut \<Rightarrow>
            (case get_lut_column self ''lut_seg_col'' of
               Inl e \<Rightarrow> Inl e
             | Inr col \<Rightarrow> Inr (np_where_column lut col segment_number)))"

subsubsection \<open>Loading an existing dataset\<close>

text \<open>
  A stored dataset as \<^verbatim>\<open>from_dataset\<close> reads it: its attributes, and the Image Orientation
  (Slide) and the Image Orientation (Patient) of the first item of the Plane Orientation
  Sequence of the shared functional groups, each of which may be absent.
\<close>

record stored_dataset =
  ds_attributes :: segmentation
  ds_ImageOrientationSlide :: "rat list option"
  ds_ImageOrientationPatient :: "rat list option"

definition segments_consecutive :: "segment_description list \<Rightarrow> bool" where
  "segments_consecutive segs =
     (map SegmentNumber segs = map int [1..<length segs + 1])"

text \<open>
  \<^verbatim>\<open>from_dataset\<close>: the SOP class must be that of a Segmentation; the copy has no source
  images and no source plane orientation (the empty list); the coordinate system and
  the plane orientation are taken from the Plane Orientation Sequence, which must hold
  one of the two orientation attributes; the segments must be numbered 1, 2, ... in
  order; the inventory holds the segment numbers.
  Then every item of the Segment Sequence is passed to
  \<^verbatim>\<open>SegmentDescription.from_dataset\<close>. The class \<^verbatim>\<open>SegmentDescription\<close> (seg/content.py)
  defines no such attribute, and neither does its base class, so the first item raises
  AttributeError. Without segments the functional group items are converted by classes of
  highdicom/content.py, which is not among the sources: \<open>functional_groups_error\<close> is the
  exception, if any, that these conversions raise. At last the lookup tables are built.
  An exception leaves no object.
\<close>

definition from_dataset :: "py_error option \<Rightarrow> stored_dataset \<Rightarrow> py_error + segmentation" where
  "from_dataset functional_groups_error dataset =
     (if SOPClassUID (ds_attributes dataset) \<noteq> ''1.2.840.10008.5.1.4.1.1.66.4''
      then Inl (ValueError ''Dataset is not a Segmentation.'')
      else
        let seg = (ds_attributes dataset)\<lparr>source_images := None,
                                          source_plane_orientation := []\<rparr>
        in
        case (case ds_ImageOrientationSlide dataset of
                Some orientation \<Rightarrow> Some (SLIDE, orientation)
              | None \<Rightarrow>
                  (case ds_ImageOrientationPatient dataset of
                     Some orientation \<Rightarrow> Some (PATIENT, orientation)
                   | None \<Rightarrow> None)) of
          None \<Rightarrow>
            Inl (DicomAttributeError
              ''Expected Plane Orientation Sequence to have either ImageOrientationSlide or ImageOrientationPatient attribute.'')
        | Some (coordinate_system, orientation) \<Rightarrow>
            let seg1 = seg\<lparr>coordinate_system_of := coordinate_system,
                           plane_orientation := orientation\<rparr>
            in
            if \<not> segments_consecutive (SegmentSequence seg1)
            then Inl (DicomAttributeError
                   ''Segments are expected to start at 1 and be consecutive integers.'')
            else
              let seg2 = seg1\<lparr>segment_inventory :=
                                set (map SegmentNumber (SegmentSequence seg1))\<rparr>
              in
              if SegmentSequence seg2 \<noteq> []
              then Inl (AttributeError ''from_dataset'')
              else
                (case functional_groups_error of
                   Some e \<Rightarrow> Inl e
                 | None \<Rightarrow>
                     (case build_luts seg2 of
                        Inl (e, seg3) \<Rightarrow> Inl e
                      | Inr seg3 \<Rightarrow> Inr seg3)))"

subsubsection \<open>Reconstruction of pixel arrays\<close>

text \<open>
  \<^verbatim>\<open>self.pixel_array\<close> (pydicom): the decoded Pixel Data, of shape (frames, rows, columns),
  or (rows, columns) when there is one frame. Encapsulated data is decoded by the
  external decoder; pydicom reshapes its output, which fails when the number of
  elements does not fit the shape.
\<close>

definition seg_pixel_array :: "codecs \<Rightarrow> segmentation \<Rightarrow> py_error + ndarray" where
  "seg_pixel_array env self =
     (let shp = native_shape (Rows self) (Columns self) (SamplesPerPixel self)
                  (get_nr_frames (NumberOfFrames self))
      in
      if is_encapsulated (TransferSyntaxUID self)
      then
        (case decode_encapsulated env (TransferSyntaxUID self) shp (BitsAllocated self)
                (PixelData self) of
           Inl e \<Rightarrow> Inl e
         | Inr a \<Rightarrow>
             if data_size (data a) = prod_list shp then Inr (a\<lparr>shape := shp\<rparr>)
             else Inl (ValueError ''cannot reshape array''))
      else native_pixel_array env (Rows self) (Columns self) (SamplesPerPixel self)
             (get_nr_frames (NumberOfFrames self)) (BitsAllocated self) UNSIGNED_INTEGER
             (PixelData self))"

text \<open>The values of one stored frame, in row-major order: the whole array when it has two
  dimensions (the special case of a single frame), frame \<open>k\<close> (0-based) otherwise.\<close>

definition frame_values :: "ndarray \<Rightarrow> nat \<Rightarrow> nat \<Rightarrow> rat list" where
  "frame_values a frame_size k =
     (if ndim a = 2 then data_values (data a)
      else take frame_size (drop (k * frame_size) (data_values (data a))))"

text \<open>
  \<^verbatim>\<open>_get_pixels_by_seg_frame\<close>. The matrix of frame numbers is a two-dimensional integer
  array, given by its rows (all of one length). The result array of shape (output frames,
  rows, columns, segments) is given as \<open>out ! f ! p ! s\<close>, where \<open>p\<close> is the row-major
  position of the pixel in the plane; after combining, the last axis is gone:
  \<open>out ! f ! p\<close>. \<^verbatim>\<open>min()\<close> and \<^verbatim>\<open>max()\<close> of an array without elements raise ValueError.
\<close>

datatype pixels = Stacked "rat list list list" | Combined "rat list list"

definition stack_frames :: "ndarray \<Rightarrow> nat \<Rightarrow> int list list \<Rightarrow> rat list list list" where
  "stack_frames decoded frame_size seg_frames_matrix =
     map (\<lambda>frm_row.
            map (\<lambda>p. map (\<lambda>seg_frame_num.
                             if seg_frame_num \<ge> 1
                             then frame_values decoded frame_size (nat (seg_frame_num - 1)) ! p
                             else 0)
                          frm_row)
                [0..<frame_size])
         seg_frames_matrix"

definition segments_overlap_in :: "rat list list list \<Rightarrow> bool" where
  "segments_overlap_in pixel_array =
     (\<exists>frm \<in> set pixel_array. \<exists>px \<in> set frm. sum_list px > 1)"

definition max_list :: "rat list \<Rightarrow> rat" where
  "max_list xs = fold max (tl xs) (hd xs)"

definition combine_pixels :: "rat list \<Rightarrow> rat list list list \<Rightarrow> rat list list" where
  "combine_pixels pixel_value_map pixel_array =
     map (map (\<lambda>px. max_list (map2 (*) px pixel_value_map))) pixel_array"

text \<open>The values the segments' planes are scaled by: \<^verbatim>\<open>np.arange(1, len(segment_numbers) + 1)\<close>
  when relabelling, the segment numbers otherwise.\<close>

definition pixel_value_map_of :: "bool \<Rightarrow> int list \<Rightarrow> rat list" where
  "pixel_value_map_of relabel segment_numbers =
     (if relabel then map (\<lambda>i. of_nat i) [1..<length segment_numbers + 1]
      else map of_int segment_numbers)"

definition get_pixels_by_seg_frame ::
  "codecs \<Rightarrow> segmentation \<Rightarrow> int list list \<Rightarrow> int list \<Rightarrow> bool \<Rightarrow> bool \<Rightarrow> py_error + pixels" where
  "get_pixels_by_seg_frame env self seg_frames_matrix segment_numbers combine_segments relabel =
     (if combine_segments \<and> SegmentationType self \<noteq> BINARY
      then Inl (ValueError ''Cannot combine segments if the segmentation is not binary'')
      else if concat seg_frames_matrix = []
      then Inl (ValueError ''zero-size array to reduction operation minimum which has no identity'')
      else if Min (set (concat seg_frames_matrix)) < - 1
      then Inl (ValueError ''Seg frames matrix may not contain negative values other than -1.'')
      else if Max (set (concat seg_frames_matrix)) > int (NumberOfFrames self)
      then Inl (ValueError
        ''Seg frames matrix contains values outside the range of segmentation frames in the image.'')
      else if length segment_numbers \<noteq> length (hd seg_frames_matrix)
      then Inl (ValueError
        ''Segment numbers array does not match the shape of the seg frames matrix.'')
      else if Min (set segment_numbers) < 1 \<or>
              Max (set segment_numbers) > int (number_of_segments self)
      then Inl (ValueError ''Segment numbers array contains invalid values.'')
      else
        case seg_pixel_array env self of
          Inl e \<Rightarrow> Inl e
        | Inr decoded \<Rightarrow>
            let pixel_array =
                  stack_frames decoded (Rows self * Columns self) seg_frames_matrix
            in
            if combine_segments
            then
              (if segments_overlap_in pixel_array
               then Inl (RuntimeError ''Segments cannot be combined because they overlap'')
               else
                 Inr (Combined (combine_pixels (pixel_value_map_of relabel segment_numbers)
                        pixel_array)))
            else Inr (Stacked pixel_array))"

text \<open>A loop whose body may raise: the first exception ends it.\<close>

fun mapM_result :: "('a \<Rightarrow> py_error + 'b) \<Rightarrow> 'a list \<Rightarrow> py_error + 'b list" where
  "mapM_result f [] = Inr []"
| "mapM_result f (x # xs) =
     (case f x of
        Inl e \<Rightarrow> Inl e
      | Inr y \<Rightarrow> (case mapM_result f xs of Inl e \<Rightarrow> Inl e | Inr ys \<Rightarrow> Inr (y # ys)))"

text \<open>The cell of the frame matrix for one query row of the lookup table: the 1-based
  number of the only frame that matches, \<open>-1\<close> when none does.\<close>

definition find_seg_frame :: "int list list \<Rightarrow> int list \<Rightarrow> py_error + int" where
  "find_seg_frame lut qry =
     (let seg_frm_indices = filter (\<lambda>i. lut ! i = qry) [0..<length lut] in
      if length seg_frm_indices = 1 then Inr (int (hd seg_frm_indices) + 1)
      else if length seg_frm_indices > 0
      then Inl (RuntimeError
        ''An unexpected error was encountered during indexing of the segmentation image.'')
      else Inr (- 1))"

definition select_columns :: "int list list \<Rightarrow> nat list \<Rightarrow> int list list" where
  "select_columns lut cols = map (\<lambda>row. map (\<lambda>c. row ! c) cols) lut"

text \<open>The frame matrix when no source frame numbers are given: one row per source SOP
  instance UID.\<close>

definition seg_frames_by_instance ::
  "segmentation \<Rightarrow> string list \<Rightarrow> int list \<Rightarrow> bool \<Rightarrow> py_error + int list list" where
  "seg_frames_by_instance self source_sop_instance_uids segment_numbers
      assert_missing_frames_are_empty =
     (case get_lut_column self ''_lut_src_instance_col'' of Inl e \<Rightarrow> Inl e | Inr inst_col \<Rightarrow>
      case get_lut_column self ''_lut_seg_col'' of Inl e \<Rightarrow> Inl e | Inr seg_col \<Rightarrow>
      case get_frame_lut self ''_frame_lut'' of Inl e \<Rightarrow> Inl e | Inr frame_lut \<Rightarrow>
        let lut = select_columns frame_lut [inst_col, seg_col] in
        if \<not> distinct lut
        then Inl (RuntimeError
          ''Source SOP instance UIDs and segment numbers do not uniquely identify frames of the segmentation image.'')
        else
          mapM_result
            (\<lambda>sop_uid.
               case get_src_uid_index self sop_uid of
                 Inl e \<Rightarrow>
                   if assert_missing_frames_are_empty
                   then Inr (replicate (length segment_numbers) (- 1))
                   else Inl (KeyError
                     ''SOP Instance UID does not match any referenced source frames.'')
               | Inr src_uid_ind \<Rightarrow>
                   mapM_result (\<lambda>seg_num. find_seg_frame lut [int src_uid_ind, seg_num])
                     segment_numbers)
            source_sop_instance_uids)"

text \<open>The frame matrix when source frame numbers are given: one row per frame number of
  the single source instance. The test whether a frame number occurs reads column 1
  of the two selected columns, as the source does.\<close>

definition seg_frames_by_frame_number ::
  "segmentation \<Rightarrow> string list \<Rightarrow> int list \<Rightarrow> int list \<Rightarrow> bool \<Rightarrow> py_error + int list list" where
  "seg_frames_by_frame_number self source_sop_instance_uids source_frame_numbers
      segment_numbers assert_missing_frames_are_empty =
     (if length source_sop_instance_uids \<noteq> 1
      then Inl (ValueError
        ''Only a single source SOP instance UID may be specified when frame numbers are specified.'')
      else
      case get_src_uid_index self (hd source_sop_instance_uids) of Inl e \<Rightarrow> Inl e | Inr src_uid_ind \<Rightarrow>
      case get_lut_column self ''_lut_src_instance_col'' of Inl e \<Rightarrow> Inl e | Inr inst_col \<Rightarrow>
      case get_frame_lut self ''_frame_lut'' of Inl e \<Rightarrow> Inl e | Inr frame_lut \<Rightarrow>
      case get_lut_column self ''_lut_src_frame_col'' of Inl e \<Rightarrow> Inl e | Inr frame_col \<Rightarrow>
      case get_lut_column self ''_lut_seg_col'' of Inl e \<Rightarrow> Inl e | Inr seg_col \<Rightarrow>
        let lut = select_columns
                    (filter (\<lambda>row. row ! inst_col = int src_uid_ind) frame_lut)
                    [frame_col, seg_col]
        in
        if \<not> distinct lut
        then Inl (RuntimeError
          ''Source frame numbers and segment numbers do not uniquely identify frames of the segmentation image.'')
        else
          mapM_result
            (\<lambda>src_frm_num.
               if src_frm_num \<notin> set (map (\<lambda>row. row ! 1) lut)
               then
                 (if assert_missing_frames_are_empty
                  then Inr (replicate (length segment_numbers) (- 1))
                  else Inl (KeyError
                    ''Source frame number does not match any referenced source frame.''))
               else mapM_result (\<lambda>seg_num. find_seg_frame lut [src_frm_num, seg_num])
                      segment_numbers)
            source_frame_numbers)"

text \<open>\<^verbatim>\<open>get_pixels_by_source_frame\<close>.\<close>

definition get_pixels_by_source_frame ::
  "codecs \<Rightarrow> segmentation \<Rightarrow> string list \<Rightarrow> int list option \<Rightarrow> int list option \<Rightarrow> bool
    \<Rightarrow> bool \<Rightarrow> bool \<Rightarrow> bool \<Rightarrow> py_error + pixels" where
  "get_pixels_by_source_frame env self source_sop_instance_uids source_frame_numbers
      segment_numbers_arg combine_segments relabel assert_locations_preserved
      assert_missing_frames_are_empty =
     (if locations_preserved self = None \<and> \<not> assert_locations_preserved
      then Inl (RuntimeError
        ''Indexing via source frames is not permissible since this image does not specify that spatial locations are preserved'')
      else if locations_preserved self = Some Preserved_NO
      then Inl (RuntimeError
        ''Indexing via source frames is not permissible since this image specifies that spatial locations are not preserved'')
      else if \<not> single_source_frame_per_seg_frame self
      then Inl (RuntimeError
        ''Indexing via source frames is not permissible since some frames in the segmentation specify multiple source frames.'')
      else
        let segment_numbers =
              (case segment_numbers_arg of None \<Rightarrow> segment_numbers_of self | Some ns \<Rightarrow> ns)
        in
        if length segment_numbers = 0
        then Inl (ValueError ''Segment numbers may not be empty.'')
        else if length source_sop_instance_uids = 0
        then Inl (ValueError ''Source SOP instance UIDs may not be empty.'')
        else
          case (case source_frame_numbers of
                  None \<Rightarrow> seg_frames_by_instance self source_sop_instance_uids
                            segment_numbers assert_missing_frames_are_empty
                | Some frame_numbers \<Rightarrow>
                    seg_frames_by_frame_number self source_sop_instance_uids frame_numbers
                      segment_numbers assert_missing_frames_are_empty) of
            Inl e \<Rightarrow> Inl e
          | Inr seg_frames \<Rightarrow>
              get_pixels_by_seg_frame env self seg_frames segment_numbers combine_segments
                relabel)"

subsubsection \<open>Adding segments: validation\<close>

text \<open>\<^verbatim>\<open>(np.diff(described_segment_numbers) == 1).all()\<close>.\<close>

fun np_diff_all_one :: "int list \<Rightarrow> bool" where
  "np_diff_all_one (x # y # zs) = (y - x = 1 \<and> np_diff_all_one (y # zs))"
| "np_diff_all_one xs = True"

definition seg_num_start :: "segmentation \<Rightarrow> int" where
  "seg_num_start self =
     (if segment_inventory self \<noteq> {} then Max (segment_inventory self) + 1 else 1)"

text \<open>\<^verbatim>\<open>pixel_array[np.newaxis, ...]\<close> for an array of two dimensions.\<close>

definition newaxis_if_2d :: "ndarray \<Rightarrow> ndarray" where
  "newaxis_if_2d a = (if ndim a = 2 then a\<lparr>shape := 1 # shape a\<rparr> else a)"

text \<open>\<^verbatim>\<open>pixel_array[pixel_array > 0].astype(np.uint16)\<close> for the boolean and unsigned dtypes.\<close>

fun positive_values :: "array_data \<Rightarrow> nat list" where
  "positive_values (BoolData xs) = map (\<lambda>b. 1) (filter (\<lambda>b. b) xs)"
| "positive_values (UInt8Data xs) = map unat (filter (\<lambda>w. w \<noteq> 0) xs)"
| "positive_values (UInt16Data xs) = map unat (filter (\<lambda>w. w \<noteq> 0) xs)"
| "positive_values d = []"

text \<open>\<^verbatim>\<open>pixel_array.astype(np.uint8)\<close>, and the in-place product with the segment number,
  which wraps around in \<^verbatim>\<open>uint8\<close>.\<close>

fun astype_uint8 :: "array_data \<Rightarrow> 8 word list" where
  "astype_uint8 (BoolData xs) = map of_bool xs"
| "astype_uint8 (UInt8Data xs) = xs"
| "astype_uint8 (UInt16Data xs) = map ucast xs"
| "astype_uint8 d = []"

definition relabel_binary_mask :: "ndarray \<Rightarrow> int \<Rightarrow> ndarray" where
  "relabel_binary_mask pixel_array segment_number =
     pixel_array\<lparr>data := UInt8Data (map (\<lambda>w. w * of_int segment_number)
                                        (astype_uint8 (data pixel_array)))\<rparr>"

text \<open>The branch for boolean and unsigned integer arrays.\<close>

definition classify_integer_pixels ::
  "ndarray \<Rightarrow> int list \<Rightarrow> nat \<Rightarrow> py_error + ndarray" where
  "classify_integer_pixels pixel_array described_segment_numbers n_descriptions =
     (let segments_present = np_unique (positive_values (data pixel_array)) in
      if segments_present = [1] \<and> n_descriptions = 1
      then Inr (relabel_binary_mask pixel_array (hd described_segment_numbers))
      else if \<not> (\<forall>v \<in> set segments_present. int v \<in> set described_segment_numbers)
      then Inl (ValueError ''Pixel array contains segments that lack descriptions.'')
      else Inr pixel_array)"

text \<open>The branch for floating point arrays; \<^verbatim>\<open>np.min\<close> of an array without elements
  raises ValueError.\<close>

definition classify_float_pixels ::
  "segmentation \<Rightarrow> ndarray \<Rightarrow> rat list \<Rightarrow> nat \<Rightarrow> py_error + ndarray" where
  "classify_float_pixels self pixel_array xs n_descriptions =
     (if xs = []
      then Inl (ValueError
        ''zero-size array to reduction operation minimum which has no identity'')
      else if Min (set xs) < 0 \<or> Max (set xs) > 1
      then Inl (ValueError ''Floating point pixel array values must be in the range [0, 1].'')
      else if n_descriptions \<noteq> 1
      then Inl (ValueError
        ''When providing a float-valued pixel array, provide only a single segment description'')
      else if SegmentationType self = BINARY
      then
        (if \<exists>v \<in> set xs. 0 < v \<and> v < 1
         then Inl (ValueError
           ''Floating point pixel array values must be either 0.0 or 1.0 in case of BINARY segmentation type.'')
         else Inr (pixel_array\<lparr>data := BoolData (map (\<lambda>v. v \<noteq> 0) xs)\<rparr>))
      else Inr pixel_array)"

definition classify_pixels ::
  "segmentation \<Rightarrow> ndarray \<Rightarrow> int list \<Rightarrow> nat \<Rightarrow> py_error + ndarray" where
  "classify_pixels self pixel_array described_segment_numbers n_descriptions =
     (case data pixel_array of
        FloatData xs \<Rightarrow> classify_float_pixels self pixel_array xs n_descriptions
      | IntData bits is_signed xs \<Rightarrow> Inl (TypeError ''Pixel array has an invalid data type.'')
      | OtherData \<Rightarrow> Inl (TypeError ''Pixel array has an invalid data type.'')
      | _ \<Rightarrow> classify_integer_pixels pixel_array described_segment_numbers n_descriptions)"

text \<open>
  The checks of \<^verbatim>\<open>add_segments\<close> up to and including the test for segments that exist
  already, in the order of the source. Nothing is assigned to the object on the way;
  the result is the pixel array as the checks leave it and the described segment
  numbers. \<^verbatim>\<open>described_segment_numbers[0]\<close> raises IndexError when there is no
  description.
\<close>

definition validate_segments ::
  "segmentation \<Rightarrow> ndarray \<Rightarrow> segment_description list \<Rightarrow> py_error + (ndarray \<times> int list)" where
  "validate_segments self pixel_array0 segment_descriptions =
     (if source_images self = None
      then Inl (AttributeError
        ''Further segments may not be added to Segmentation objects created from existing datasets.'')
      else
        let pixel_array = newaxis_if_2d pixel_array0 in
        if ndim pixel_array \<noteq> 3
        then Inl (ValueError ''Pixel array must be a 2D or 3D array.'')
        else if (shape pixel_array ! 1, shape pixel_array ! 2) \<noteq> (Rows self, Columns self)
        then Inl (ValueError
          ''Pixel array representing segments has the wrong number of rows and columns.'')
        else
          let described_segment_numbers = map SegmentNumber segment_descriptions in
          if \<not> np_diff_all_one described_segment_numbers
          then Inl (ValueError
            ''Segment descriptions must be sorted by segment number and monotonically increasing by 1.'')
          else if described_segment_numbers = []
          then Inl (IndexError ''index 0 is out of bounds for axis 0 with size 0'')
          else if hd described_segment_numbers \<noteq> seg_num_start self
          then Inl (ValueError
            (if seg_num_start self = 1
             then ''Segment descriptions should be numbered starting from 1.''
             else ''Segment descriptions should be numbered to continue from existing segments.''))
          else
            case classify_pixels self pixel_array described_segment_numbers
                   (length segment_descriptions) of
              Inl e \<Rightarrow> Inl e
            | Inr pixel_array' \<Rightarrow>
                if set described_segment_numbers \<inter> segment_inventory self \<noteq> {}
                then Inl (ValueError ''Segment with given segment number already exists'')
                else Inr (pixel_array', described_segment_numbers))"

subsubsection \<open>Adding segments: plane positions\<close>

text \<open>\<^verbatim>\<open>get_plane_positions_of_image\<close> and \<^verbatim>\<open>get_plane_positions_of_series\<close> of the
  dimension index (seg/content.py).\<close>

definition get_plane_positions_of_image :: "source_image \<Rightarrow> py_error + plane_position list" where
  "get_plane_positions_of_image img =
     (if src_NumberOfFrames img = None
      then Inl (ValueError ''Argument image must be a multi-frame image.'')
      else Inr (src_frame_positions img))"

definition get_plane_positions_of_series ::
  "source_image list \<Rightarrow> py_error + plane_position list" where
  "get_plane_positions_of_series images =
     (if \<exists>img \<in> set images. src_NumberOfFrames img \<noteq> None
      then Inl (ValueError ''Argument images must be a series of single-frame images.'')
      else Inr (map (\<lambda>img. case src_ImagePositionPatient img of
                             (x, y, z) \<Rightarrow> PlanePositionPatient x y z) images))"

definition source_plane_positions_of :: "source_image list \<Rightarrow> py_error + plane_position list" where
  "source_plane_positions_of images =
     (case images of
        [] \<Rightarrow> Inl (IndexError ''list index out of range'')
      | src_image # rest \<Rightarrow>
          if src_NumberOfFrames src_image \<noteq> None then get_plane_positions_of_image src_image
          else get_plane_positions_of_series images)"

text \<open>The plane positions of the call: those given, or those of the source images; in
  both cases their number must be the number of planes of the pixel array.\<close>

definition resolve_plane_positions ::
  "source_image list \<Rightarrow> ndarray \<Rightarrow> plane_position list option
    \<Rightarrow> py_error + (plane_position list \<times> plane_position list)" where
  "resolve_plane_positions images pixel_array plane_positions_arg =
     (case source_plane_positions_of images of
        Inl e \<Rightarrow> Inl e
      | Inr source_plane_positions \<Rightarrow>
          (case plane_positions_arg of
             None \<Rightarrow>
               if shape pixel_array ! 0 \<noteq> length source_plane_positions
               then Inl (ValueError
                 (if src_NumberOfFrames (hd images) \<noteq> None
                  then ''Number of frames in pixel array does not match number of frames in source image.''
                  else ''Number of frames in pixel array does not match number of source images.''))
               else Inr (source_plane_positions, source_plane_positions)
           | Some plane_positions \<Rightarrow>
               if shape pixel_array ! 0 \<noteq> length plane_positions
               then Inl (ValueError
                 ''Number of pixel array planes does not match number of provided plane positions.'')
               else Inr (plane_positions, source_plane_positions)))"

text \<open>\<^verbatim>\<open>all(plane_positions[i] == source_plane_positions[i] for i in range(...))\<close>: the
  first difference ends the loop; reading past the end of the source positions raises
  IndexError.\<close>

fun all_positions_equal ::
  "plane_position list \<Rightarrow> plane_position list \<Rightarrow> py_error + bool" where
  "all_positions_equal [] qs = Inr True"
| "all_positions_equal (p # ps) [] = Inl (IndexError ''list index out of range'')"
| "all_positions_equal (p # ps) (q # qs) =
     (if p = q then all_positions_equal ps qs else Inr False)"

text \<open>The distinct values of every indexed attribute;
  \<^verbatim>\<open>plane_position_values.shape[1]\<close> raises IndexError when there is no plane.\<close>

definition dimension_position_values_of ::
  "rat list list list \<Rightarrow> py_error + rat list list list" where
  "dimension_position_values_of plane_position_values =
     (case plane_position_values of
        [] \<Rightarrow> Inl (IndexError ''tuple index out of range'')
      | row # rest \<Rightarrow>
          Inr (map (\<lambda>index. np_unique (map (\<lambda>r. r ! index) plane_position_values))
                   [0..<length row]))"

text \<open>Whether the new frames are appended to the stored bytes as they are.\<close>

definition framewise_encoding_of :: "segmentation \<Rightarrow> bool" where
  "framewise_encoding_of self =
     (\<not> is_encapsulated (TransferSyntaxUID self) \<and>
      (SegmentationType self = FRACTIONAL \<or>
       (SegmentationType self = BINARY \<and>
        (Rows self * Columns self * SamplesPerPixel self) mod 8 = 0)))"

subsubsection \<open>Adding segments: planes and frames\<close>

text \<open>\<^verbatim>\<open>np.around\<close> rounds halves to the even neighbour; \<^verbatim>\<open>astype(np.uint8)\<close> keeps the low
  8 bits.\<close>

definition np_around :: "rat \<Rightarrow> int" where
  "np_around x =
     (let f = \<lfloor>x\<rfloor>; d = x - of_int f in
      if d < 1 / 2 then f
      else if d > 1 / 2 then f + 1
      else if even f then f else f + 1)"

text \<open>The planes of one segment: the scaled values of a floating point array, the mask of
  the pixels that hold the segment number in a labelled array, a boolean array as it is.\<close>

definition segment_planes :: "segmentation \<Rightarrow> ndarray \<Rightarrow> int \<Rightarrow> py_error + array_data" where
  "segment_planes self pixel_array segment_number =
     (case data pixel_array of
        FloatData xs \<Rightarrow>
          (case MaximumFractionalValue self of
             None \<Rightarrow> Inl (AttributeError ''MaximumFractionalValue'')
           | Some m \<Rightarrow> Inr (UInt8Data (map (\<lambda>x. of_int (np_around (x * of_nat m))) xs)))
      | UInt8Data xs \<Rightarrow> Inr (BoolData (map (\<lambda>w. uint w = segment_number) xs))
      | UInt16Data xs \<Rightarrow> Inr (BoolData (map (\<lambda>w. uint w = segment_number) xs))
      | BoolData xs \<Rightarrow> Inr (BoolData xs)
      | IntData bits is_signed xs \<Rightarrow> Inl (TypeError ''Pixel array has an invalid data type.'')
      | OtherData \<Rightarrow> Inl (TypeError ''Pixel array has an invalid data type.''))"

text \<open>\<^verbatim>\<open>planes[j]\<close> and \<^verbatim>\<open>planes[contained_plane_index]\<close> for planes of \<open>frame_size\<close>
  elements.\<close>

fun take_planes :: "nat \<Rightarrow> array_data \<Rightarrow> nat list \<Rightarrow> array_data" where
  "take_planes frame_size (BoolData xs) js =
     BoolData (concat (map (\<lambda>j. take frame_size (drop (j * frame_size) xs)) js))"
| "take_planes frame_size (UInt8Data xs) js =
     UInt8Data (concat (map (\<lambda>j. take frame_size (drop (j * frame_size) xs)) js))"
| "take_planes frame_size (UInt16Data xs) js =
     UInt16Data (concat (map (\<lambda>j. take frame_size (drop (j * frame_size) xs)) js))"
| "take_planes frame_size (FloatData xs) js =
     FloatData (concat (map (\<lambda>j. take frame_size (drop (j * frame_size) xs)) js))"
| "take_planes frame_size (IntData bits is_signed xs) js =
     IntData bits is_signed (concat (map (\<lambda>j. take frame_size (drop (j * frame_size) xs)) js))"
| "take_planes frame_size OtherData js = OtherData"

text \<open>\<^verbatim>\<open>np.sum(planes[j]) == 0\<close>.\<close>

definition plane_is_empty :: "nat \<Rightarrow> array_data \<Rightarrow> nat \<Rightarrow> bool" where
  "plane_is_empty frame_size planes j =
     (sum_list (data_values (take_planes frame_size planes [j])) = 0)"

text \<open>What one call of \<^verbatim>\<open>add_segments\<close> computes before its loops.\<close>

record add_context =
  ctx_plane_positions :: "plane_position list"
  ctx_plane_position_values :: "rat list list list"
  ctx_plane_sort_index :: "nat list"
  ctx_dimension_position_values :: "rat list list list"
  ctx_locations_preserved :: bool

text \<open>The dimension index values of plane \<open>j\<close>: the 1-based rank of each of its attribute
  values among the distinct values of the attribute.\<close>

definition plane_index_values :: "add_context \<Rightarrow> nat \<Rightarrow> py_error + int list" where
  "plane_index_values ctx j =
     mapM_result
       (\<lambda>(idx, pos).
          case np_where_first (ctx_dimension_position_values ctx ! idx) pos of
            Inl e \<Rightarrow>
              Inl (IndexError
                ''Could not determine position of plane in three dimensional coordinate system based on dimension index values'')
          | Inr i \<Rightarrow> Inr (int i + 1))
       (enumerate 0 (ctx_plane_position_values ctx ! j))"

text \<open>The derivation items of plane \<open>j\<close> when the spatial locations are preserved: frame
  \<open>j + 1\<close> of the only source image when there are more planes than source images,
  source image \<open>j\<close> otherwise.\<close>

definition plane_derivation ::
  "segmentation \<Rightarrow> nat \<Rightarrow> nat \<Rightarrow> nat \<Rightarrow> py_error + derivation_source_item list list" where
  "plane_derivation self n_source_images n_sorted j =
     (if n_sorted > n_source_images
      then
        (case SourceImageSequence self of
           [] \<Rightarrow> Inl (IndexError ''list index out of range'')
         | src_img_item # rest \<Rightarrow>
             Inr [[\<lparr>ReferencedSOPInstanceUID = snd src_img_item,
                    ReferencedFrameNumber = FrameNumber (int j + 1),
                    SpatialLocationsPreserved = Some Preserved_YES\<rparr>]])
      else if j < length (SourceImageSequence self)
      then Inr [[\<lparr>ReferencedSOPInstanceUID = snd (SourceImageSequence self ! j),
                  ReferencedFrameNumber = NoFrameNumber,
                  SpatialLocationsPreserved = Some Preserved_YES\<rparr>]]
      else Inl (IndexError ''list index out of range''))"

definition make_frame_item ::
  "segmentation \<Rightarrow> nat \<Rightarrow> add_context \<Rightarrow> int \<Rightarrow> nat \<Rightarrow> py_error + frame_item" where
  "make_frame_item self n_source_images ctx segment_number j =
     (case plane_index_values ctx j of
        Inl e \<Rightarrow> Inl e
      | Inr index_values \<Rightarrow>
          (case (if ctx_locations_preserved ctx
                 then plane_derivation self n_source_images
                        (length (ctx_plane_sort_index ctx)) j
                 else Inr []) of
             Inl e \<Rightarrow> Inl e
           | Inr derivation \<Rightarrow>
               Inr \<lparr>ReferencedSegmentNumber = segment_number,
                    DimensionIndexValues = segment_number # index_values,
                    PlanePosition = ctx_plane_positions ctx ! j,
                    DerivationImageSequence = derivation\<rparr>))"

text \<open>
  The loop over the sorted plane indices for one segment: an empty plane is skipped;
  for any other plane its index is kept, and a frame item is appended to the
  Per-frame Functional Groups Sequence and the Number Of Frames is incremented.
\<close>

fun add_planes ::
  "nat \<Rightarrow> add_context \<Rightarrow> nat \<Rightarrow> array_data \<Rightarrow> int \<Rightarrow> nat list \<Rightarrow> segmentation \<Rightarrow> nat list
    \<Rightarrow> (py_error \<times> segmentation) + (segmentation \<times> nat list)" where
  "add_planes n_source_images ctx frame_size planes segment_number [] self contained_plane_index =
     Inr (self, contained_plane_index)"
| "add_planes n_source_images ctx frame_size planes segment_number (j # js) self contained_plane_index =
     (if plane_is_empty frame_size planes j
      then add_planes n_source_images ctx frame_size planes segment_number js self contained_plane_index
      else
        case make_frame_item self n_source_images ctx segment_number j of
          Inl e \<Rightarrow> Inl (e, self)
        | Inr pffp_item \<Rightarrow>
            add_planes n_source_images ctx frame_size planes segment_number js
              (self\<lparr>PerFrameFunctionalGroupsSequence :=
                       PerFrameFunctionalGroupsSequence self @ [pffp_item],
                     NumberOfFrames := NumberOfFrames self + 1\<rparr>)
              (contained_plane_index @ [j]))"

subsubsection \<open>Adding segments: pixel data\<close>

text \<open>\<^verbatim>\<open>_encode_pixels\<close>; Photometric Interpretation and Pixel Representation are the values
  the constructor assigns.\<close>

definition encode_pixels :: "codecs \<Rightarrow> segmentation \<Rightarrow> ndarray \<Rightarrow> py_error + byte list" where
  "encode_pixels env self planes =
     (if is_encapsulated (TransferSyntaxUID self)
      then
        (if ndim planes = 3 \<and> shape planes ! 0 \<noteq> 1
         then Inl (ValueError
           ''Only single frame can be encoded at at time in case of encapsulated format encoding.'')
         else encode_frame env
                (if ndim planes = 3 then planes\<lparr>shape := tl (shape planes)\<rparr> else planes)
                (TransferSyntaxUID self) (BitsAllocated self) (BitsStored self) MONOCHROME2
                UNSIGNED_INTEGER None)
      else if SegmentationType self = BINARY then pack_bits (data planes)
      else Inr (tobytes env (data planes)))"

text \<open>How the new frames reach the Pixel Data: appended to it at once (framewise), or
  collected as encoded frames, or as samples, to be encoded at the end.\<close>

datatype pixel_accumulator =
  Framewise | FullFramesList "byte list list" | FullPixelArray array_data

text \<open>\<^verbatim>\<open>np.concatenate\<close> of the samples decoded so far (boolean or \<^verbatim>\<open>uint8\<close>) and the boolean
  planes of a segment; no other combination reaches this path.\<close>

fun np_concatenate :: "array_data \<Rightarrow> array_data \<Rightarrow> array_data" where
  "np_concatenate (BoolData xs) (BoolData ys) = BoolData (xs @ ys)"
| "np_concatenate (UInt8Data xs) (BoolData ys) = UInt8Data (xs @ map of_bool ys)"
| "np_concatenate (BoolData xs) (UInt8Data ys) = UInt8Data (map of_bool xs @ ys)"
| "np_concatenate (UInt8Data xs) (UInt8Data ys) = UInt8Data (xs @ ys)"
| "np_concatenate a b = OtherData"

text \<open>The start of the pixel data update: the trailing pad byte is removed (framewise),
  or the stored frames are unwrapped, or the stored samples decoded.\<close>

definition start_pixel_update ::
  "codecs \<Rightarrow> segmentation \<Rightarrow> (py_error \<times> segmentation) + (segmentation \<times> pixel_accumulator)" where
  "start_pixel_update env self =
     (if framewise_encoding_of self
      then
        (if length (PixelData self) =
              get_expected_length (Rows self) (Columns self) (SamplesPerPixel self)
                (get_nr_frames (NumberOfFrames self)) (BitsAllocated self) + 1
         then Inr (self\<lparr>PixelData := butlast (PixelData self)\<rparr>, Framewise)
         else Inr (self, Framewise))
      else if is_encapsulated (TransferSyntaxUID self)
      then
        (if length (PixelData self) > 0
         then Inr (self, FullFramesList (decode_data_sequence env (PixelData self)))
         else Inr (self, FullFramesList []))
      else
        (if length (PixelData self) > 0
         then
           (case seg_pixel_array env self of
              Inl e \<Rightarrow> Inl (e, self)
            | Inr a \<Rightarrow> Inr (self, FullPixelArray (data a)))
         else Inr (self, FullPixelArray (BoolData []))))"

text \<open>The pixel data of one segment's kept planes.\<close>

definition store_planes ::
  "codecs \<Rightarrow> nat \<Rightarrow> array_data \<Rightarrow> nat list \<Rightarrow> segmentation \<Rightarrow> pixel_accumulator
    \<Rightarrow> (py_error \<times> segmentation) + (segmentation \<times> pixel_accumulator)" where
  "store_planes env frame_size planes contained_plane_index self acc =
     (case acc of
        Framewise \<Rightarrow>
          (case encode_pixels env self
                  \<lparr>shape = [length contained_plane_index, Rows self, Columns self],
                   data = take_planes frame_size planes contained_plane_index\<rparr> of
             Inl e \<Rightarrow> Inl (e, self)
           | Inr bytes \<Rightarrow> Inr (self\<lparr>PixelData := PixelData self @ bytes\<rparr>, Framewise))
      | FullFramesList full_frames_list \<Rightarrow>
          (case mapM_result
                  (\<lambda>f. encode_pixels env self
                         \<lparr>shape = [Rows self, Columns self],
                          data = take_planes frame_size planes [f]\<rparr>)
                  contained_plane_index of
             Inl e \<Rightarrow> Inl (e, self)
           | Inr frames \<Rightarrow> Inr (self, FullFramesList (full_frames_list @ frames)))
      | FullPixelArray full_pixel_array \<Rightarrow>
          Inr (self, FullPixelArray
                 (np_concatenate full_pixel_array (take_planes frame_size planes contained_plane_index))))"

text \<open>The loop over the described segments: the planes of the segment, its frames, its
  pixel data, and its entry in the Segment Sequence and in the inventory.\<close>

fun add_segment_loop ::
  "codecs \<Rightarrow> nat \<Rightarrow> add_context \<Rightarrow> ndarray \<Rightarrow> segment_description list \<Rightarrow> segmentation
    \<Rightarrow> pixel_accumulator \<Rightarrow> (py_error \<times> segmentation) + (segmentation \<times> pixel_accumulator)" where
  "add_segment_loop env n_source_images ctx pixel_array [] self acc = Inr (self, acc)"
| "add_segment_loop env n_source_images ctx pixel_array (description # descriptions) self acc =
     (let segment_number = SegmentNumber description;
          frame_size = Rows self * Columns self
      in
      case segment_planes self pixel_array segment_number of
        Inl e \<Rightarrow> Inl (e, self)
      | Inr planes \<Rightarrow>
          (case add_planes n_source_images ctx frame_size planes segment_number
                  (ctx_plane_sort_index ctx) self [] of
             Inl err \<Rightarrow> Inl err
           | Inr (self1, contained_plane_index) \<Rightarrow>
               (case store_planes env frame_size planes contained_plane_index self1 acc of
                  Inl err \<Rightarrow> Inl err
                | Inr (self2, acc') \<Rightarrow>
                    add_segment_loop env n_source_images ctx pixel_array descriptions
                      (self2\<lparr>SegmentSequence :=
                                (if segment_number \<notin> segment_inventory self2
                                 then SegmentSequence self2 @ [description]
                                 else SegmentSequence self2),
                              segment_inventory :=
                                insert segment_number (segment_inventory self2)\<rparr>)
                      acc')))"

text \<open>The end of the pixel data update: everything is encoded again unless the frames
  were appended one by one, and a byte is appended when the length is odd. The
  byte is \<^verbatim>\<open>b'0'\<close>, the character 0 (0x30).\<close>

definition finish_pixel_update ::
  "codecs \<Rightarrow> segmentation \<Rightarrow> pixel_accumulator \<Rightarrow> mutation" where
  "finish_pixel_update env self acc =
     (case (case acc of
              Framewise \<Rightarrow> Inr self
            | FullFramesList full_frames_list \<Rightarrow>
                Inr (self\<lparr>PixelData := encapsulate env full_frames_list\<rparr>)
            | FullPixelArray full_pixel_array \<Rightarrow>
                (case encode_pixels env self
                        \<lparr>shape = [data_size full_pixel_array], data = full_pixel_array\<rparr> of
                   Inl e \<Rightarrow> Inl (e, self)
                 | Inr bytes \<Rightarrow> Inr (self\<lparr>PixelData := bytes\<rparr>))) of
        Inl err \<Rightarrow> Inl err
      | Inr self1 \<Rightarrow>
          if length (PixelData self1) mod 2 = 1
          then Inr (self1\<lparr>PixelData := PixelData self1 @ [0x30]\<rparr>)
          else Inr self1)"

subsubsection \<open>Adding segments\<close>

text \<open>
  \<^verbatim>\<open>add_segments\<close>. The attribute Segments Overlap is assigned after the checks of
  \<open>validate_segments\<close> and before the plane positions are resolved; everything that
  raises later leaves the object as it is at that moment.
\<close>

definition add_segments ::
  "codecs \<Rightarrow> segmentation \<Rightarrow> ndarray \<Rightarrow> segment_description list \<Rightarrow> plane_position list option
    \<Rightarrow> mutation" where
  "add_segments env self pixel_array0 segment_descriptions plane_positions_arg =
     (case validate_segments self pixel_array0 segment_descriptions of
        Inl e \<Rightarrow> Inl (e, self)
      | Inr (pixel_array, described_segment_numbers) \<Rightarrow>
          let self1 = self\<lparr>SegmentsOverlap :=
                        Some (if segment_inventory self = {} then Overlap_NO
                              else Overlap_UNDEFINED)\<rparr>
          in
          case source_images self1 of
            None \<Rightarrow> Inl (AttributeError ''_source_images'', self1)
          | Some images \<Rightarrow>
          case resolve_plane_positions images pixel_array plane_positions_arg of
            Inl e \<Rightarrow> Inl (e, self1)
          | Inr (plane_positions, source_plane_positions) \<Rightarrow>
          case get_index_values (coordinate_system_of self1) plane_positions of
            Inl e \<Rightarrow> Inl (e, self1)
          | Inr (plane_position_values, plane_sort_index) \<Rightarrow>
          case all_positions_equal plane_positions source_plane_positions of
            Inl e \<Rightarrow> Inl (e, self1)
          | Inr positions_equal \<Rightarrow>
          case dimension_position_values_of plane_position_values of
            Inl e \<Rightarrow> Inl (e, self1)
          | Inr dimension_position_values \<Rightarrow>
          let ctx = \<lparr>ctx_plane_positions = plane_positions,
                     ctx_plane_position_values = plane_position_values,
                     ctx_plane_sort_index = plane_sort_index,
                     ctx_dimension_position_values = dimension_position_values,
                     ctx_locations_preserved =
                       (positions_equal \<and>
                        plane_orientation self1 = source_plane_orientation self1)\<rparr>
          in
          case start_pixel_update env self1 of
            Inl err \<Rightarrow> Inl err
          | Inr (self2, acc) \<Rightarrow>
          case add_segment_loop env (length images) ctx pixel_array segment_descriptions
                 self2 acc of
            Inl err \<Rightarrow> Inl err
          | Inr (self3, acc') \<Rightarrow>
          case finish_pixel_update env self3 acc' of
            Inl err \<Rightarrow> Inl err
          | Inr self4 \<Rightarrow> build_luts self4)"

subsubsection \<open>The constructor\<close>

text \<open>
  The arguments of \<^verbatim>\<open>Segmentation.__init__\<close> that the modelled attributes depend on.
  \<open>arg_base_class_error\<close> is the exception, if any, that the constructor of the base
  class \<^verbatim>\<open>SOPClass\<close> (highdicom/base.py, not among the sources) raises.
\<close>

record init_args =
  arg_source_images :: "source_image list"
  arg_pixel_array :: ndarray
  arg_segmentation_type :: string
  arg_segment_descriptions :: "segment_description list"
  arg_fractional_type :: string
  arg_max_fractional_value :: nat
  arg_transfer_syntax_uid :: transfer_syntax
  arg_plane_orientation :: "rat list option"
  arg_plane_positions :: "plane_position list option"
  arg_base_class_error :: "py_error option"

text \<open>
  The constructor up to the call of \<^verbatim>\<open>add_segments\<close>: the checks of the source images
  and of the transfer syntax, the base class constructor, the attributes of the image
  pixel and segmentation image modules with the check that a BINARY segmentation is
  not given an encapsulated transfer syntax, and the empty frame collections.
\<close>

definition init_attributes :: "init_args \<Rightarrow> py_error + segmentation" where
  "init_attributes args =
     (let images = arg_source_images args in
      if length images = 0 then Inl (ValueError ''At least one source image is required.'')
      else if card (set (map (\<lambda>img. (src_StudyInstanceUID img, src_SeriesInstanceUID img,
                                         src_Rows img, src_Columns img)) images)) > 1
      then Inl (ValueError
        ''Source images must all be part of the same series and must have the same image dimensions (number of rows/columns).'')
      else
        let src_img = hd images;
            is_multiframe = (src_NumberOfFrames src_img \<noteq> None)
        in
        if is_multiframe \<and> length images > 1
        then Inl (ValueError
          ''Only one source image should be provided in case images are multi-frame images.'')
        else if arg_transfer_syntax_uid args \<notin>
                  {ImplicitVRLittleEndian, ExplicitVRLittleEndian, JPEG2000Lossless, RLELossless}
        then Inl (ValueError ''Transfer syntax is not supported'')
        else
          let pixel_array = newaxis_if_2d (arg_pixel_array args) in
          case arg_base_class_error args of
            Some e \<Rightarrow> Inl e
          | None \<Rightarrow>
              if ndim pixel_array < 3 then Inl (IndexError ''tuple index out of range'')
              else if arg_segmentation_type args \<notin> {''BINARY'', ''FRACTIONAL''}
              then Inl (ValueError ''is not a valid SegmentationTypeValues'')
              else if arg_segmentation_type args = ''BINARY'' \<and>
                      is_encapsulated (arg_transfer_syntax_uid args)
              then Inl (ValueError
                ''The chosen transfer syntax is not compatible with the BINARY segmentation type'')
              else if arg_segmentation_type args = ''FRACTIONAL'' \<and>
                      arg_fractional_type args \<notin> {''PROBABILITY'', ''OCCUPANCY''}
              then Inl (ValueError ''is not a valid SegmentationFractionalTypeValues'')
              else if arg_segmentation_type args = ''FRACTIONAL'' \<and>
                      arg_max_fractional_value args > 2 ^ 8
              then Inl (ValueError ''Maximum fractional value must not exceed image bit depth.'')
              else
                let binary = (arg_segmentation_type args = ''BINARY'');
                    source_orientation = src_image_orientation src_img
                in
                Inr \<lparr>SOPClassUID = ''1.2.840.10008.5.1.4.1.1.66.4'',
                     source_images = Some images,
                     Rows = shape pixel_array ! 1,
                     Columns = shape pixel_array ! 2,
                     SamplesPerPixel = 1,
                     BitsAllocated = (if binary then 1 else 8),
                     BitsStored = (if binary then 1 else 8),
                     SegmentationType = (if binary then BINARY else FRACTIONAL),
                     MaximumFractionalValue =
                       (if binary then None else Some (arg_max_fractional_value args)),
                     TransferSyntaxUID = arg_transfer_syntax_uid args,
                     coordinate_system_of = (if src_is_slide src_img then SLIDE else PATIENT),
                     plane_orientation =
                       (case arg_plane_orientation args of
                          None \<Rightarrow> source_orientation | Some orientation \<Rightarrow> orientation),
                     source_plane_orientation = source_orientation,
                     SourceImageSequence =
                       map (\<lambda>img. (src_SOPClassUID img, src_SOPInstanceUID img)) images,
                     ReferencedSeriesSequence =
                       [(src_SeriesInstanceUID src_img, map src_SOPInstanceUID images)],
                     OtherReferencedInstances = [],
                     segment_inventory = {},
                     SegmentSequence = [],
                     SegmentsOverlap = None,
                     NumberOfFrames = 0,
                     PerFrameFunctionalGroupsSequence = [],
                     PixelData = [],
                     source_sop_instance_uids_of = [],
                     single_source_frame_per_seg_frame = True,
                     locations_preserved = None,
                     lut_attrs = Map.empty\<rparr>)"

text \<open>\<^verbatim>\<open>Segmentation.__init__\<close>: the attributes, then \<^verbatim>\<open>add_segments\<close> for the pixel array
  and the segment descriptions given. An exception leaves no object.\<close>

definition Segmentation_init :: "codecs \<Rightarrow> init_args \<Rightarrow> py_error + segmentation" where
  "Segmentation_init env args =
     (case init_attributes args of
        Inl e \<Rightarrow> Inl e
      | Inr self \<Rightarrow>
          (case add_segments env self (newaxis_if_2d (arg_pixel_array args))
                  (arg_segment_descriptions args) (arg_plane_positions args) of
             Inl (e, self') \<Rightarrow> Inl e
           | Inr self' \<Rightarrow> Inr self'))"

subsubsection \<open>Notions for stating properties of add_segments\<close>

text \<open>The planes of a segment that are not empty, in the order of the sort index: the
  planes for which \<^verbatim>\<open>add_segments\<close> is expected to store a frame.\<close>

definition kept_planes :: "segmentation \<Rightarrow> ndarray \<Rightarrow> nat list \<Rightarrow> int \<Rightarrow> nat list" where
  "kept_planes self pixel_array plane_sort_index segment_number =
     (case segment_planes self pixel_array segment_number of
        Inl e \<Rightarrow> []
      | Inr planes \<Rightarrow>
          filter (\<lambda>j. \<not> plane_is_empty (Rows self * Columns self) planes j) plane_sort_index)"

text \<open>The stored bytes without the trailing pad byte, as the framewise path takes them,
  and the bytes with a pad byte appended when their number is odd.\<close>

definition without_pad_byte :: "segmentation \<Rightarrow> byte list" where
  "without_pad_byte self =
     (if length (PixelData self) =
           get_expected_length (Rows self) (Columns self) (SamplesPerPixel self)
             (get_nr_frames (NumberOfFrames self)) (BitsAllocated self) + 1
      then butlast (PixelData self) else PixelData self)"

definition with_pad_byte :: "byte list \<Rightarrow> byte list" where
  "with_pad_byte bs = (if length bs mod 2 = 1 then bs @ [0x30] else bs)"

subsection \<open>Example objects\<close>

text \<open>
  A stored Segmentation with 3 segments and 4 frames of 2 x 4 pixels, whose frames
  belong to the segments 1, 2, 1, 2 in this order, each derived from one frame of the
  single multi-frame source image \<^verbatim>\<open>1.2.3\<close>.
\<close>

definition example_frame :: "int \<Rightarrow> int \<Rightarrow> frame_item" where
  "example_frame segment_number source_frame =
     \<lparr>ReferencedSegmentNumber = segment_number,
      DimensionIndexValues = [segment_number, source_frame],
      PlanePosition = PlanePositionPatient 0 0 (of_int source_frame),
      DerivationImageSequence =
        [[\<lparr>ReferencedSOPInstanceUID = ''1.2.3'',
           ReferencedFrameNumber = FrameNumber source_frame,
           SpatialLocationsPreserved = Some Preserved_YES\<rparr>]]\<rparr>"

definition example_dataset :: segmentation where
  "example_dataset =
     \<lparr>SOPClassUID = ''1.2.840.10008.5.1.4.1.1.66.4'',
      source_images = None,
      Rows = 2, Columns = 4, SamplesPerPixel = 1, BitsAllocated = 1, BitsStored = 1,
      SegmentationType = BINARY,
      MaximumFractionalValue = None,
      TransferSyntaxUID = ExplicitVRLittleEndian,
      coordinate_system_of = PATIENT,
      plane_orientation = [1, 0, 0, 0, 1, 0],
      source_plane_orientation = [1, 0, 0, 0, 1, 0],
      SourceImageSequence = [(''1.2.840.10008.5.1.4.1.1.2.1'', ''1.2.3'')],
      ReferencedSeriesSequence = [(''1.2.2'', [''1.2.3''])],
      OtherReferencedInstances = [],
      segment_inventory = {},
      SegmentSequence =
        [\<lparr>SegmentNumber = 1, SegmentLabel = ''a''\<rparr>,
         \<lparr>SegmentNumber = 2, SegmentLabel = ''b''\<rparr>,
         \<lparr>SegmentNumber = 3, SegmentLabel = ''c''\<rparr>],
      SegmentsOverlap = Some Overlap_UNDEFINED,
      NumberOfFrames = 4,
      PerFrameFunctionalGroupsSequence =
        [example_frame 1 1, example_frame 2 1, example_frame 1 2, example_frame 2 2],
      PixelData = [1, 2, 4, 8],
      source_sop_instance_uids_of = [],
      single_source_frame_per_seg_frame = True,
      locations_preserved = None,
      lut_attrs = Map.empty\<rparr>"

text \<open>The dataset as it is stored, with its Image Orientation (Patient).\<close>

definition example_stored_dataset :: stored_dataset where
  "example_stored_dataset =
     \<lparr>ds_attributes = example_dataset,
      ds_ImageOrientationSlide = None,
      ds_ImageOrientationPatient = Some [1, 0, 0, 0, 1, 0]\<rparr>"


text \<open>
  A multi-frame source image of three frames of 2 x 4 pixels, and the construction of a
  BINARY segmentation of one segment from a mask of three planes whose middle plane is
  empty.
\<close>

definition example_source_image :: source_image where
  "example_source_image =
     \<lparr>src_StudyInstanceUID = ''1.2.1'',
      src_SeriesInstanceUID = ''1.2.2'',
      src_SOPClassUID = ''1.2.840.10008.5.1.4.1.1.2.1'',
      src_SOPInstanceUID = ''1.2.3'',
      src_Rows = 2, src_Columns = 4,
      src_NumberOfFrames = Some 3,
      src_is_slide = False,
      src_ImagePositionPatient = (0, 0, 0),
      src_frame_positions =
        [PlanePositionPatient 0 0 0, PlanePositionPatient 0 0 1, PlanePositionPatient 0 0 2],
      src_image_orientation = [1, 0, 0, 0, 1, 0]\<rparr>"

definition example_mask :: ndarray where
  "example_mask =
     \<lparr>shape = [3, 2, 4],
      data = BoolData
        [True, True, False, False, False, False, False, False,
         False, False, False, False, False, False, False, False,
         False, False, False, False, False, False, True, True]\<rparr>"

definition example_init_args :: init_args where
  "example_init_args =
     \<lparr>arg_source_images = [example_source_image],
      arg_pixel_array = example_mask,
      arg_segmentation_type = ''BINARY'',
      arg_segment_descriptions = [\<lparr>SegmentNumber = 1, SegmentLabel = ''first''\<rparr>],
      arg_fractional_type = ''PROBABILITY'',
      arg_max_fractional_value = 255,
      arg_transfer_syntax_uid = ImplicitVRLittleEndian,
      arg_plane_orientation = None,
      arg_plane_positions = None,
      arg_base_class_error = None\<rparr>"

text \<open>A single-frame source image, and the construction of a BINARY segmentation of the
  four segments 1 to 4 from one labelled plane; a mask for a fifth segment.\<close>

definition example_single_frame_image :: source_image where
  "example_single_frame_image =
     example_source_image\<lparr>src_NumberOfFrames := None, src_frame_positions := []\<rparr>"

definition example_label_args :: init_args where
  "example_label_args =
     \<lparr>arg_source_images = [example_single_frame_image],
      arg_pixel_array = \<lparr>shape = [2, 4], data = UInt8Data [1, 2, 3, 4, 0, 0, 0, 0]\<rparr>,
      arg_segmentation_type = ''BINARY'',
      arg_segment_descriptions =
        [\<lparr>SegmentNumber = 1, SegmentLabel = ''a''\<rparr>, \<lparr>SegmentNumber = 2, SegmentLabel = ''b''\<rparr>,
         \<lparr>SegmentNumber = 3, SegmentLabel = ''c''\<rparr>, \<lparr>SegmentNumber = 4, SegmentLabel = ''d''\<rparr>],
      arg_fractional_type = ''PROBABILITY'',
      arg_max_fractional_value = 255,
      arg_transfer_syntax_uid = ImplicitVRLittleEndian,
      arg_plane_orientation = None,
      arg_plane_positions = None,
      arg_base_class_error = None\<rparr>"

definition example_fifth_mask :: ndarray where
  "example_fifth_mask =
     \<lparr>shape = [2, 4], data = BoolData [False, False, False, False, True, False, True, False]\<rparr>"

text \<open>Descriptions of a fifth and a sixth segment, and a mask for the sixth.\<close>

definition example_fifth_description :: segment_description where
  "example_fifth_description = \<lparr>SegmentNumber = 5, SegmentLabel = ''e''\<rparr>"

definition example_sixth_description :: segment_description where
  "example_sixth_description = \<lparr>SegmentNumber = 6, SegmentLabel = ''f''\<rparr>"

definition example_sixth_mask :: ndarray where
  "example_sixth_mask =
     \<lparr>shape = [2, 4], data = BoolData [False, False, False, False, False, False, False, True]\<rparr>"

text \<open>
  The construction of a BINARY segmentation of two segments from a labelled mask of
  three planes over the three frames of the multi-frame source image: segment 1 occupies
  pixels of the planes 1 and 2, segment 2 pixels of the planes 1 and 3. The constructor
  stores four frames, which belong to the segments 1, 1, 2, 2 in this order.
\<close>

definition example_two_segment_args :: init_args where
  "example_two_segment_args =
     \<lparr>arg_source_images = [example_source_image],
      arg_pixel_array =
        \<lparr>shape = [3, 2, 4],
         data = UInt8Data
           [1, 1, 2, 0, 0, 0, 0, 0,
            0, 0, 0, 0, 1, 1, 0, 0,
            0, 0, 0, 0, 0, 0, 2, 2]\<rparr>,
      arg_segmentation_type = ''BINARY'',
      arg_segment_descriptions =
        [\<lparr>SegmentNumber = 1, SegmentLabel = ''a''\<rparr>, \<lparr>SegmentNumber = 2, SegmentLabel = ''b''\<rparr>],
      arg_fractional_type = ''PROBABILITY'',
      arg_max_fractional_value = 255,
      arg_transfer_syntax_uid = ExplicitVRLittleEndian,
      arg_plane_orientation = None,
      arg_plane_positions = None,
      arg_base_class_error = None\<rparr>"

section \<open>Verified properties\<close>

subsection \<open>The plane ordering of the dimension index\<close>


lemma first_index_less: "v \<in> set xs \<Longrightarrow> first_index xs v < length xs"
  by (induction xs) auto

lemma nth_first_index: "v \<in> set xs \<Longrightarrow> xs ! first_index xs v = v"
  by (induction xs) auto

lemma first_index_eq_iff:
  "v \<in> set xs \<Longrightarrow> w \<in> set xs \<Longrightarrow> first_index xs v = first_index xs w \<longleftrightarrow> v = w"
  by (metis nth_first_index)

lemma inj_on_first_index: "inj_on (first_index xs) (set xs)"
  by (rule inj_onI) (simp add: first_index_eq_iff)

lemma set_np_unique: "set (np_unique xs) = set xs"
  by (simp add: np_unique_def)

lemma distinct_np_unique: "distinct (np_unique xs)"
  by (simp add: np_unique_def)

lemma sorted_np_unique: "sorted_wrt (<) (np_unique xs)"
  by (simp add: np_unique_def strict_sorted_iff)

lemma distinct_np_unique_index: "distinct (np_unique_index xs)"
  unfolding np_unique_index_def
  by (simp add: distinct_map distinct_np_unique set_np_unique inj_on_first_index)

lemma set_np_unique_index: "set (np_unique_index xs) \<subseteq> {..<length xs}"
  unfolding np_unique_index_def by (auto simp: set_np_unique first_index_less)

lemma map_nth_np_unique_index: "map ((!) xs) (np_unique_index xs) = np_unique xs"
  unfolding np_unique_index_def map_map o_def
  by (rule map_idI) (simp add: set_np_unique nth_first_index)

lemma length_np_unique_index: "length (np_unique_index xs) = card (set xs)"
  unfolding np_unique_index_def np_unique_def
  by (simp add: length_remdups_card_conv)

lemma np_unique_index_perm:
  assumes "distinct xs"
  shows "mset (np_unique_index xs) = mset [0..<length xs]"
proof -
  have c: "card (set (np_unique_index xs)) = card {..<length xs}"
    using assms distinct_np_unique_index[of xs] length_np_unique_index[of xs]
    by (simp add: distinct_card)
  have "set (np_unique_index xs) = {..<length xs}"
    by (rule card_subset_eq) (use c set_np_unique_index[of xs] in simp_all)
  then have "set (np_unique_index xs) = set [0..<length xs]"
    by (simp add: lessThan_atLeast0)
  moreover have "distinct [0..<length xs]" by simp
  ultimately show ?thesis
    using distinct_np_unique_index[of xs]
      set_eq_iff_mset_eq_distinct[of "np_unique_index xs" "[0..<length xs]"]
    by blast
qed

lemma indexed_values_inj:
  "indexed_values cs p = Inr v \<Longrightarrow> indexed_values cs q = Inr w \<Longrightarrow> concat v = concat w \<Longrightarrow> p = q"
  by (cases cs; cases p; cases q) auto

lemma plane_position_values_of_length:
  "plane_position_values_of cs ps = Inr vs \<Longrightarrow> length vs = length ps"
  by (induction ps arbitrary: vs) (auto split: sum.splits)

lemma plane_position_values_of_nth:
  "plane_position_values_of cs ps = Inr vs \<Longrightarrow> i < length ps \<Longrightarrow> indexed_values cs (ps ! i) = Inr (vs ! i)"
  by (induction ps arbitrary: vs i) (auto split: sum.splits simp: nth_Cons')

lemma plane_position_values_of_distinct:
  assumes "plane_position_values_of cs ps = Inr vs" "distinct ps"
  shows "distinct (map concat vs)"
proof -
  have len: "length vs = length ps" using assms(1) by (rule plane_position_values_of_length)
  show ?thesis
    unfolding distinct_conv_nth
  proof (intro allI impI)
    fix i j assume "i < length (map concat vs)" "j < length (map concat vs)" "i \<noteq> j"
    then have ij: "i < length ps" "j < length ps" using len by auto
    have "ps ! i \<noteq> ps ! j" using assms(2) ij \<open>i \<noteq> j\<close> by (simp add: nth_eq_iff_index_eq)
    then have "concat (vs ! i) \<noteq> concat (vs ! j)"
      using indexed_values_inj plane_position_values_of_nth[OF assms(1)] ij by blast
    then show "map concat vs ! i \<noteq> map concat vs ! j" using ij len by simp
  qed
qed

text \<open>
  For any input, \<open>np_unique_index\<close> lists the first occurrence of every distinct row,
  in ascending lexicographic order of the rows: a row that occurs twice is listed once.
\<close>

lemma get_index_values_first_occurrences:
  assumes "get_index_values cs plane_positions = Inr (plane_position_values, plane_sort_indices)"
  shows "length plane_sort_indices = card (set (map concat plane_position_values)) \<and>
         distinct plane_sort_indices \<and>
         set plane_sort_indices \<subseteq> {..<length plane_positions} \<and>
         map ((!) (map concat plane_position_values)) plane_sort_indices =
           sort (remdups (map concat plane_position_values))"
proof -
  from assms have v: "plane_position_values_of cs plane_positions = Inr plane_position_values"
    and i: "plane_sort_indices = np_unique_index (map concat plane_position_values)"
    by (auto simp: get_index_values_def split: sum.splits)
  have "length plane_position_values = length plane_positions"
    using v by (rule plane_position_values_of_length)
  then show ?thesis
    using length_np_unique_index[of "map concat plane_position_values"]
      distinct_np_unique_index[of "map concat plane_position_values"]
      set_np_unique_index[of "map concat plane_position_values"]
      map_nth_np_unique_index[of "map concat plane_position_values"]
    unfolding i by (simp add: np_unique_def)
qed

text \<open>
  Claim C3, as amended. For every list of pairwise distinct plane positions of the
  object's coordinate system, \<^verbatim>\<open>get_index_values\<close> returns one row of values per plane
  and a sort permutation that holds every plane index exactly once, ordered by ascending
  lexicographic order of the planes' flattened value vectors. (The function is
  deterministic: it is a function of its input.)
\<close>

theorem get_index_values_distinct_positions:
  assumes "get_index_values cs plane_positions = Inr (plane_position_values, plane_sort_indices)"
    and "distinct plane_positions"
  shows "length plane_position_values = length plane_positions \<and>
         mset plane_sort_indices = mset [0..<length plane_positions] \<and>
         sorted_wrt (<) (map (\<lambda>i. concat (plane_position_values ! i)) plane_sort_indices)"
proof -
  from assms(1) have v: "plane_position_values_of cs plane_positions = Inr plane_position_values"
    and i: "plane_sort_indices = np_unique_index (map concat plane_position_values)"
    by (auto simp: get_index_values_def split: sum.splits)
  have len: "length plane_position_values = length plane_positions"
    using v by (rule plane_position_values_of_length)
  have d: "distinct (map concat plane_position_values)"
    using v assms(2) by (rule plane_position_values_of_distinct)
  have p: "mset plane_sort_indices = mset [0..<length plane_positions]"
    using np_unique_index_perm[OF d] i len by simp
  have "set plane_sort_indices \<subseteq> {..<length plane_position_values}"
    using set_np_unique_index[of "map concat plane_position_values"] i by simp
  then have "map (\<lambda>i. concat (plane_position_values ! i)) plane_sort_indices
      = map ((!) (map concat plane_position_values)) plane_sort_indices"
    by (intro map_cong) auto
  also have "\<dots> = np_unique (map concat plane_position_values)"
    unfolding i by (rule map_nth_np_unique_index)
  finally have s: "sorted_wrt (<) (map (\<lambda>i. concat (plane_position_values ! i)) plane_sort_indices)"
    by (simp add: sorted_np_unique)
  from len p s show ?thesis by simp
qed


theorem get_index_values_distinct_positions_witness:
  "get_index_values PATIENT [PlanePositionPatient 0 0 2, PlanePositionPatient 0 0 1] =
     Inr ([[[0, 0, 2]], [[0, 0, 1]]], [1, 0]) \<and>
   distinct [PlanePositionPatient 0 0 2, PlanePositionPatient 0 0 1] \<and>
   mset [1, 0 :: nat] = mset [0..<length [PlanePositionPatient 0 0 2, PlanePositionPatient 0 0 1]]"
proof -
  have h1: "get_index_values PATIENT [PlanePositionPatient 0 0 2, PlanePositionPatient 0 0 1] =
      Inr ([[[0, 0, 2]], [[0, 0, 1]]], [1, 0])"
    by (simp add: get_index_values_def np_unique_index_def np_unique_def)
  have h2: "distinct [PlanePositionPatient 0 0 2, PlanePositionPatient 0 0 1]" by simp
  from get_index_values_distinct_positions[OF h1 h2] h1 h2 show ?thesis by blast
qed

text \<open>
  Claim C3 as stated fails when a position occurs twice: of two planes at the same
  position only index 0 is returned, so the result is shorter than the input.
\<close>

theorem get_index_values_duplicates_counterexample:
  "get_index_values PATIENT [PlanePositionPatient 0 0 0, PlanePositionPatient 0 0 0] =
     Inr ([[[0, 0, 0]], [[0, 0, 0]]], [0]) \<and>
   length [0 :: nat] \<noteq> length [PlanePositionPatient 0 0 0, PlanePositionPatient 0 0 0]"
  by (simp add: get_index_values_def np_unique_index_def np_unique_def)

subsection \<open>Round trip of the frame codec\<close>


lemma bits_of_byte_of_bits:
  "bits_of_byte (byte_of_bits [b0, b1, b2, b3, b4, b5, b6, b7]) = [b0, b1, b2, b3, b4, b5, b6, b7]"
  by (simp add: bits_of_byte_def byte_of_bits_def bit_horner_sum_bit_word_iff upt_rec[of _ 8]
      upt_rec[of 0] nth_Cons')

lemma unpack_pack_bool_list:
  "length bs mod 8 = 0 \<Longrightarrow> unpack_bits (pack_bool_list bs) = bs"
proof (induction bs rule: pack_bool_list.induct)
  case (1 b0 b1 b2 b3 b4 b5 b6 b7 bs)
  then have "length bs mod 8 = 0" by simp
  with 1 show ?case by (simp add: unpack_bits_def bits_of_byte_of_bits)
qed (simp_all add: unpack_bits_def)

lemma length_pack_bool_list:
  "length bs mod 8 = 0 \<Longrightarrow> length (pack_bool_list bs) = length bs div 8"
  by (induction bs rule: pack_bool_list.induct) simp_all


lemma of_bool_values:
  "map (\<lambda>w. of_nat (unat w)) (map of_bool xs :: 8 word list) = (map of_bool xs :: rat list)"
  by (induction xs) auto

text \<open>The bytes of an integer and the bytes of the elements of an array are read back
  as they were written.\<close>

lemma length_data_values: "length (data_values d) = data_size d"
  by (cases d) simp_all

lemma binary_values:
  "\<forall>v \<in> set vs. v = 0 \<or> v = 1 \<Longrightarrow> map of_bool (map (\<lambda>v. v \<noteq> 0) vs) = (vs :: rat list)"
  by (induction vs) auto

lemma pack_bits_binary:
  "d \<noteq> OtherData \<Longrightarrow> \<forall>v \<in> set (data_values d). v = 0 \<or> v = 1 \<Longrightarrow>
   pack_bits d = Inr (pack_bool_list (map (\<lambda>v. v \<noteq> 0) (data_values d)))"
  by (auto simp: pack_bits_def)

lemma length_int_tobytes: "length (int_tobytes n v) = n"
  by (simp add: int_tobytes_def)

lemma sum_digits:
  "(\<Sum>k<n. ((v :: int) div 256 ^ k mod 256) * 256 ^ k) = v mod 256 ^ n"
proof (induction n)
  case 0
  then show ?case by simp
next
  case (Suc n)
  have "v mod (256 ^ n * 256) = 256 ^ n * (v div 256 ^ n mod 256) + v mod 256 ^ n"
    by (rule zmod_zmult2_eq) simp
  then show ?case using Suc by (simp add: mult.commute)
qed

lemma horner_int_tobytes:
  "horner_sum uint 256 (int_tobytes n v) = v mod 256 ^ n"
proof -
  have "horner_sum uint 256 (int_tobytes n v) =
        (\<Sum>k<n. uint (of_int (v div 256 ^ k) :: byte) * 256 ^ k)"
    by (simp add: int_tobytes_def horner_sum_eq_sum atLeast0LessThan)
  also have "\<dots> = (\<Sum>k<n. (v div 256 ^ k mod 256) * 256 ^ k)"
    by (simp add: uint_word_of_int take_bit_eq_mod)
  finally show ?thesis by (simp add: sum_digits)
qed

lemma int_from_bytes_tobytes:
  assumes "0 < n" and "int_in_range (8 * n) sg v"
  shows "int_from_bytes sg (int_tobytes n v) = v"
proof -
  have p: "(256 :: int) ^ n = 2 ^ (8 * n)"
    by (simp add: power_mult)
  have "8 * n = Suc (8 * n - 1)" using assms(1) by simp
  then have h: "(2 :: int) ^ (8 * n) = 2 * 2 ^ (8 * n - 1)"
    by (metis power_Suc)
  let ?u = "v mod 2 ^ (8 * n)"
  have u: "horner_sum uint 256 (int_tobytes n v) = ?u"
    by (simp add: horner_int_tobytes p)
  show ?thesis
  proof (cases sg)
    case False
    with assms(2) have "0 \<le> v" "v < 2 ^ (8 * n)" by (simp_all add: int_in_range_def)
    then have "?u = v" by simp
    with False u show ?thesis by (simp add: int_from_bytes_def Let_def length_int_tobytes)
  next
    case True
    with assms(2) have r: "- (2 ^ (8 * n - 1)) \<le> v" "v < 2 ^ (8 * n - 1)"
      by (simp_all add: int_in_range_def)
    show ?thesis
    proof (cases "0 \<le> v")
      case True
      then have "?u = v" using r h by simp
      with \<open>sg\<close> u r show ?thesis
        by (simp add: int_from_bytes_def Let_def length_int_tobytes)
    next
      case False
      then have "0 \<le> v + 2 ^ (8 * n)" "v + 2 ^ (8 * n) < 2 ^ (8 * n)"
        using r h by simp_all
      then have "(v + 2 ^ (8 * n)) mod 2 ^ (8 * n) = v + 2 ^ (8 * n)"
        by (rule mod_pos_pos_trivial)
      then have "?u = v + 2 ^ (8 * n)" by simp
      with \<open>sg\<close> u r h show ?thesis
        by (simp add: int_from_bytes_def Let_def length_int_tobytes)
    qed
  qed
qed

lemma chunk_concat:
  assumes "\<forall>x \<in> set xs. length (f x) = n" and "i < length xs"
  shows "take n (drop (i * n) (concat (map f xs))) = f (xs ! i)"
  using assms
proof (induction xs arbitrary: i)
  case Nil
  then show ?case by simp
next
  case (Cons x xs)
  show ?case
  proof (cases i)
    case 0
    with Cons.prems show ?thesis by simp
  next
    case (Suc j)
    with Cons.prems have "take n (drop (j * n) (concat (map f xs))) = f (xs ! j)"
      by (intro Cons.IH) simp_all
    with Suc Cons.prems show ?thesis by simp
  qed
qed

lemma length_concat_chunks:
  "\<forall>x \<in> set xs. length (f x) = n \<Longrightarrow> length (concat (map f xs)) = length xs * n"
  by (induction xs) simp_all

lemma frombuffer_tobytes:
  assumes "0 < n" and "\<forall>v \<in> set xs. int_in_range (8 * n) sg v"
  shows "frombuffer n sg (concat (map (int_tobytes n) xs)) = xs"
proof -
  have l: "length (concat (map (int_tobytes n) xs)) = length xs * n"
    by (rule length_concat_chunks) (simp add: length_int_tobytes)
  have "frombuffer n sg (concat (map (int_tobytes n) xs)) =
        map (\<lambda>i. int_from_bytes sg (take n (drop (i * n) (concat (map (int_tobytes n) xs)))))
            [0..<length xs]"
    using assms(1) by (simp add: frombuffer_def l)
  also have "\<dots> = map (\<lambda>i. xs ! i) [0..<length xs]"
  proof (rule map_cong[OF refl])
    fix i assume "i \<in> set [0..<length xs]"
    then have i: "i < length xs" by simp
    have "take n (drop (i * n) (concat (map (int_tobytes n) xs))) = int_tobytes n (xs ! i)"
      by (rule chunk_concat) (simp_all add: length_int_tobytes i)
    then show "int_from_bytes sg (take n (drop (i * n) (concat (map (int_tobytes n) xs)))) =
               xs ! i"
      using int_from_bytes_tobytes[OF assms(1)] assms(2) i by simp
  qed
  finally show ?thesis by (simp add: map_nth)
qed

lemma uint16_bytes:
  "[ucast w, ucast (drop_bit 8 w)] = int_tobytes 2 (uint (w :: 16 word))"
proof -
  have a: "uint (drop_bit 8 w) = uint w div 256"
    by (simp add: drop_bit_eq_div uint_div_distrib)
  have "(ucast (drop_bit 8 w) :: byte) = word_of_int (uint (drop_bit 8 w))" by simp
  then have "(ucast (drop_bit 8 w) :: byte) = of_int (uint w div 256)" unfolding a .
  then show ?thesis
    by (simp add: int_tobytes_def numeral_2_eq_2)
qed

text \<open>The native paths of \<^verbatim>\<open>encode_frame\<close> and \<^verbatim>\<open>decode_frame\<close> for a plane of two
  dimensions.\<close>

lemma encode_frame_native:
  assumes "transfer_syntax_uid \<in> {ExplicitVRLittleEndian, ImplicitVRLittleEndian}"
    and "shape array = [rows, columns]"
  shows "encode_frame env array transfer_syntax_uid bits_allocated bits_stored
           photometric_interp pixel_repr planar_config =
         (if bits_allocated = 1
          then (if (rows * columns) mod 8 \<noteq> 0
                then Inl (ValueError
                  ''Frame cannot be bit packed because its size is not a multiple of 8.'')
                else pack_bits (data array))
          else Inr (tobytes env (data array)))"
  using assms by (auto simp: encode_frame_def ndim_def)

lemma decode_frame_native:
  assumes "transfer_syntax_uid \<in> {ExplicitVRLittleEndian, ImplicitVRLittleEndian}"
  shows "decode_frame env value transfer_syntax_uid rows columns 1 bits_allocated bits_stored
           photometric_interp pixel_repr planar_config =
         native_pixel_array env rows columns 1 1 bits_allocated pixel_repr value"
  using assms by (auto simp: decode_frame_def)

lemma native_pixel_array_bits:
  assumes "length value = rows * columns div 8" and "(rows * columns) mod 8 = 0"
  shows "native_pixel_array env rows columns 1 1 1 pixel_repr value =
         Inr \<lparr>shape = [rows, columns],
              data = UInt8Data (map of_bool (take (rows * columns) (unpack_bits value)))\<rparr>"
  using assms
  by (simp add: native_pixel_array_def get_expected_length_def expected_pixels_def
      native_shape_def)

lemma native_pixel_array_bytes:
  assumes "bits_allocated \<noteq> 1" and "length value = rows * columns * (bits_allocated div 8)"
  shows "native_pixel_array env rows columns 1 1 bits_allocated pixel_repr value =
         (if bits_allocated = 8 \<and> pixel_repr = UNSIGNED_INTEGER
          then Inr \<lparr>shape = [rows, columns], data = UInt8Data value\<rparr>
          else if bits_allocated = 16 \<and> pixel_repr = UNSIGNED_INTEGER
          then Inr \<lparr>shape = [rows, columns],
                    data = UInt16Data (map of_int (frombuffer 2 False value))\<rparr>
          else if bits_allocated \<in> {8, 16, 32, 64}
          then Inr \<lparr>shape = [rows, columns],
                    data = IntData bits_allocated (pixel_repr = COMPLEMENT)
                             (frombuffer (bits_allocated div 8) (pixel_repr = COMPLEMENT) value)\<rparr>
          else Inl (NotImplementedError
            ''Unable to determine the data type to use to contain the Pixel Data''))"
  using assms
  by (simp add: native_pixel_array_def get_expected_length_def expected_pixels_def
      native_shape_def)

lemma int_tobytes_1: "concat (map (int_tobytes 1) xs) = map of_int xs"
  by (induction xs) (simp_all add: int_tobytes_def)

lemma int_tobytes_Suc_0: "concat (map (int_tobytes (Suc 0)) xs) = map of_int xs"
  using int_tobytes_1[of xs] by simp

lemma word_value:
  "0 \<le> v \<Longrightarrow> v < 2 ^ LENGTH('a) \<Longrightarrow>
   (of_nat (unat (of_int v :: 'a::len word)) :: rat) = of_int v"
proof -
  assume a: "0 \<le> v" "v < 2 ^ LENGTH('a)"
  have "uint (of_int v :: 'a word) = v"
    using a by (simp add: uint_word_of_int take_bit_int_eq_self)
  then have "int (unat (of_int v :: 'a word)) = v" by simp
  then have "(of_int (int (unat (of_int v :: 'a word))) :: rat) = of_int v" by simp
  then show ?thesis by simp
qed

lemma native_round_trip_bits:
  assumes ts: "transfer_syntax_uid \<in> {ExplicitVRLittleEndian, ImplicitVRLittleEndian}"
    and shp: "shape array = [rows, columns]"
    and size: "data_size (data array) = rows * columns"
    and fmt: "valid_samples (data array) 1 pixel_repr"
    and m: "(rows * columns) mod 8 = 0"
  shows "\<exists>encoded decoded.
           encode_frame env array transfer_syntax_uid 1 bits_stored
             photometric_interp pixel_repr planar_config = Inr encoded \<and>
           decode_frame env encoded transfer_syntax_uid rows columns 1 1
             bits_stored photometric_interp pixel_repr planar_config = Inr decoded \<and>
           np_array_equal decoded array"
proof -
  let ?vs = "data_values (data array)"
  let ?bs = "map (\<lambda>v. v \<noteq> 0) ?vs"
  from fmt have d: "data array \<noteq> OtherData" and bin: "\<forall>v \<in> set ?vs. v = 0 \<or> v = 1"
    by (simp_all add: valid_samples_def)
  have len: "length ?bs = rows * columns" using size by (simp add: length_data_values)
  have e: "encode_frame env array transfer_syntax_uid 1 bits_stored
        photometric_interp pixel_repr planar_config = Inr (pack_bool_list ?bs)"
    using m pack_bits_binary[OF d bin] by (simp add: encode_frame_native[OF ts shp])
  have l: "length (pack_bool_list ?bs) = rows * columns div 8"
    using len m by (simp add: length_pack_bool_list)
  have u: "unpack_bits (pack_bool_list ?bs) = ?bs"
    using len m by (simp add: unpack_pack_bool_list)
  have dec: "decode_frame env (pack_bool_list ?bs) transfer_syntax_uid rows columns 1 1
        bits_stored photometric_interp pixel_repr planar_config =
        Inr \<lparr>shape = [rows, columns], data = UInt8Data (map of_bool ?bs)\<rparr>"
    unfolding decode_frame_native[OF ts] native_pixel_array_bits[OF l m] u using len by simp
  have eq: "np_array_equal \<lparr>shape = [rows, columns], data = UInt8Data (map of_bool ?bs)\<rparr> array"
  proof -
    have "data_values (UInt8Data (map of_bool ?bs)) = map of_bool ?bs"
      by (simp only: data_values.simps of_bool_values)
    also have "\<dots> = ?vs" by (rule binary_values[OF bin])
    finally show ?thesis using shp by (simp add: np_array_equal_def)
  qed
  from e dec eq show ?thesis by blast
qed

lemma native_round_trip_bytes:
  assumes ts: "transfer_syntax_uid \<in> {ExplicitVRLittleEndian, ImplicitVRLittleEndian}"
    and shp: "shape array = [rows, columns]"
    and size: "data_size (data array) = rows * columns"
    and fmt: "valid_samples (data array) bits_allocated pixel_repr"
    and b: "bits_allocated \<noteq> 1"
  shows "\<exists>encoded decoded.
           encode_frame env array transfer_syntax_uid bits_allocated bits_stored
             photometric_interp pixel_repr planar_config = Inr encoded \<and>
           decode_frame env encoded transfer_syntax_uid rows columns 1 bits_allocated
             bits_stored photometric_interp pixel_repr planar_config = Inr decoded \<and>
           np_array_equal decoded array"
proof -
  let ?bytes = "tobytes env (data array)"
  have e: "encode_frame env array transfer_syntax_uid bits_allocated bits_stored
        photometric_interp pixel_repr planar_config = Inr ?bytes"
    using b by (simp add: encode_frame_native[OF ts shp])
  have "\<exists>decoded. native_pixel_array env rows columns 1 1 bits_allocated pixel_repr ?bytes =
          Inr decoded \<and> np_array_equal decoded array"
  proof (cases "data array")
    case (BoolData xs)
    with fmt b have b8: "bits_allocated = 8" by (simp add: valid_samples_def)
    have bytes: "?bytes = map of_bool xs" using BoolData by simp
    have len: "length ?bytes = rows * columns * (bits_allocated div 8)"
      using size BoolData b8 by simp
    show ?thesis
    proof (cases pixel_repr)
      case UNSIGNED_INTEGER
      then show ?thesis
        unfolding native_pixel_array_bytes[OF b len] using shp BoolData b8 bytes
          by (simp add: np_array_equal_def of_bool_values)
    next
      case COMPLEMENT
      have c: "map of_bool xs = concat (map (int_tobytes 1) (map of_bool xs))"
        unfolding int_tobytes_1 by (induction xs) simp_all
      have "frombuffer 1 True (concat (map (int_tobytes 1) (map of_bool xs))) = map of_bool xs"
        by (rule frombuffer_tobytes) (auto simp: int_in_range_def)
      then have f: "frombuffer 1 True (map of_bool xs) = map of_bool xs"
        using c by simp
      show ?thesis
        unfolding native_pixel_array_bytes[OF b len] using shp BoolData b8 COMPLEMENT bytes f
          by (simp add: np_array_equal_def comp_def)
    qed
  next
    case (UInt8Data xs)
    with fmt b have b8: "bits_allocated = 8" "pixel_repr = UNSIGNED_INTEGER"
      by (simp_all add: valid_samples_def)
    have len: "length ?bytes = rows * columns * (bits_allocated div 8)"
      using size UInt8Data b8 by simp
    show ?thesis
      unfolding native_pixel_array_bytes[OF b len] using shp UInt8Data b8
        by (simp add: np_array_equal_def)
  next
    case (UInt16Data xs)
    with fmt b have b16: "bits_allocated = 16" "pixel_repr = UNSIGNED_INTEGER"
      by (simp_all add: valid_samples_def)
    have bytes: "?bytes = concat (map (int_tobytes 2) (map uint xs))"
      using UInt16Data by (simp add: uint16_bytes comp_def)
    have len: "length ?bytes = rows * columns * (bits_allocated div 8)"
      unfolding bytes using size UInt16Data b16
      by (simp add: length_concat_chunks[where n = 2] length_int_tobytes)
    have "frombuffer 2 False (concat (map (int_tobytes 2) (map uint xs))) = map uint xs"
      by (rule frombuffer_tobytes) (auto simp: int_in_range_def intro: uint_lt2p[where 'a = 16, simplified])
    then have f: "frombuffer 2 False ?bytes = map uint xs" using bytes by simp
    show ?thesis
      unfolding native_pixel_array_bytes[OF b len] using shp UInt16Data b16 f
        by (simp add: np_array_equal_def comp_def)
  next
    case (FloatData xs)
    with fmt b show ?thesis by (simp add: valid_samples_def)
  next
    case (IntData bits is_signed xs)
    with fmt b have bb: "bits = bits_allocated" "bits_allocated \<in> {8, 16, 32, 64}"
      and sg: "is_signed = (pixel_repr = COMPLEMENT)"
      and rng: "\<forall>v \<in> set xs. int_in_range bits_allocated is_signed v"
      by (auto simp: valid_samples_def)
    let ?n = "bits_allocated div 8"
    have n: "0 < ?n" "8 * ?n = bits_allocated" using bb(2) by auto
    have bytes: "?bytes = concat (map (int_tobytes ?n) xs)"
      using IntData bb by simp
    have len: "length ?bytes = rows * columns * (bits_allocated div 8)"
      unfolding bytes using size IntData
      by (simp add: length_concat_chunks[where n = ?n] length_int_tobytes)
    have f: "frombuffer ?n is_signed ?bytes = xs"
      unfolding bytes using n rng by (intro frombuffer_tobytes) simp_all
    show ?thesis
    proof (cases "bits_allocated = 8 \<and> pixel_repr = UNSIGNED_INTEGER")
      case True
      then have "?bytes = map of_int xs" using bytes by (simp add: int_tobytes_Suc_0)
      moreover have "map (\<lambda>w. of_nat (unat w)) (map of_int xs :: byte list) = (map of_int xs :: rat list)"
        using rng sg True
        by (auto simp: int_in_range_def intro!: word_value[where 'a = 8, simplified])
      ultimately show ?thesis
        unfolding native_pixel_array_bytes[OF b len] using shp IntData True
          by (simp add: np_array_equal_def)
    next
      case n8: False
      show ?thesis
      proof (cases "bits_allocated = 16 \<and> pixel_repr = UNSIGNED_INTEGER")
        case True
        then have f2: "frombuffer 2 False ?bytes = xs" using f sg by simp
        have "map (\<lambda>w. of_nat (unat w)) (map of_int xs :: 16 word list) = (map of_int xs :: rat list)"
          using rng sg True
          by (auto simp: int_in_range_def intro!: word_value[where 'a = 16, simplified])
        then show ?thesis
          unfolding native_pixel_array_bytes[OF b len] using shp IntData True f2
            by (simp add: np_array_equal_def)
      next
        case False
        then show ?thesis
          unfolding native_pixel_array_bytes[OF b len] using shp IntData n8 bb f sg
            by (auto simp: np_array_equal_def)
      qed
    qed
  next
    case OtherData
    with fmt b show ?thesis by (simp add: valid_samples_def)
  qed
  then show ?thesis unfolding decode_frame_native[OF ts] using e by blast
qed

text \<open>Native Pixel Data is decoded to integers: a floating point plane with a sample
  that is not an integer is not returned, whatever bytes stand for it.\<close>

lemma unsigned_word_integer: "(unsigned (w :: 'a::len word) :: rat) \<in> \<int>"
  by (metis Ints_of_nat of_nat_unat)

lemma native_pixel_array_integers:
  assumes "native_pixel_array env rows columns samples_per_pixel number_of_frames
             bits_allocated pixel_repr value = Inr decoded"
  shows "\<forall>v \<in> set (data_values (data decoded)). v \<in> \<int>"
  using assms
  by (auto simp: native_pixel_array_def Let_def unsigned_word_integer split: if_splits)

text \<open>The encapsulated paths.\<close>

lemma encode_frame_encapsulated:
  assumes "shape array = [rows, columns]"
  shows "encode_frame env array JPEGBaseline bits_allocated bits_stored
           photometric_interp pixel_repr planar_config = pillow_save env ''jpeg'' array"
    and "encode_frame env array JPEG2000Lossless bits_allocated bits_stored
           photometric_interp pixel_repr planar_config = pillow_save env ''jpeg2000'' array"
    and "encode_frame env array RLELossless bits_allocated bits_stored
           photometric_interp pixel_repr planar_config = rle_encode_frame env array"
  using assms by (simp_all add: encode_frame_def ndim_def)

lemma decode_frame_encapsulated:
  assumes "is_encapsulated transfer_syntax_uid"
  shows "decode_frame env value transfer_syntax_uid rows columns 1 bits_allocated bits_stored
           photometric_interp pixel_repr planar_config =
         (if transfer_syntax_uid = JPEGBaseline \<and> photometric_interp = RGB
          then pillow_open_ycbcr env value
          else decode_encapsulated env transfer_syntax_uid [rows, columns] bits_allocated
                 (encapsulate env [value]))"
  using assms by (simp add: decode_frame_def native_shape_def)

text \<open>
  Claim C1, as amended. For each of the five supported transfer syntaxes, every plane of
  \<open>rows \<times> columns\<close> samples that are valid for the pixel format, and codecs that keep
  their contract: under the native transfer syntaxes \<^verbatim>\<open>encode_frame\<close> returns bytes,
  provided that with Bits Allocated 1 the number of samples is a multiple of 8; and
  whenever \<^verbatim>\<open>encode_frame\<close> returns bytes, \<^verbatim>\<open>decode_frame\<close> applied to them (same transfer
  syntax, bit depth, photometric interpretation, pixel representation and planar
  configuration) returns an array whose shape and values equal the plane's.
\<close>

theorem decode_encode_frame_round_trip:
  assumes ts: "transfer_syntax_uid \<in> {ExplicitVRLittleEndian, ImplicitVRLittleEndian,
                 JPEGBaseline, JPEG2000Lossless, RLELossless}"
    and shp: "shape array = [rows, columns]"
    and size: "data_size (data array) = rows * columns"
    and fmt: "valid_samples (data array) bits_allocated pixel_repr"
    and packed: "bits_allocated = 1 \<and> \<not> is_encapsulated transfer_syntax_uid \<longrightarrow>
                   (rows * columns) mod 8 = 0"
    and contract: "codec_contract env"
  shows "(\<not> is_encapsulated transfer_syntax_uid \<longrightarrow>
            (\<exists>encoded. encode_frame env array transfer_syntax_uid bits_allocated bits_stored
                         photometric_interp pixel_repr planar_config = Inr encoded)) \<and>
         (\<forall>encoded.
            encode_frame env array transfer_syntax_uid bits_allocated bits_stored
              photometric_interp pixel_repr planar_config = Inr encoded \<longrightarrow>
            (\<exists>decoded.
               decode_frame env encoded transfer_syntax_uid rows columns 1 bits_allocated
                 bits_stored photometric_interp pixel_repr planar_config = Inr decoded \<and>
               np_array_equal decoded array))"
proof (cases "is_encapsulated transfer_syntax_uid")
  case False
  with ts have nat: "transfer_syntax_uid \<in> {ExplicitVRLittleEndian, ImplicitVRLittleEndian}"
    by auto
  have "\<exists>encoded decoded.
           encode_frame env array transfer_syntax_uid bits_allocated bits_stored
             photometric_interp pixel_repr planar_config = Inr encoded \<and>
           decode_frame env encoded transfer_syntax_uid rows columns 1 bits_allocated
             bits_stored photometric_interp pixel_repr planar_config = Inr decoded \<and>
           np_array_equal decoded array"
  proof (cases "bits_allocated = 1")
    case True
    with packed False have m: "(rows * columns) mod 8 = 0" by simp
    from fmt True have f1: "valid_samples (data array) 1 pixel_repr" by simp
    show ?thesis unfolding True by (rule native_round_trip_bits[OF nat shp size f1 m])
  next
    case b: False
    show ?thesis by (rule native_round_trip_bytes[OF nat shp size fmt b])
  qed
  then show ?thesis by fastforce
next
  case True
  from contract fmt have c:
    "\<And>value. pillow_save env ''jpeg'' array = Inr value \<Longrightarrow>
       (\<exists>decoded. pillow_open_ycbcr env value = Inr decoded \<and> np_array_equal decoded array) \<and>
       (\<exists>decoded. decode_encapsulated env JPEGBaseline (shape array) bits_allocated
                     (encapsulate env [value]) = Inr decoded \<and>
                  np_array_equal decoded array)"
    "\<And>value. pillow_save env ''jpeg2000'' array = Inr value \<Longrightarrow>
       (\<exists>decoded. decode_encapsulated env JPEG2000Lossless (shape array) bits_allocated
                     (encapsulate env [value]) = Inr decoded \<and>
                  np_array_equal decoded array)"
    "\<And>value. rle_encode_frame env array = Inr value \<Longrightarrow>
       (\<exists>decoded. decode_encapsulated env RLELossless (shape array) bits_allocated
                     (encapsulate env [value]) = Inr decoded \<and>
                  np_array_equal decoded array)"
    unfolding codec_contract_def by blast+
  from ts True consider "transfer_syntax_uid = JPEGBaseline"
    | "transfer_syntax_uid = JPEG2000Lossless" | "transfer_syntax_uid = RLELossless"
    by auto
  then have "\<forall>encoded.
            encode_frame env array transfer_syntax_uid bits_allocated bits_stored
              photometric_interp pixel_repr planar_config = Inr encoded \<longrightarrow>
            (\<exists>decoded.
               decode_frame env encoded transfer_syntax_uid rows columns 1 bits_allocated
                 bits_stored photometric_interp pixel_repr planar_config = Inr decoded \<and>
               np_array_equal decoded array)"
  proof cases
    case 1
    show ?thesis
      unfolding decode_frame_encapsulated[OF True] unfolding 1 encode_frame_encapsulated[OF shp]
      using c(1) shp by auto
  next
    case 2
    show ?thesis
      unfolding decode_frame_encapsulated[OF True] unfolding 2 encode_frame_encapsulated[OF shp]
      using c(2) shp by auto
  next
    case 3
    show ?thesis
      unfolding decode_frame_encapsulated[OF True] unfolding 3 encode_frame_encapsulated[OF shp]
      using c(3) shp by auto
  qed
  with True show ?thesis by simp
qed

theorem decode_encode_frame_round_trip_witness:
  "(\<exists>encoded decoded.
      encode_frame stored_codecs
        \<lparr>shape = [2, 4], data = BoolData [True, False, False, True, True, True, False, False]\<rparr>
        ImplicitVRLittleEndian 1 1 MONOCHROME2 UNSIGNED_INTEGER None = Inr encoded \<and>
      decode_frame stored_codecs encoded ImplicitVRLittleEndian 2 4 1 1 1 MONOCHROME2
        UNSIGNED_INTEGER None = Inr decoded \<and>
      np_array_equal decoded
        \<lparr>shape = [2, 4], data = BoolData [True, False, False, True, True, True, False, False]\<rparr>) \<and>
   (\<exists>encoded decoded.
      encode_frame stored_codecs \<lparr>shape = [1, 3], data = IntData 16 True [- 2, 0, 300]\<rparr>
        ExplicitVRLittleEndian 16 16 MONOCHROME2 COMPLEMENT None = Inr encoded \<and>
      decode_frame stored_codecs encoded ExplicitVRLittleEndian 1 3 1 16 16 MONOCHROME2
        COMPLEMENT None = Inr decoded \<and>
      np_array_equal decoded \<lparr>shape = [1, 3], data = IntData 16 True [- 2, 0, 300]\<rparr>) \<and>
   (\<exists>encoded decoded.
      encode_frame stored_codecs \<lparr>shape = [1, 3], data = UInt8Data [7, 0, 255]\<rparr>
        RLELossless 8 8 MONOCHROME2 UNSIGNED_INTEGER None = Inr encoded \<and>
      decode_frame stored_codecs encoded RLELossless 1 3 1 8 8 MONOCHROME2
        UNSIGNED_INTEGER None = Inr decoded \<and>
      np_array_equal decoded \<lparr>shape = [1, 3], data = UInt8Data [7, 0, 255]\<rparr>)"
proof -
  have c: "codec_contract stored_codecs"
    by (auto simp: codec_contract_def stored_codecs_def np_array_equal_def
        split: array_data.splits)
  let ?a1 = "\<lparr>shape = [2, 4],
               data = BoolData [True, False, False, True, True, True, False, False]\<rparr>"
  let ?a2 = "\<lparr>shape = [1, 3], data = IntData 16 True [- 2, 0, 300]\<rparr>"
  let ?a3 = "\<lparr>shape = [1, 3], data = UInt8Data [7, 0, 255]\<rparr>"
  have r1: "\<exists>encoded decoded.
      encode_frame stored_codecs ?a1 ImplicitVRLittleEndian 1 1 MONOCHROME2 UNSIGNED_INTEGER
        None = Inr encoded \<and>
      decode_frame stored_codecs encoded ImplicitVRLittleEndian 2 4 1 1 1 MONOCHROME2
        UNSIGNED_INTEGER None = Inr decoded \<and>
      np_array_equal decoded ?a1"
    using decode_encode_frame_round_trip[of ImplicitVRLittleEndian ?a1 2 4 1 UNSIGNED_INTEGER
        stored_codecs 1 MONOCHROME2 None] c
    by (simp add: valid_samples_def) blast
  have r2: "\<exists>encoded decoded.
      encode_frame stored_codecs ?a2 ExplicitVRLittleEndian 16 16 MONOCHROME2 COMPLEMENT
        None = Inr encoded \<and>
      decode_frame stored_codecs encoded ExplicitVRLittleEndian 1 3 1 16 16 MONOCHROME2
        COMPLEMENT None = Inr decoded \<and>
      np_array_equal decoded ?a2"
    using decode_encode_frame_round_trip[of ExplicitVRLittleEndian ?a2 1 3 16 COMPLEMENT
        stored_codecs 16 MONOCHROME2 None] c
    by (simp add: valid_samples_def int_in_range_def) blast
  have e3: "encode_frame stored_codecs ?a3 RLELossless 8 8 MONOCHROME2 UNSIGNED_INTEGER None =
      Inr [7, 0, 255]"
    by (simp add: encode_frame_def ndim_def stored_codecs_def)
  have r3: "\<exists>encoded decoded.
      encode_frame stored_codecs ?a3 RLELossless 8 8 MONOCHROME2 UNSIGNED_INTEGER
        None = Inr encoded \<and>
      decode_frame stored_codecs encoded RLELossless 1 3 1 8 8 MONOCHROME2
        UNSIGNED_INTEGER None = Inr decoded \<and>
      np_array_equal decoded ?a3"
    using decode_encode_frame_round_trip[of RLELossless ?a3 1 3 8 UNSIGNED_INTEGER
        stored_codecs 8 MONOCHROME2 None] c e3
    by (simp add: valid_samples_def)
  from r1 r2 r3 show ?thesis by (intro conjI)
qed

text \<open>
  Claim C1 as stated fails for a binary plane whose number of samples is not a multiple
  of 8: \<^verbatim>\<open>encode_frame\<close> refuses the 2 x 2 plane [[1, 0], [0, 1]] with Bits Allocated 1,
  so there is nothing to decode.
\<close>

theorem encode_frame_not_multiple_of_8_counterexample:
  "encode_frame no_codecs \<lparr>shape = [2, 2], data = BoolData [True, False, False, True]\<rparr>
     ImplicitVRLittleEndian 1 1 MONOCHROME2 UNSIGNED_INTEGER None =
   Inl (ValueError ''Frame cannot be bit packed because its size is not a multiple of 8.'')"
  by (simp add: encode_frame_def ndim_def)

subsection \<open>The attributes of the lookup table\<close>

text \<open>\<^verbatim>\<open>_build_luts\<close> assigns the four attributes with a leading underscore and no
  other attribute of the lookup table.\<close>

lemma build_luts_loop_lut_attrs:
  "build_luts_loop frames self cols = Inr (self', cols') \<Longrightarrow> lut_attrs self' = lut_attrs self"
  by (induction frames self cols rule: build_luts_loop.induct)
     (auto simp: Let_def split: if_splits sum.splits)

lemma build_luts_other_attrs:
  assumes "build_luts self = Inr self'"
    and "name \<notin> {''_frame_lut'', ''_lut_seg_col'', ''_lut_src_instance_col'', ''_lut_src_frame_col''}"
  shows "lut_attrs self' name = lut_attrs self name"
  using assms build_luts_loop_lut_attrs
  by (fastforce simp: build_luts_def build_ref_instance_lut_def Let_def
      split: sum.splits if_splits prod.splits)

subsection \<open>Frames without a single source frame\<close>






subsection \<open>Combining binary segments into a label map\<close>

lemma max_list_Max:
  assumes "xs \<noteq> []"
  shows "max_list xs = Max (set xs)"
proof (cases xs)
  case Nil
  then show ?thesis using assms by simp
next
  case (Cons a list)
  then show ?thesis using Max.set_eq_fold[of a list] by (simp add: max_list_def)
qed

lemma two_le_sum_list:
  fixes xs :: "rat list"
  assumes "\<forall>v \<in> set xs. 0 \<le> v" "s < t" "t < length xs"
  shows "xs ! s + xs ! t \<le> sum_list xs"
proof -
  have "xs ! s + xs ! t = (\<Sum>i \<in> {s, t}. xs ! i)" using assms(2) by simp
  also have "\<dots> \<le> (\<Sum>i \<in> {0..<length xs}. xs ! i)"
    using assms by (intro sum_mono2) auto
  also have "\<dots> = sum_list xs" by (simp add: sum_list_sum_nth)
  finally show ?thesis .
qed

lemma sum_list_all_zero: "\<forall>v \<in> set xs. v = (0::rat) \<Longrightarrow> sum_list xs = 0"
  by (induction xs) auto

lemma binary_sum_gt_1_iff:
  fixes xs :: "rat list"
  assumes "\<forall>v \<in> set xs. v = 0 \<or> v = 1"
  shows "sum_list xs > 1 \<longleftrightarrow> (\<exists>s t. s < t \<and> t < length xs \<and> xs ! s = 1 \<and> xs ! t = 1)"
proof
  assume "\<exists>s t. s < t \<and> t < length xs \<and> xs ! s = 1 \<and> xs ! t = 1"
  then obtain s t where st: "s < t" "t < length xs" "xs ! s = 1" "xs ! t = 1" by blast
  have "\<forall>v \<in> set xs. 0 \<le> v" using assms by auto
  from two_le_sum_list[OF this st(1,2)] st(3,4) show "sum_list xs > 1" by simp
next
  assume "sum_list xs > 1"
  with assms show "\<exists>s t. s < t \<and> t < length xs \<and> xs ! s = 1 \<and> xs ! t = 1"
  proof (induction xs)
    case Nil
    then show ?case by simp
  next
    case (Cons x xs)
    show ?case
    proof (cases "sum_list xs > 1")
      case True
      with Cons obtain s t where "s < t" "t < length xs" "xs ! s = 1" "xs ! t = 1" by auto
      then have "Suc s < Suc t \<and> Suc t < length (x # xs) \<and> (x # xs) ! Suc s = 1 \<and> (x # xs) ! Suc t = 1"
        by simp
      then show ?thesis by blast
    next
      case False
      with Cons.prems have x: "x = 1" and pos: "sum_list xs > 0" by auto
      have "\<exists>t < length xs. xs ! t = 1"
      proof (rule ccontr)
        assume "\<not> (\<exists>t < length xs. xs ! t = 1)"
        then have "\<forall>v \<in> set xs. v = 0" using Cons.prems(1) by (auto simp: all_set_conv_all_nth)
        then have "sum_list xs = 0" by (rule sum_list_all_zero)
        with pos show False by simp
      qed
      then obtain t where "t < length xs" "xs ! t = 1" by blast
      then have "0 < Suc t \<and> Suc t < length (x # xs) \<and> (x # xs) ! 0 = 1 \<and> (x # xs) ! Suc t = 1"
        using x by simp
      then show ?thesis by blast
    qed
  qed
qed

lemma binary_no_overlap_others_zero:
  fixes xs :: "rat list"
  assumes bin: "\<forall>v \<in> set xs. v = 0 \<or> v = 1" and le: "\<not> sum_list xs > 1"
    and s: "s < length xs" "xs ! s = 1" and t: "t < length xs" "t \<noteq> s"
  shows "xs ! t = 0"
proof (rule ccontr)
  assume "xs ! t \<noteq> 0"
  then have t1: "xs ! t = 1" using bin t(1) by (auto simp: all_set_conv_all_nth)
  have "\<exists>a b. a < b \<and> b < length xs \<and> xs ! a = 1 \<and> xs ! b = 1"
  proof (cases "s < t")
    case True
    then show ?thesis using s t t1 by blast
  next
    case False
    then have "t < s" using t(2) by simp
    then show ?thesis using s t t1 by blast
  qed
  then show False using le binary_sum_gt_1_iff[OF bin] by simp
qed

lemma combine_pixel_value:
  fixes px vm :: "rat list"
  assumes len: "length px = length vm" and ne: "px \<noteq> []"
    and bin: "\<forall>v \<in> set px. v = 0 \<or> v = 1" and le: "\<not> sum_list px > 1"
    and pos: "\<forall>w \<in> set vm. 0 \<le> w"
  shows "(\<forall>s < length px. px ! s = 1 \<longrightarrow> max_list (map2 (*) px vm) = vm ! s) \<and>
         ((\<forall>s < length px. px ! s = 0) \<longrightarrow> max_list (map2 (*) px vm) = 0)"
proof -
  let ?ys = "map2 (*) px vm"
  have ylen: "length ?ys = length px" using len by simp
  have yne: "?ys \<noteq> []" using ne len by (cases px; cases vm) auto
  have ynth: "\<And>i. i < length px \<Longrightarrow> ?ys ! i = px ! i * vm ! i" using len by simp
  have m: "max_list ?ys = Max (set ?ys)" using yne by (rule max_list_Max)
  have a: "\<forall>s < length px. px ! s = 1 \<longrightarrow> Max (set ?ys) = vm ! s"
  proof (intro allI impI)
    fix s assume s: "s < length px" "px ! s = 1"
    show "Max (set ?ys) = vm ! s"
    proof (rule Max_eqI)
      show "finite (set ?ys)" by simp
      show "vm ! s \<in> set ?ys"
        using ynth[OF s(1)] s ylen by (metis mult_1 nth_mem)
      fix y assume "y \<in> set ?ys"
      then obtain i where i: "i < length px" "y = px ! i * vm ! i"
        using ylen ynth by (metis in_set_conv_nth)
      show "y \<le> vm ! s"
      proof (cases "i = s")
        case True
        then show ?thesis using i s by simp
      next
        case False
        then have "px ! i = 0"
          using binary_no_overlap_others_zero[OF bin le s i(1)] by simp
        then show ?thesis using i pos s len by simp
      qed
    qed
  qed
  have b: "(\<forall>s < length px. px ! s = 0) \<longrightarrow> Max (set ?ys) = 0"
  proof
    assume z: "\<forall>s < length px. px ! s = 0"
    have all0: "\<forall>y \<in> set ?ys. y = 0"
      using z ylen ynth by (metis in_set_conv_nth mult_zero_left)
    have "0 < length ?ys" using yne by blast
    then have "?ys ! 0 \<in> set ?ys" by (rule nth_mem)
    then have "set ?ys = {0}" using all0 by auto
    then show "Max (set ?ys) = 0" by simp
  qed
  from a b m show ?thesis by simp
qed


lemma stacked_unfold:
  assumes "get_pixels_by_seg_frame env self seg_frames_matrix segment_numbers False relabel =
             Inr (Stacked stacked)"
  shows "concat seg_frames_matrix \<noteq> []"
    and "length segment_numbers = length (hd seg_frames_matrix)"
    and "\<not> Min (set segment_numbers) < 1"
    and "\<exists>decoded. seg_pixel_array env self = Inr decoded \<and>
           stacked = stack_frames decoded (Rows self * Columns self) seg_frames_matrix"
  using assms
  by (auto simp: get_pixels_by_seg_frame_def Let_def split: if_splits sum.splits)

lemma combined_unfold:
  assumes "SegmentationType self = BINARY"
    and "get_pixels_by_seg_frame env self seg_frames_matrix segment_numbers False relabel =
             Inr (Stacked stacked)"
  shows "get_pixels_by_seg_frame env self seg_frames_matrix segment_numbers True relabel =
           (if segments_overlap_in stacked
            then Inl (RuntimeError ''Segments cannot be combined because they overlap'')
            else Inr (Combined (combine_pixels (pixel_value_map_of relabel segment_numbers) stacked)))"
  using assms
  by (auto simp: get_pixels_by_seg_frame_def pixel_value_map_of_def Let_def
      split: if_splits sum.splits)

lemma stack_frames_shape:
  assumes "stacked = stack_frames decoded fs m"
    and "\<forall>row \<in> set m. length row = n"
  shows "length stacked = length m"
    and "f < length stacked \<Longrightarrow> length (stacked ! f) = fs"
    and "f < length stacked \<Longrightarrow> p < length (stacked ! f) \<Longrightarrow> length (stacked ! f ! p) = n"
  using assms by (simp_all add: stack_frames_def)

lemma pixel_value_map_facts:
  assumes "\<not> Min (set segment_numbers) < 1" "segment_numbers \<noteq> []"
  shows "length (pixel_value_map_of relabel segment_numbers) = length segment_numbers"
    and "\<forall>w \<in> set (pixel_value_map_of relabel segment_numbers). 0 \<le> w"
    and "s < length segment_numbers \<Longrightarrow>
           pixel_value_map_of relabel segment_numbers ! s =
             (if relabel then of_nat (s + 1) else of_int (segment_numbers ! s))"
    and "s < length segment_numbers \<Longrightarrow>
           pixel_value_map_of relabel segment_numbers ! s \<le>
             (if relabel then of_nat (length segment_numbers) else of_int (Max (set segment_numbers)))"
proof -
  have ge1: "\<forall>n \<in> set segment_numbers. 1 \<le> n"
    using assms by (auto simp: not_less)
  show "length (pixel_value_map_of relabel segment_numbers) = length segment_numbers"
    by (cases relabel) (simp_all add: pixel_value_map_of_def del: upt_Suc)
  show "\<forall>w \<in> set (pixel_value_map_of relabel segment_numbers). 0 \<le> w"
    using ge1 by (auto simp: pixel_value_map_of_def)
  show "s < length segment_numbers \<Longrightarrow>
           pixel_value_map_of relabel segment_numbers ! s =
             (if relabel then of_nat (s + 1) else of_int (segment_numbers ! s))"
    by (simp add: pixel_value_map_of_def nth_upt del: upt_Suc)
  show "s < length segment_numbers \<Longrightarrow>
           pixel_value_map_of relabel segment_numbers ! s \<le>
             (if relabel then of_nat (length segment_numbers) else of_int (Max (set segment_numbers)))"
    by (simp add: pixel_value_map_of_def nth_upt del: upt_Suc)
qed


lemma segments_overlap_in_iff:
  assumes bin: "\<forall>frm \<in> set stacked. \<forall>pix \<in> set frm. \<forall>v \<in> set pix. v = 0 \<or> v = 1"
    and len: "\<forall>frm \<in> set stacked. \<forall>pix \<in> set frm. length pix = n"
  shows "segments_overlap_in stacked \<longleftrightarrow>
         (\<exists>f < length stacked. \<exists>p < length (stacked ! f). \<exists>s t.
            s < t \<and> t < n \<and> stacked ! f ! p ! s = 1 \<and> stacked ! f ! p ! t = 1)"
proof
  assume "segments_overlap_in stacked"
  then obtain frm pix where fp: "frm \<in> set stacked" "pix \<in> set frm" "sum_list pix > 1"
    by (auto simp: segments_overlap_in_def)
  then obtain f p where f: "f < length stacked" "stacked ! f = frm"
    and p: "p < length frm" "frm ! p = pix"
    by (metis in_set_conv_nth)
  have "\<forall>v \<in> set pix. v = 0 \<or> v = 1" using bin fp by blast
  from binary_sum_gt_1_iff[OF this] fp(3) obtain s t where
    "s < t" "t < length pix" "pix ! s = 1" "pix ! t = 1" by blast
  moreover have "length pix = n" using len fp by blast
  ultimately show "\<exists>f < length stacked. \<exists>p < length (stacked ! f). \<exists>s t.
            s < t \<and> t < n \<and> stacked ! f ! p ! s = 1 \<and> stacked ! f ! p ! t = 1"
    using f p by blast
next
  assume "\<exists>f < length stacked. \<exists>p < length (stacked ! f). \<exists>s t.
            s < t \<and> t < n \<and> stacked ! f ! p ! s = 1 \<and> stacked ! f ! p ! t = 1"
  then obtain f p s t where f: "f < length stacked" and p: "p < length (stacked ! f)"
    and st: "s < t" "t < n" "stacked ! f ! p ! s = 1" "stacked ! f ! p ! t = 1" by blast
  let ?pix = "stacked ! f ! p"
  have mem: "stacked ! f \<in> set stacked" "?pix \<in> set (stacked ! f)" using f p by simp_all
  have b: "\<forall>v \<in> set ?pix. v = 0 \<or> v = 1" using bin mem by blast
  have "length ?pix = n" using len mem by blast
  with st binary_sum_gt_1_iff[OF b] have "sum_list ?pix > 1" by blast
  with mem show "segments_overlap_in stacked" by (auto simp: segments_overlap_in_def)
qed

lemma combine_pixels_nth:
  "f < length stacked \<Longrightarrow> p < length (stacked ! f) \<Longrightarrow>
   length (combine_pixels vm stacked) = length stacked \<and>
   length (combine_pixels vm stacked ! f) = length (stacked ! f) \<and>
   combine_pixels vm stacked ! f ! p = max_list (map2 (*) (stacked ! f ! p) vm)"
  by (simp add: combine_pixels_def)

lemma length_combine_pixels:
  "length (combine_pixels vm stacked) = length stacked"
  "f < length stacked \<Longrightarrow> length (combine_pixels vm stacked ! f) = length (stacked ! f)"
  by (simp_all add: combine_pixels_def)

lemma label_values:
  fixes stacked :: "rat list list list"
  assumes bin: "\<forall>frm \<in> set stacked. \<forall>pix \<in> set frm. \<forall>v \<in> set pix. v = 0 \<or> v = 1"
    and len: "\<forall>frm \<in> set stacked. \<forall>pix \<in> set frm. length pix = length segment_numbers"
    and no: "\<not> segments_overlap_in stacked"
    and segs: "\<not> Min (set segment_numbers) < 1" "segment_numbers \<noteq> []"
    and f: "f < length stacked" and p: "p < length (stacked ! f)"
  shows "0 \<le> combine_pixels (pixel_value_map_of relabel segment_numbers) stacked ! f ! p \<and>
         combine_pixels (pixel_value_map_of relabel segment_numbers) stacked ! f ! p \<le>
           (if relabel then of_nat (length segment_numbers)
            else of_int (Max (set segment_numbers))) \<and>
         (\<forall>s < length segment_numbers. stacked ! f ! p ! s = 1 \<longrightarrow>
            combine_pixels (pixel_value_map_of relabel segment_numbers) stacked ! f ! p =
              (if relabel then of_nat (s + 1) else of_int (segment_numbers ! s))) \<and>
         ((\<forall>s < length segment_numbers. stacked ! f ! p ! s = 0) \<longrightarrow>
            combine_pixels (pixel_value_map_of relabel segment_numbers) stacked ! f ! p = 0)"
proof -
  let ?vm = "pixel_value_map_of relabel segment_numbers"
  let ?pix = "stacked ! f ! p"
  let ?v = "combine_pixels ?vm stacked ! f ! p"
  let ?bound = "if relabel then of_nat (length segment_numbers)
                else of_int (Max (set segment_numbers)) :: rat"
  have mem: "stacked ! f \<in> set stacked" "?pix \<in> set (stacked ! f)" using f p by simp_all
  have b: "\<forall>v \<in> set ?pix. v = 0 \<or> v = 1" using bin mem by blast
  have l: "length ?pix = length ?vm"
    using len mem pixel_value_map_facts(1)[OF segs] by metis
  have ln: "length ?pix = length segment_numbers" using len mem by blast
  have ne: "?pix \<noteq> []" using ln segs(2) by auto
  have ns: "\<not> sum_list ?pix > 1" using no mem by (auto simp: segments_overlap_in_def)
  have v: "?v = max_list (map2 (*) ?pix ?vm)" using combine_pixels_nth[OF f p] by simp
  from combine_pixel_value[OF l ne b ns pixel_value_map_facts(2)[OF segs]]
  have one: "\<forall>s < length ?pix. ?pix ! s = 1 \<longrightarrow> ?v = ?vm ! s"
    and zero: "(\<forall>s < length ?pix. ?pix ! s = 0) \<longrightarrow> ?v = 0"
    unfolding v by blast+
  have c: "\<forall>s < length segment_numbers. ?pix ! s = 1 \<longrightarrow>
             ?v = (if relabel then of_nat (s + 1) else of_int (segment_numbers ! s))"
    using one ln pixel_value_map_facts(3)[OF segs] by metis
  have d: "(\<forall>s < length segment_numbers. ?pix ! s = 0) \<longrightarrow> ?v = 0"
    using zero ln by simp
  have range: "0 \<le> ?v \<and> ?v \<le> ?bound"
  proof (cases "\<exists>s < length ?pix. ?pix ! s = 1")
    case True
    then obtain s where s: "s < length ?pix" "?pix ! s = 1" by blast
    then have "?v = ?vm ! s" using one by blast
    moreover have "?vm ! s \<in> set ?vm" using s(1) l by simp
    then have "0 \<le> ?vm ! s" using pixel_value_map_facts(2)[OF segs] by blast
    moreover have "?vm ! s \<le> ?bound"
      using pixel_value_map_facts(4)[OF segs] s(1) ln by metis
    ultimately show ?thesis by simp
  next
    case False
    then have "\<forall>s < length ?pix. ?pix ! s = 0"
      using b by (metis nth_mem)
    then have "?v = 0" using zero by blast
    moreover have "0 \<le> ?bound"
    proof (cases relabel)
      case True
      then show ?thesis by simp
    next
      case False
      have "Max (set segment_numbers) \<ge> Min (set segment_numbers)"
        using segs(2) by simp
      then show ?thesis using False segs(1) by simp
    qed
    ultimately show ?thesis by simp
  qed
  from range c d show ?thesis by blast
qed


text \<open>The frames decoded from native 1-bit Pixel Data hold only 0 and 1, so the planes
  stacked from them do.\<close>

lemma length_unpack_bits: "length (unpack_bits bytes) = 8 * length bytes"
  by (induction bytes) (simp_all add: unpack_bits_def bits_of_byte_def)

lemma expected_length_covers:
  "expected_pixels r c s n \<le> 8 * get_expected_length r c s n 1"
  by (simp add: get_expected_length_def Let_def) presburger

lemma native_binary_decoded:
  assumes "native_pixel_array env r c 1 n 1 pixel_repr pixel_data = Inr decoded"
  shows "length (data_values (data decoded)) = r * c * n"
    and "\<forall>v \<in> set (data_values (data decoded)). v = 0 \<or> v = 1"
    and "ndim decoded = 2 \<longleftrightarrow> n \<le> 1"
proof -
  let ?e = "get_expected_length r c 1 n 1"
  from assms have len: "?e \<le> length pixel_data"
    and d: "decoded = \<lparr>shape = native_shape r c 1 n,
              data = UInt8Data (map of_bool (take (expected_pixels r c 1 n) (unpack_bits pixel_data)))\<rparr>"
    by (auto simp: native_pixel_array_def Let_def split: if_splits)
  have "expected_pixels r c 1 n \<le> 8 * ?e" by (rule expected_length_covers)
  also have "\<dots> \<le> length (unpack_bits pixel_data)" using len by (simp add: length_unpack_bits)
  finally show "length (data_values (data decoded)) = r * c * n"
    unfolding d by (simp add: expected_pixels_def)
  show "\<forall>v \<in> set (data_values (data decoded)). v = 0 \<or> v = 1"
    unfolding d by auto
  show "ndim decoded = 2 \<longleftrightarrow> n \<le> 1"
    unfolding d by (auto simp: ndim_def native_shape_def)
qed

lemma frame_values_binary:
  assumes len: "length (data_values (data decoded)) = fs * n"
    and bin: "\<forall>v \<in> set (data_values (data decoded)). v = 0 \<or> v = 1"
    and nd: "ndim decoded = 2 \<longleftrightarrow> n \<le> 1"
    and k: "k < n" and p: "p < fs"
  shows "frame_values decoded fs k ! p = 0 \<or> frame_values decoded fs k ! p = 1"
proof (cases "ndim decoded = 2")
  case True
  then have "n = 1" using nd k by simp
  then have "p < length (data_values (data decoded))" using len p by simp
  then have "data_values (data decoded) ! p \<in> set (data_values (data decoded))" by simp
  then show ?thesis using bin True by (auto simp: frame_values_def)
next
  case False
  have "k * fs + fs \<le> fs * n"
  proof -
    have "Suc k \<le> n" using k by simp
    then have "Suc k * fs \<le> n * fs" by (rule mult_le_mono1)
    then show ?thesis by (simp add: mult.commute)
  qed
  then have "k * fs + p < length (data_values (data decoded))" using len p by simp
  then have "frame_values decoded fs k ! p = data_values (data decoded) ! (k * fs + p)"
    using False p by (simp add: frame_values_def)
  moreover have "data_values (data decoded) ! (k * fs + p) \<in> set (data_values (data decoded))"
    using \<open>k * fs + p < length (data_values (data decoded))\<close> by simp
  ultimately show ?thesis using bin by auto
qed

lemma native_binary_stacked_is_binary:
  assumes native: "\<not> is_encapsulated (TransferSyntaxUID self)"
    and bits: "BitsAllocated self = 1" and spp: "SamplesPerPixel self = 1"
    and st: "get_pixels_by_seg_frame env self seg_frames_matrix segment_numbers False relabel =
               Inr (Stacked stacked)"
  shows "\<forall>frm \<in> set stacked. \<forall>pix \<in> set frm. \<forall>v \<in> set pix. v = 0 \<or> v = 1"
proof -
  from st obtain decoded where
    dec: "seg_pixel_array env self = Inr decoded"
    and stk: "stacked = stack_frames decoded (Rows self * Columns self) seg_frames_matrix"
    and mx: "\<not> Max (set (concat seg_frames_matrix)) > int (NumberOfFrames self)"
    and ne: "concat seg_frames_matrix \<noteq> []"
    by (auto simp: get_pixels_by_seg_frame_def Let_def split: if_splits sum.splits)
  let ?n = "get_nr_frames (NumberOfFrames self)"
  let ?fs = "Rows self * Columns self"
  from dec native bits spp have
    "native_pixel_array env (Rows self) (Columns self) 1 ?n 1 UNSIGNED_INTEGER (PixelData self)
       = Inr decoded"
    by (simp add: seg_pixel_array_def Let_def)
  note nb = native_binary_decoded[OF this]
  have le: "\<forall>row \<in> set seg_frames_matrix. \<forall>x \<in> set row. x \<le> int (NumberOfFrames self)"
  proof (intro ballI)
    fix row x assume "row \<in> set seg_frames_matrix" "x \<in> set row"
    then have "x \<in> set (concat seg_frames_matrix)" by auto
    then have "x \<le> Max (set (concat seg_frames_matrix))" by simp
    with mx show "x \<le> int (NumberOfFrames self)" by simp
  qed
  show ?thesis
  proof (intro ballI)
    fix frm pix v assume "frm \<in> set stacked" "pix \<in> set frm" "v \<in> set pix"
    then obtain row p x where row: "row \<in> set seg_frames_matrix" and p: "p < ?fs"
      and x: "x \<in> set row"
      and v: "v = (if x \<ge> 1 then frame_values decoded ?fs (nat (x - 1)) ! p else 0)"
      unfolding stk stack_frames_def by auto
    show "v = 0 \<or> v = 1"
    proof (cases "x \<ge> 1")
      case True
      have "x \<le> int (NumberOfFrames self)" using le row x by blast
      then have "nat (x - 1) < ?n" using True by (simp add: get_nr_frames_def)
      from frame_values_binary[OF _ nb(2) nb(3) this p] nb(1) v True
      show ?thesis by (simp add: mult.commute)
    next
      case False
      then show ?thesis using v by simp
    qed
  qed
qed

text \<open>
  Claim C5, as amended. \<^verbatim>\<open>combine_segments=True\<close> raises ValueError unless the
  segmentation type is BINARY. For a BINARY object, a rectangular frame matrix and
  arguments for which the reconstruction without combining returns the stacked array
  \<open>stacked\<close> of binary planes: there is an overlap exactly when some pixel is 1 in two
  of the selected segments' planes of one output frame, and then an overlap error is
  raised; otherwise a single-channel label map is returned in which a pixel that is 1 in
  the plane of the \<open>s\<close>-th selected segment (counted from 0) has the value \<open>s + 1\<close> when
  relabelling and that segment's number otherwise, and a pixel of no segment has the
  value 0. Every value lies between 0 and \<^verbatim>\<open>len(segment_numbers)\<close> (relabel) or the
  largest selected segment number (no relabel); this bound is the maximum only when the
  segment concerned has a pixel in a selected frame.
\<close>

theorem combine_segments_label_map:
  "(SegmentationType self \<noteq> BINARY \<longrightarrow>
      get_pixels_by_seg_frame env self seg_frames_matrix segment_numbers True relabel =
        Inl (ValueError ''Cannot combine segments if the segmentation is not binary'')) \<and>
   (SegmentationType self = BINARY \<and>
    (\<forall>row \<in> set seg_frames_matrix. length row = length (hd seg_frames_matrix)) \<and>
    get_pixels_by_seg_frame env self seg_frames_matrix segment_numbers False relabel =
      Inr (Stacked stacked) \<and>
    (\<forall>frm \<in> set stacked. \<forall>pix \<in> set frm. \<forall>v \<in> set pix. v = 0 \<or> v = 1) \<longrightarrow>
      (segments_overlap_in stacked \<longleftrightarrow>
         (\<exists>f < length stacked. \<exists>p < length (stacked ! f). \<exists>s t.
            s < t \<and> t < length segment_numbers \<and>
            stacked ! f ! p ! s = 1 \<and> stacked ! f ! p ! t = 1)) \<and>
      (segments_overlap_in stacked \<longrightarrow>
         get_pixels_by_seg_frame env self seg_frames_matrix segment_numbers True relabel =
           Inl (RuntimeError ''Segments cannot be combined because they overlap'')) \<and>
      (\<not> segments_overlap_in stacked \<longrightarrow>
         (\<exists>label_map.
            get_pixels_by_seg_frame env self seg_frames_matrix segment_numbers True relabel =
              Inr (Combined label_map) \<and>
            length label_map = length stacked \<and>
            (\<forall>f < length stacked.
               length (label_map ! f) = length (stacked ! f) \<and>
               (\<forall>p < length (stacked ! f).
                  0 \<le> label_map ! f ! p \<and>
                  label_map ! f ! p \<le>
                    (if relabel then of_nat (length segment_numbers)
                     else of_int (Max (set segment_numbers))) \<and>
                  (\<forall>s < length segment_numbers. stacked ! f ! p ! s = 1 \<longrightarrow>
                     label_map ! f ! p =
                       (if relabel then of_nat (s + 1) else of_int (segment_numbers ! s))) \<and>
                  ((\<forall>s < length segment_numbers. stacked ! f ! p ! s = 0) \<longrightarrow>
                     label_map ! f ! p = 0))))))"
proof (intro conjI impI)
  assume "SegmentationType self \<noteq> BINARY"
  then show "get_pixels_by_seg_frame env self seg_frames_matrix segment_numbers True relabel =
        Inl (ValueError ''Cannot combine segments if the segmentation is not binary'')"
    by (simp add: get_pixels_by_seg_frame_def)
next
  assume a: "SegmentationType self = BINARY \<and>
    (\<forall>row \<in> set seg_frames_matrix. length row = length (hd seg_frames_matrix)) \<and>
    get_pixels_by_seg_frame env self seg_frames_matrix segment_numbers False relabel =
      Inr (Stacked stacked) \<and>
    (\<forall>frm \<in> set stacked. \<forall>pix \<in> set frm. \<forall>v \<in> set pix. v = 0 \<or> v = 1)"
  then have binary: "SegmentationType self = BINARY"
    and rect: "\<forall>row \<in> set seg_frames_matrix. length row = length (hd seg_frames_matrix)"
    and st: "get_pixels_by_seg_frame env self seg_frames_matrix segment_numbers False relabel =
      Inr (Stacked stacked)"
    and bin: "\<forall>frm \<in> set stacked. \<forall>pix \<in> set frm. \<forall>v \<in> set pix. v = 0 \<or> v = 1"
    by blast+
  note u = stacked_unfold[OF st]
  from u(4) obtain decoded where
    stk: "stacked = stack_frames decoded (Rows self * Columns self) seg_frames_matrix" by blast
  have rect': "\<forall>row \<in> set seg_frames_matrix. length row = length segment_numbers"
    using rect u(2) by simp
  have len: "\<forall>frm \<in> set stacked. \<forall>pix \<in> set frm. length pix = length segment_numbers"
    using rect' unfolding stk stack_frames_def by auto
  have "\<exists>row \<in> set seg_frames_matrix. row \<noteq> []" using u(1) by auto
  then have ne: "segment_numbers \<noteq> []" using rect' by auto
  have res: "get_pixels_by_seg_frame env self seg_frames_matrix segment_numbers True relabel =
           (if segments_overlap_in stacked
            then Inl (RuntimeError ''Segments cannot be combined because they overlap'')
            else Inr (Combined (combine_pixels (pixel_value_map_of relabel segment_numbers) stacked)))"
    using combined_unfold[OF binary st] .
  show "segments_overlap_in stacked \<longleftrightarrow>
         (\<exists>f < length stacked. \<exists>p < length (stacked ! f). \<exists>s t.
            s < t \<and> t < length segment_numbers \<and>
            stacked ! f ! p ! s = 1 \<and> stacked ! f ! p ! t = 1)"
    using segments_overlap_in_iff[OF bin len] .
  show "get_pixels_by_seg_frame env self seg_frames_matrix segment_numbers True relabel =
           Inl (RuntimeError ''Segments cannot be combined because they overlap'')"
    if "segments_overlap_in stacked"
    using res that by simp
  show "\<exists>label_map.
            get_pixels_by_seg_frame env self seg_frames_matrix segment_numbers True relabel =
              Inr (Combined label_map) \<and>
            length label_map = length stacked \<and>
            (\<forall>f < length stacked.
               length (label_map ! f) = length (stacked ! f) \<and>
               (\<forall>p < length (stacked ! f).
                  0 \<le> label_map ! f ! p \<and>
                  label_map ! f ! p \<le>
                    (if relabel then of_nat (length segment_numbers)
                     else of_int (Max (set segment_numbers))) \<and>
                  (\<forall>s < length segment_numbers. stacked ! f ! p ! s = 1 \<longrightarrow>
                     label_map ! f ! p =
                       (if relabel then of_nat (s + 1) else of_int (segment_numbers ! s))) \<and>
                  ((\<forall>s < length segment_numbers. stacked ! f ! p ! s = 0) \<longrightarrow>
                     label_map ! f ! p = 0)))"
    if no: "\<not> segments_overlap_in stacked"
  proof (intro exI conjI allI impI)
    show "get_pixels_by_seg_frame env self seg_frames_matrix segment_numbers True relabel =
        Inr (Combined (combine_pixels (pixel_value_map_of relabel segment_numbers) stacked))"
      using res no by simp
    show "length (combine_pixels (pixel_value_map_of relabel segment_numbers) stacked) =
        length stacked"
      by (rule length_combine_pixels(1))
  next
    fix f assume f: "f < length stacked"
    show "length (combine_pixels (pixel_value_map_of relabel segment_numbers) stacked ! f) =
        length (stacked ! f)"
      using f by (rule length_combine_pixels(2))
    fix p assume p: "p < length (stacked ! f)"
    note lv = label_values[OF bin len no u(3) ne f p, of relabel]
    show "0 \<le> combine_pixels (pixel_value_map_of relabel segment_numbers) stacked ! f ! p"
      using lv by blast
    show "combine_pixels (pixel_value_map_of relabel segment_numbers) stacked ! f ! p \<le>
        (if relabel then of_nat (length segment_numbers) else of_int (Max (set segment_numbers)))"
      using lv by blast
    show "combine_pixels (pixel_value_map_of relabel segment_numbers) stacked ! f ! p =
        (if relabel then of_nat (s + 1) else of_int (segment_numbers ! s))"
      if "s < length segment_numbers" "stacked ! f ! p ! s = 1" for s
      using lv that by blast
    show "combine_pixels (pixel_value_map_of relabel segment_numbers) stacked ! f ! p = 0"
      if "\<forall>s < length segment_numbers. stacked ! f ! p ! s = 0"
      using lv that by blast
  qed
qed



text \<open>The object that the constructor builds from the labelled mask of two segments:
  the frames 1 and 3 are the planes of the segments 1 and 2 over the first source
  frame.\<close>

lemma example_two_segments_pixels:
  "(case Segmentation_init no_codecs example_two_segment_args of
      Inl err \<Rightarrow> False
    | Inr seg \<Rightarrow>
        SegmentationType seg = BINARY \<and>
        get_pixels_by_seg_frame no_codecs seg [[1, 3]] [1, 2] False True =
          Inr (Stacked [[[1, 0], [1, 0], [0, 1], [0, 0], [0, 0], [0, 0], [0, 0], [0, 0]]]) \<and>
        get_pixels_by_seg_frame no_codecs seg [[1, 3]] [1, 2] True True =
          Inr (Combined [[1, 1, 2, 0, 0, 0, 0, 0]]))"
  by code_simp

theorem combine_segments_label_map_witness:
  "\<exists>seg.
     Segmentation_init no_codecs example_two_segment_args = Inr seg \<and>
     SegmentationType seg = BINARY \<and>
     get_pixels_by_seg_frame no_codecs seg [[1, 3]] [1, 2] False True =
       Inr (Stacked [[[1, 0], [1, 0], [0, 1], [0, 0], [0, 0], [0, 0], [0, 0], [0, 0]]]) \<and>
     \<not> segments_overlap_in [[[1, 0], [1, 0], [0, 1], [0, 0], [0, 0], [0, 0], [0, 0], [0, 0]]] \<and>
     (\<exists>label_map.
        get_pixels_by_seg_frame no_codecs seg [[1, 3]] [1, 2] True True =
          Inr (Combined label_map) \<and>
        length label_map = 1)"
proof -
  let ?S = "[[[1, 0], [1, 0], [0, 1], [0, 0], [0, 0], [0, 0], [0, 0], [0, 0]]] :: rat list list list"
  from example_two_segments_pixels obtain seg where
    i: "Segmentation_init no_codecs example_two_segment_args = Inr seg"
    and h1: "SegmentationType seg = BINARY"
    and h3: "get_pixels_by_seg_frame no_codecs seg [[1, 3]] [1, 2] False True = Inr (Stacked ?S)"
    by (auto split: sum.splits)
  have h2: "\<forall>row \<in> set [[1, 3 :: int]]. length row = length (hd [[1, 3 :: int]])" by simp
  have h4: "\<forall>frm \<in> set ?S. \<forall>pix \<in> set frm. \<forall>v \<in> set pix. v = 0 \<or> v = 1" by simp
  have h5: "\<not> segments_overlap_in ?S" by (simp add: segments_overlap_in_def)
  have c: "\<exists>label_map.
      get_pixels_by_seg_frame no_codecs seg [[1, 3]] [1, 2] True True =
        Inr (Combined label_map) \<and> length label_map = 1"
    using combine_segments_label_map[of seg no_codecs "[[1, 3]]" "[1, 2]" True ?S]
      h1 h2 h3 h4 h5 by simp blast
  show ?thesis
    by (rule exI[of _ seg]) (intro conjI i h1 h3 h5 c)
qed

text \<open>
  Claim C5 as stated fails when a selected segment has no frame for a source frame: in
  the constructed object segment 2 has no pixel in the second plane, so the query for
  the source frame 2 and the segments 1 and 2 has the frame matrix [[2, -1]], and the
  relabelled label map has the maximum 1, not \<^verbatim>\<open>len(segment_numbers)\<close> = 2.
\<close>

theorem combine_label_map_maximum_counterexample:
  "(case Segmentation_init no_codecs example_two_segment_args of
      Inl err \<Rightarrow> False
    | Inr seg \<Rightarrow>
        seg_frames_by_frame_number seg [''1.2.3''] [2] [1, 2] False = Inr [[2, - 1]] \<and>
        get_pixels_by_source_frame no_codecs seg [''1.2.3''] (Some [2]) (Some [1, 2])
          True True False False = Inr (Combined [[0, 0, 0, 0, 1, 1, 0, 0]]) \<and>
        get_pixels_by_seg_frame no_codecs seg [[2, - 1]] [1, 2] True True =
          Inr (Combined [[0, 0, 0, 0, 1, 1, 0, 0]])) \<and>
   max_list [0, 0, 0, 0, 1, 1, 0, 0] \<noteq> of_nat (length [1, 2 :: int])"
  by code_simp

subsection \<open>The constructor and the transfer syntax of BINARY segmentations\<close>

text \<open>
  Claim C10. For segmentation type BINARY and an encapsulated transfer syntax the
  constructor raises, and it does so before it reaches \<^verbatim>\<open>add_segments\<close>, where the frames
  are encoded: already the part of the constructor before that call fails.
\<close>

theorem binary_encapsulated_rejected:
  assumes "arg_segmentation_type args = ''BINARY''"
    and "is_encapsulated (arg_transfer_syntax_uid args)"
  shows "\<exists>err. init_attributes args = Inl err \<and> Segmentation_init env args = Inl err"
proof -
  have "\<exists>err. init_attributes args = Inl err"
    using assms by (auto simp: init_attributes_def Let_def split: option.splits)
  then show ?thesis by (auto simp: Segmentation_init_def)
qed

theorem binary_encapsulated_rejected_witness:
  "arg_segmentation_type (example_init_args\<lparr>arg_transfer_syntax_uid := JPEG2000Lossless\<rparr>) =
     ''BINARY'' \<and>
   is_encapsulated
     (arg_transfer_syntax_uid (example_init_args\<lparr>arg_transfer_syntax_uid := JPEG2000Lossless\<rparr>)) \<and>
   (\<exists>err. init_attributes (example_init_args\<lparr>arg_transfer_syntax_uid := JPEG2000Lossless\<rparr>) =
            Inl err \<and>
          Segmentation_init no_codecs
            (example_init_args\<lparr>arg_transfer_syntax_uid := JPEG2000Lossless\<rparr>) = Inl err)"
proof -
  have h1: "arg_segmentation_type (example_init_args\<lparr>arg_transfer_syntax_uid := JPEG2000Lossless\<rparr>) =
     ''BINARY''" by (simp add: example_init_args_def)
  have h2: "is_encapsulated
     (arg_transfer_syntax_uid (example_init_args\<lparr>arg_transfer_syntax_uid := JPEG2000Lossless\<rparr>))"
    by simp
  from binary_encapsulated_rejected[OF h1 h2] h1 h2 show ?thesis by blast
qed

text \<open>With JPEG 2000 Lossless, which passes the check of the supported transfer syntaxes,
  the exception is the one of the BINARY check.\<close>

lemma binary_encapsulated_error_message:
  "(case Segmentation_init no_codecs
           (example_init_args\<lparr>arg_transfer_syntax_uid := JPEG2000Lossless\<rparr>) of
      Inl err \<Rightarrow>
        err = ValueError
          ''The chosen transfer syntax is not compatible with the BINARY segmentation type''
    | Inr self \<Rightarrow> False)"
  by code_simp

text \<open>An object the constructor creates as BINARY has a native transfer syntax.\<close>

lemma init_attributes_binary_native:
  assumes "init_attributes args = Inr self"
  shows "SegmentationType self = BINARY \<longrightarrow> \<not> is_encapsulated (TransferSyntaxUID self)"
  using assms
  by (auto simp: init_attributes_def Let_def split: option.splits if_splits)

subsection \<open>What add_segments changes\<close>

text \<open>\<^verbatim>\<open>_build_luts\<close> changes the attributes of the lookup tables only; the loops of
  \<^verbatim>\<open>add_segments\<close> append frame items and bytes.\<close>

lemma build_luts_loop_frame:
  "build_luts_loop frames self cols = Inr (self', cols') \<Longrightarrow>
   \<exists>flag. self' = self\<lparr>single_source_frame_per_seg_frame := flag\<rparr>"
proof (induction frames self cols arbitrary: self' cols' rule: build_luts_loop.induct)
  case (1 self cols)
  then have "self' = self\<lparr>single_source_frame_per_seg_frame := single_source_frame_per_seg_frame self\<rparr>"
    by simp
  then show ?case by blast
next
  case (2 frame_item frames self cols)
  show ?case
  proof (cases "length (remdups (frame_source_instances frame_item)) \<noteq> 1 \<or>
                length (remdups (frame_source_frames frame_item)) \<noteq> 1")
    case True
    with 2(1)[OF refl True] 2(3) obtain flag where
      "self' = self\<lparr>single_source_frame_per_seg_frame := False,
                     single_source_frame_per_seg_frame := flag\<rparr>"
      by (auto simp: Let_def)
    then have "self' = self\<lparr>single_source_frame_per_seg_frame := flag\<rparr>" by simp
    then show ?thesis by blast
  next
    case False
    with 2(2)[OF refl False refl] 2(3) show ?thesis
      by (auto simp: Let_def split: sum.splits)
  qed
qed

lemma build_luts_frame:
  assumes "build_luts self = Inr self'"
  shows "\<exists>uids flag preserved attrs.
           self' = self\<lparr>source_sop_instance_uids_of := uids,
                         single_source_frame_per_seg_frame := flag,
                         locations_preserved := preserved,
                         lut_attrs := attrs\<rparr>"
proof -
  let ?self1 = "(build_ref_instance_lut self)\<lparr>single_source_frame_per_seg_frame := True\<rparr>"
  from assms obtain self2 cols where
    loop: "build_luts_loop (PerFrameFunctionalGroupsSequence ?self1) ?self1
             \<lparr>segnum_col_data = [], source_instance_col_data = [],
              source_frame_col_data = [], locations_preserved_list = []\<rparr> = Inr (self2, cols)"
    unfolding build_luts_def Let_def by (auto split: sum.splits)
  from build_luts_loop_frame[OF loop] obtain flag where
    s2: "self2 = ?self1\<lparr>single_source_frame_per_seg_frame := flag\<rparr>" by blast
  from assms loop have
    "self' = self2\<lparr>locations_preserved :=
                     summarise_locations_preserved (locations_preserved_list cols)\<rparr> \<or>
     self' = self2\<lparr>locations_preserved :=
                     summarise_locations_preserved (locations_preserved_list cols),
                   lut_attrs := (lut_attrs self2)
                      (''_frame_lut'' \<mapsto> FrameLut (lut_rows cols),
                       ''_lut_seg_col'' \<mapsto> LutColumn 0,
                       ''_lut_src_instance_col'' \<mapsto> LutColumn 1,
                       ''_lut_src_frame_col'' \<mapsto> LutColumn 2)\<rparr>"
    unfolding build_luts_def Let_def by (auto split: if_splits)
  then show ?thesis
  proof
    assume "self' = self2\<lparr>locations_preserved :=
                     summarise_locations_preserved (locations_preserved_list cols)\<rparr>"
    then have "self' = self\<lparr>source_sop_instance_uids_of := source_sop_instance_uids_of ?self1,
                         single_source_frame_per_seg_frame := flag,
                         locations_preserved :=
                           summarise_locations_preserved (locations_preserved_list cols),
                         lut_attrs := lut_attrs self\<rparr>"
      unfolding s2 by (simp add: build_ref_instance_lut_def)
    then show ?thesis by blast
  next
    assume "self' = self2\<lparr>locations_preserved :=
                     summarise_locations_preserved (locations_preserved_list cols),
                   lut_attrs := (lut_attrs self2)
                      (''_frame_lut'' \<mapsto> FrameLut (lut_rows cols),
                       ''_lut_seg_col'' \<mapsto> LutColumn 0,
                       ''_lut_src_instance_col'' \<mapsto> LutColumn 1,
                       ''_lut_src_frame_col'' \<mapsto> LutColumn 2)\<rparr>"
    then have "self' = self\<lparr>source_sop_instance_uids_of := source_sop_instance_uids_of ?self1,
                         single_source_frame_per_seg_frame := flag,
                         locations_preserved :=
                           summarise_locations_preserved (locations_preserved_list cols),
                         lut_attrs := (lut_attrs self2)
                      (''_frame_lut'' \<mapsto> FrameLut (lut_rows cols),
                       ''_lut_seg_col'' \<mapsto> LutColumn 0,
                       ''_lut_src_instance_col'' \<mapsto> LutColumn 1,
                       ''_lut_src_frame_col'' \<mapsto> LutColumn 2)\<rparr>"
      unfolding s2 by (simp add: build_ref_instance_lut_def)
    then show ?thesis by blast
  qed
qed

lemma finish_pixel_update_even:
  "finish_pixel_update env self acc = Inr self' \<Longrightarrow> even (length (PixelData self'))"
  by (auto simp: finish_pixel_update_def split: sum.splits if_splits pixel_accumulator.splits)


lemma add_planes_result:
  "add_planes n ctx fs planes segnum js self kept = Inr (self', kept') \<Longrightarrow>
   kept' = kept @ filter (\<lambda>j. \<not> plane_is_empty fs planes j) js \<and>
   (\<exists>items.
      self' = self\<lparr>PerFrameFunctionalGroupsSequence :=
                      PerFrameFunctionalGroupsSequence self @ items,
                    NumberOfFrames := NumberOfFrames self + length items\<rparr> \<and>
      map (\<lambda>f. (ReferencedSegmentNumber f, PlanePosition f)) items =
        map (\<lambda>j. (segnum, ctx_plane_positions ctx ! j))
            (filter (\<lambda>j. \<not> plane_is_empty fs planes j) js))"
proof (induction js arbitrary: self kept)
  case Nil
  then have "self' = self\<lparr>PerFrameFunctionalGroupsSequence :=
                      PerFrameFunctionalGroupsSequence self @ [],
                    NumberOfFrames := NumberOfFrames self + length ([] :: frame_item list)\<rparr>"
    by simp
  with Nil show ?case by (auto simp del: append_Nil2)
next
  case (Cons j js)
  show ?case
  proof (cases "plane_is_empty fs planes j")
    case True
    with Cons show ?thesis by simp
  next
    case False
    with Cons.prems obtain item where
      mk: "make_frame_item self n ctx segnum j = Inr item"
      and rec: "add_planes n ctx fs planes segnum js
                 (self\<lparr>PerFrameFunctionalGroupsSequence :=
                          PerFrameFunctionalGroupsSequence self @ [item],
                        NumberOfFrames := NumberOfFrames self + 1\<rparr>) (kept @ [j]) = Inr (self', kept')"
      by (auto split: sum.splits)
    from mk have it: "ReferencedSegmentNumber item = segnum"
      "PlanePosition item = ctx_plane_positions ctx ! j"
      by (auto simp: make_frame_item_def split: sum.splits)
    from Cons.IH[OF rec] obtain items where
      k: "kept' = (kept @ [j]) @ filter (\<lambda>j. \<not> plane_is_empty fs planes j) js"
      and s: "self' = self\<lparr>PerFrameFunctionalGroupsSequence :=
                          PerFrameFunctionalGroupsSequence self @ [item],
                        NumberOfFrames := NumberOfFrames self + 1\<rparr>
                  \<lparr>PerFrameFunctionalGroupsSequence :=
                      PerFrameFunctionalGroupsSequence
                        (self\<lparr>PerFrameFunctionalGroupsSequence :=
                          PerFrameFunctionalGroupsSequence self @ [item],
                        NumberOfFrames := NumberOfFrames self + 1\<rparr>) @ items,
                    NumberOfFrames := NumberOfFrames (self\<lparr>PerFrameFunctionalGroupsSequence :=
                          PerFrameFunctionalGroupsSequence self @ [item],
                        NumberOfFrames := NumberOfFrames self + 1\<rparr>) + length items\<rparr>"
      and m: "map (\<lambda>f. (ReferencedSegmentNumber f, PlanePosition f)) items =
        map (\<lambda>j. (segnum, ctx_plane_positions ctx ! j))
            (filter (\<lambda>j. \<not> plane_is_empty fs planes j) js)"
      by blast
    have s': "self' = self\<lparr>PerFrameFunctionalGroupsSequence :=
                      PerFrameFunctionalGroupsSequence self @ (item # items),
                    NumberOfFrames := NumberOfFrames self + length (item # items)\<rparr>"
      unfolding s by simp
    have m': "map (\<lambda>f. (ReferencedSegmentNumber f, PlanePosition f)) (item # items) =
        map (\<lambda>j. (segnum, ctx_plane_positions ctx ! j))
            (filter (\<lambda>j. \<not> plane_is_empty fs planes j) (j # js))"
      using False it m by simp
    from k False s' m' show ?thesis by (intro conjI exI[of _ "item # items"]) simp_all
  qed
qed

lemma store_planes_result:
  "store_planes env fs planes kept self acc = Inr (self', acc') \<Longrightarrow>
   (acc = Framewise \<longrightarrow>
      acc' = Framewise \<and> (\<exists>bytes. self' = self\<lparr>PixelData := PixelData self @ bytes\<rparr>)) \<and>
   (acc \<noteq> Framewise \<longrightarrow> acc' \<noteq> Framewise \<and> self' = self)"
  by (auto simp: store_planes_def split: pixel_accumulator.splits sum.splits)

lemma start_pixel_update_result:
  "start_pixel_update env self = Inr (self', acc) \<Longrightarrow>
   (framewise_encoding_of self \<longrightarrow>
      acc = Framewise \<and> self' = self\<lparr>PixelData := without_pad_byte self\<rparr>) \<and>
   (\<not> framewise_encoding_of self \<longrightarrow> acc \<noteq> Framewise \<and> self' = self)"
  by (auto simp: start_pixel_update_def without_pad_byte_def split: if_splits sum.splits)


lemma kept_planes_cong:
  "Rows s = Rows t \<Longrightarrow> Columns s = Columns t \<Longrightarrow>
   MaximumFractionalValue s = MaximumFractionalValue t \<Longrightarrow>
   kept_planes s pa idx n = kept_planes t pa idx n"
  by (auto simp: kept_planes_def segment_planes_def split: array_data.splits option.splits)

lemma add_segment_loop_result:
  "add_segment_loop env n ctx pa descs self acc = Inr (self', acc') \<Longrightarrow>
   (acc = Framewise \<longleftrightarrow> acc' = Framewise) \<and>
   (\<exists>items bytes segs inv.
      self' = self\<lparr>PerFrameFunctionalGroupsSequence :=
                      PerFrameFunctionalGroupsSequence self @ items,
                    NumberOfFrames := NumberOfFrames self + length items,
                    PixelData := (if acc = Framewise then PixelData self @ bytes
                                  else PixelData self),
                    SegmentSequence := segs,
                    segment_inventory := inv\<rparr> \<and>
      map (\<lambda>f. (ReferencedSegmentNumber f, PlanePosition f)) items =
        concat (map (\<lambda>d. map (\<lambda>j. (SegmentNumber d, ctx_plane_positions ctx ! j))
                            (kept_planes self pa (ctx_plane_sort_index ctx) (SegmentNumber d)))
                    descs))"
proof (induction descs arbitrary: self acc)
  case Nil
  then have "self' = self\<lparr>PerFrameFunctionalGroupsSequence :=
                      PerFrameFunctionalGroupsSequence self @ [],
                    NumberOfFrames := NumberOfFrames self + length ([] :: frame_item list),
                    PixelData := (if acc = Framewise then PixelData self @ []
                                  else PixelData self),
                    SegmentSequence := SegmentSequence self,
                    segment_inventory := segment_inventory self\<rparr>"
    by simp
  moreover have "map (\<lambda>f. (ReferencedSegmentNumber f, PlanePosition f)) ([] :: frame_item list) =
        concat (map (\<lambda>d. map (\<lambda>j. (SegmentNumber d, ctx_plane_positions ctx ! j))
                            (kept_planes self pa (ctx_plane_sort_index ctx) (SegmentNumber d)))
                    [])"
    by simp
  moreover have "acc = Framewise \<longleftrightarrow> acc' = Framewise" using Nil by simp
  ultimately show ?case by blast
next
  case (Cons d descs)
  let ?fs = "Rows self * Columns self"
  let ?k = "\<lambda>s d. kept_planes s pa (ctx_plane_sort_index ctx) (SegmentNumber d)"
  from Cons.prems obtain planes self1 kept self2 acc1 where
    pl: "segment_planes self pa (SegmentNumber d) = Inr planes"
    and ap: "add_planes n ctx ?fs planes (SegmentNumber d) (ctx_plane_sort_index ctx) self [] =
               Inr (self1, kept)"
    and sp: "store_planes env ?fs planes kept self1 acc = Inr (self2, acc1)"
    and rec: "add_segment_loop env n ctx pa descs
                (self2\<lparr>SegmentSequence :=
                          (if SegmentNumber d \<notin> segment_inventory self2
                           then SegmentSequence self2 @ [d] else SegmentSequence self2),
                        segment_inventory := insert (SegmentNumber d) (segment_inventory self2)\<rparr>)
                acc1 = Inr (self', acc')"
    by (auto simp: Let_def split: sum.splits prod.splits)
  let ?self3 = "self2\<lparr>SegmentSequence :=
                          (if SegmentNumber d \<notin> segment_inventory self2
                           then SegmentSequence self2 @ [d] else SegmentSequence self2),
                        segment_inventory := insert (SegmentNumber d) (segment_inventory self2)\<rparr>"
  from add_planes_result[OF ap] obtain items1 where
    k: "kept = filter (\<lambda>j. \<not> plane_is_empty ?fs planes j) (ctx_plane_sort_index ctx)"
    and s1: "self1 = self\<lparr>PerFrameFunctionalGroupsSequence :=
                      PerFrameFunctionalGroupsSequence self @ items1,
                    NumberOfFrames := NumberOfFrames self + length items1\<rparr>"
    and m1: "map (\<lambda>f. (ReferencedSegmentNumber f, PlanePosition f)) items1 =
        map (\<lambda>j. (SegmentNumber d, ctx_plane_positions ctx ! j))
            (filter (\<lambda>j. \<not> plane_is_empty ?fs planes j) (ctx_plane_sort_index ctx))"
    by auto
  have kd: "?k self d = filter (\<lambda>j. \<not> plane_is_empty ?fs planes j) (ctx_plane_sort_index ctx)"
    using pl by (simp add: kept_planes_def)
  from store_planes_result[OF sp] obtain bytes1 where
    a1: "acc = Framewise \<longleftrightarrow> acc1 = Framewise"
    and s2: "self2 = self1\<lparr>PixelData := (if acc = Framewise then PixelData self1 @ bytes1
                                          else PixelData self1)\<rparr>"
    by (cases "acc = Framewise") auto
  from Cons.IH[OF rec] obtain items bytes segs inv where
    a2: "acc1 = Framewise \<longleftrightarrow> acc' = Framewise"
    and s': "self' = ?self3\<lparr>PerFrameFunctionalGroupsSequence :=
                      PerFrameFunctionalGroupsSequence ?self3 @ items,
                    NumberOfFrames := NumberOfFrames ?self3 + length items,
                    PixelData := (if acc1 = Framewise then PixelData ?self3 @ bytes
                                  else PixelData ?self3),
                    SegmentSequence := segs,
                    segment_inventory := inv\<rparr>"
    and m: "map (\<lambda>f. (ReferencedSegmentNumber f, PlanePosition f)) items =
        concat (map (\<lambda>d. map (\<lambda>j. (SegmentNumber d, ctx_plane_positions ctx ! j)) (?k ?self3 d))
                    descs)"
    by blast
  have same: "\<And>d. ?k ?self3 d = ?k self d"
    by (rule kept_planes_cong) (simp_all add: s2 s1)
  have r: "self' = self\<lparr>PerFrameFunctionalGroupsSequence :=
                      PerFrameFunctionalGroupsSequence self @ (items1 @ items),
                    NumberOfFrames := NumberOfFrames self + length (items1 @ items),
                    PixelData := (if acc = Framewise then PixelData self @ (bytes1 @ bytes)
                                  else PixelData self),
                    SegmentSequence := segs,
                    segment_inventory := inv\<rparr>"
    unfolding s' s2 s1 using a1 by (cases "acc = Framewise") simp_all
  have mm: "map (\<lambda>f. (ReferencedSegmentNumber f, PlanePosition f)) (items1 @ items) =
        concat (map (\<lambda>d. map (\<lambda>j. (SegmentNumber d, ctx_plane_positions ctx ! j)) (?k self d))
                    (d # descs))"
    using m1 m[unfolded same] kd by simp
  from a1 a2 have "acc = Framewise \<longleftrightarrow> acc' = Framewise" by simp
  with r mm show ?case by blast
qed



lemma add_segments_success:
  assumes "add_segments env self pa0 descs pp = Inr self'"
  shows "\<exists>pixel_array nums images plane_positions spp vals sort_index ctx self2 acc self3 acc' self4.
    validate_segments self pa0 descs = Inr (pixel_array, nums) \<and>
    source_images self = Some images \<and>
    resolve_plane_positions images pixel_array pp = Inr (plane_positions, spp) \<and>
    get_index_values (coordinate_system_of self) plane_positions = Inr (vals, sort_index) \<and>
    start_pixel_update env
      (self\<lparr>SegmentsOverlap := Some (if segment_inventory self = {} then Overlap_NO
                                       else Overlap_UNDEFINED)\<rparr>) = Inr (self2, acc) \<and>
    add_segment_loop env (length images) ctx pixel_array descs self2 acc = Inr (self3, acc') \<and>
    ctx_plane_positions ctx = plane_positions \<and>
    ctx_plane_sort_index ctx = sort_index \<and>
    finish_pixel_update env self3 acc' = Inr self4 \<and>
    build_luts self4 = Inr self'"
proof -
  let ?s1 = "self\<lparr>SegmentsOverlap := Some (if segment_inventory self = {} then Overlap_NO
                                       else Overlap_UNDEFINED)\<rparr>"
  obtain pixel_array nums where v: "validate_segments self pa0 descs = Inr (pixel_array, nums)"
    using assms by (cases "validate_segments self pa0 descs") (auto simp: add_segments_def)
  note a1 = assms[unfolded add_segments_def v Let_def, simplified]
  obtain images where i: "source_images self = Some images"
    using a1 by (cases "source_images self") auto
  note a2 = a1[unfolded i, simplified]
  obtain plane_positions spp where
    r: "resolve_plane_positions images pixel_array pp = Inr (plane_positions, spp)"
    using a2 by (cases "resolve_plane_positions images pixel_array pp") auto
  note a3 = a2[unfolded r, simplified]
  obtain vals sort_index where
    g: "get_index_values (coordinate_system_of self) plane_positions = Inr (vals, sort_index)"
    using a3 by (cases "get_index_values (coordinate_system_of self) plane_positions") auto
  note a4 = a3[unfolded g, simplified]
  obtain eq where e: "all_positions_equal plane_positions spp = Inr eq"
    using a4 by (cases "all_positions_equal plane_positions spp") auto
  note a5 = a4[unfolded e, simplified]
  obtain dpv where d: "dimension_position_values_of vals = Inr dpv"
    using a5 by (cases "dimension_position_values_of vals") auto
  note a6 = a5[unfolded d, simplified]
  obtain self2 acc where st: "start_pixel_update env ?s1 = Inr (self2, acc)"
    using a6 by (cases "start_pixel_update env ?s1") auto
  note a7 = a6[unfolded st, simplified]
  let ?ctx = "\<lparr>ctx_plane_positions = plane_positions,
                     ctx_plane_position_values = vals,
                     ctx_plane_sort_index = sort_index,
                     ctx_dimension_position_values = dpv,
                     ctx_locations_preserved =
                       (eq \<and> plane_orientation self = source_plane_orientation self)\<rparr>"
  obtain self3 acc' where
    l: "add_segment_loop env (length images) ?ctx pixel_array descs self2 acc = Inr (self3, acc')"
    using a7 by (cases "add_segment_loop env (length images) ?ctx pixel_array descs self2 acc") auto
  note a8 = a7[unfolded l, simplified]
  obtain self4 where f: "finish_pixel_update env self3 acc' = Inr self4"
    using a8 by (cases "finish_pixel_update env self3 acc'") auto
  note a9 = a8[unfolded f, simplified]
  have "ctx_plane_positions ?ctx = plane_positions" "ctx_plane_sort_index ?ctx = sort_index"
    by simp_all
  with v i r g st l f a9 show ?thesis by blast
qed


lemma framewise_encoding_of_cong:
  "TransferSyntaxUID s = TransferSyntaxUID t \<Longrightarrow> SegmentationType s = SegmentationType t \<Longrightarrow>
   Rows s = Rows t \<Longrightarrow> Columns s = Columns t \<Longrightarrow> SamplesPerPixel s = SamplesPerPixel t \<Longrightarrow>
   framewise_encoding_of s = framewise_encoding_of t"
  by (simp add: framewise_encoding_of_def)

text \<open>
  Claim C9. After every successful \<^verbatim>\<open>add_segments\<close> call, also the one of the
  constructor, the number of bytes of the Pixel Data is even. In the framewise case the
  new Pixel Data consists of the stored bytes without their trailing pad byte (removed
  when the stored length is the expected length plus one), followed by the bytes of the
  new frames, followed by one pad byte when the length would be odd.
\<close>

theorem add_segments_pixel_data_even:
  "(add_segments env self pixel_array segment_descriptions plane_positions = Inr self' \<longrightarrow>
      even (length (PixelData self')) \<and>
      (framewise_encoding_of self \<longrightarrow>
         (\<exists>new_bytes. PixelData self' = with_pad_byte (without_pad_byte self @ new_bytes)))) \<and>
   (Segmentation_init env args = Inr self' \<longrightarrow> even (length (PixelData self')))"
proof -
  have main: "even (length (PixelData s')) \<and>
      (framewise_encoding_of s \<longrightarrow>
         (\<exists>new_bytes. PixelData s' = with_pad_byte (without_pad_byte s @ new_bytes)))"
    if a: "add_segments env s pa descs pp = Inr s'" for s s' pa descs pp
  proof -
    let ?s1 = "s\<lparr>SegmentsOverlap := Some (if segment_inventory s = {} then Overlap_NO
                                       else Overlap_UNDEFINED)\<rparr>"
    from add_segments_success[OF a] obtain pixel_array' nums images plane_positions spp vals
        sort_index ctx self2 acc self3 acc' self4 where
      v: "validate_segments s pa descs = Inr (pixel_array', nums)"
      and i: "source_images s = Some images"
      and r: "resolve_plane_positions images pixel_array' pp = Inr (plane_positions, spp)"
      and g: "get_index_values (coordinate_system_of s) plane_positions = Inr (vals, sort_index)"
      and st: "start_pixel_update env ?s1 = Inr (self2, acc)"
      and l: "add_segment_loop env (length images) ctx pixel_array' descs self2 acc = Inr (self3, acc')"
      and c: "ctx_plane_positions ctx = plane_positions" "ctx_plane_sort_index ctx = sort_index"
      and f: "finish_pixel_update env self3 acc' = Inr self4"
      and b: "build_luts self4 = Inr s'"
      by blast
    from build_luts_frame[OF b] have pd: "PixelData s' = PixelData self4" by auto
    have ev: "even (length (PixelData s'))"
      using finish_pixel_update_even[OF f] pd by simp
    have fw: "\<exists>new_bytes. PixelData s' = with_pad_byte (without_pad_byte s @ new_bytes)"
      if fe: "framewise_encoding_of s"
    proof -
      have fe1: "framewise_encoding_of ?s1"
        using fe by (simp add: framewise_encoding_of_def)
      have wp: "without_pad_byte ?s1 = without_pad_byte s"
        by (simp add: without_pad_byte_def)
      from start_pixel_update_result[OF st] fe1 wp have
        acc: "acc = Framewise" and p2: "PixelData self2 = without_pad_byte s"
        by auto
      from add_segment_loop_result[OF l] acc obtain bytes where
        acc': "acc' = Framewise" and p3: "PixelData self3 = PixelData self2 @ bytes"
        by auto
      from f acc' have "PixelData self4 = with_pad_byte (PixelData self3)"
        by (auto simp: finish_pixel_update_def with_pad_byte_def split: if_splits)
      with pd p3 p2 show ?thesis by auto
    qed
    from ev fw show ?thesis by blast
  qed
  have init: "even (length (PixelData s'))" if i: "Segmentation_init env args = Inr s'" for s'
  proof -
    from i obtain s0 where
      "add_segments env s0 (newaxis_if_2d (arg_pixel_array args))
         (arg_segment_descriptions args) (arg_plane_positions args) = Inr s'"
      by (auto simp: Segmentation_init_def split: sum.splits prod.splits)
    from main[OF this] show ?thesis by blast
  qed
  from main init show ?thesis by blast
qed


text \<open>The examples: the bytes after the constructor and two further calls, and the mask
  of three planes whose middle plane is empty.\<close>

lemma example_pixel_data_bytes: "(case Segmentation_init no_codecs example_label_args of
      Inl err \<Rightarrow> False
    | Inr s4 \<Rightarrow>
        (case add_segments no_codecs s4 example_fifth_mask [example_fifth_description] None of
           Inl err \<Rightarrow> False
         | Inr s5 \<Rightarrow>
             PixelData s5 = [1, 2, 4, 8, 80, 0x30] \<and> framewise_encoding_of s5 \<and>
             (case add_segments no_codecs s5 example_sixth_mask [example_sixth_description] None of
                Inl err \<Rightarrow> False
              | Inr s6 \<Rightarrow> PixelData s6 = [1, 2, 4, 8, 80, 128])))"
  by code_simp


theorem add_segments_pixel_data_even_witness:
  "\<exists>s4 s5 s6.
     Segmentation_init no_codecs example_label_args = Inr s4 \<and>
     even (length (PixelData s4)) \<and>
     add_segments no_codecs s4 example_fifth_mask [example_fifth_description] None = Inr s5 \<and>
     PixelData s5 = [1, 2, 4, 8, 80, 0x30] \<and>
     add_segments no_codecs s5 example_sixth_mask [example_sixth_description] None = Inr s6 \<and>
     PixelData s6 = [1, 2, 4, 8, 80, 128] \<and>
     even (length (PixelData s6)) \<and>
     (\<exists>new_bytes. PixelData s6 = with_pad_byte (without_pad_byte s5 @ new_bytes))"
proof -
  from example_pixel_data_bytes obtain s4 s5 s6 where
    i: "Segmentation_init no_codecs example_label_args = Inr s4"
    and a5: "add_segments no_codecs s4 example_fifth_mask [example_fifth_description] None = Inr s5"
    and p5: "PixelData s5 = [1, 2, 4, 8, 80, 0x30]"
    and f5: "framewise_encoding_of s5"
    and a6: "add_segments no_codecs s5 example_sixth_mask [example_sixth_description] None = Inr s6"
    and p6: "PixelData s6 = [1, 2, 4, 8, 80, 128]"
    by (auto split: sum.splits)
  from add_segments_pixel_data_even[of no_codecs s4 example_fifth_mask
      "[example_fifth_description]" None s4 example_label_args] i
  have e4: "even (length (PixelData s4))" by blast
  from add_segments_pixel_data_even[of no_codecs s5 example_sixth_mask
      "[example_sixth_description]" None s6 example_label_args] a6 f5
  have e6: "even (length (PixelData s6))"
    and m6: "\<exists>new_bytes. PixelData s6 = with_pad_byte (without_pad_byte s5 @ new_bytes)"
    by blast+
  from i e4 a5 p5 a6 p6 e6 m6 show ?thesis by blast
qed



subsection \<open>Queries of the lookup table by segment number\<close>

text \<open>\<^verbatim>\<open>add_segments\<close> assigns no attribute of the lookup table but the four that
  \<^verbatim>\<open>_build_luts\<close> assigns. So the attribute \<^verbatim>\<open>frame_lut\<close>, which
  \<^verbatim>\<open>list_seg_frames_for_segment_number\<close> reads, is absent from every object that the
  constructor returns, and stays absent when segments are added; the query raises for
  every segment number.\<close>

lemma finish_pixel_update_lut_attrs:
  "finish_pixel_update env self acc = Inr self' \<Longrightarrow> lut_attrs self' = lut_attrs self"
  by (auto simp: finish_pixel_update_def split: sum.splits if_splits pixel_accumulator.splits)

lemma add_segments_other_attrs:
  assumes "add_segments env self pixel_array segment_descriptions plane_positions = Inr self'"
    and "name \<notin> {''_frame_lut'', ''_lut_seg_col'', ''_lut_src_instance_col'', ''_lut_src_frame_col''}"
  shows "lut_attrs self' name = lut_attrs self name"
proof -
  let ?s1 = "self\<lparr>SegmentsOverlap := Some (if segment_inventory self = {} then Overlap_NO
                                       else Overlap_UNDEFINED)\<rparr>"
  from add_segments_success[OF assms(1)] obtain pa n ctx self2 acc self3 acc' self4 where
    st: "start_pixel_update env ?s1 = Inr (self2, acc)"
    and loop: "add_segment_loop env n ctx pa segment_descriptions self2 acc = Inr (self3, acc')"
    and fin: "finish_pixel_update env self3 acc' = Inr self4"
    and b: "build_luts self4 = Inr self'"
    by blast
  have "lut_attrs self2 = lut_attrs ?s1"
    using start_pixel_update_result[OF st] by (cases "framewise_encoding_of ?s1") auto
  moreover have "lut_attrs self3 = lut_attrs self2"
    using add_segment_loop_result[OF loop] by auto
  moreover have "lut_attrs self4 = lut_attrs self3"
    using fin by (rule finish_pixel_update_lut_attrs)
  moreover have "lut_attrs self' name = lut_attrs self4 name"
    using build_luts_other_attrs[OF b assms(2)] .
  ultimately show ?thesis by simp
qed

lemma frame_lut_absent_raises:
  assumes "lut_attrs self ''frame_lut'' = None"
  shows "\<exists>e. list_seg_frames_for_segment_number self segment_number = Inl e"
  using assms by (simp add: list_seg_frames_for_segment_number_def get_frame_lut_def)

lemma constructed_object_query_raises:
  assumes "Segmentation_init env args = Inr self"
  shows "\<exists>e. list_seg_frames_for_segment_number self segment_number = Inl e"
proof -
  from assms obtain self0 where
    i: "init_attributes args = Inr self0"
    and a: "add_segments env self0 (newaxis_if_2d (arg_pixel_array args))
              (arg_segment_descriptions args) (arg_plane_positions args) = Inr self"
    by (auto simp: Segmentation_init_def split: sum.splits)
  from i have "lut_attrs self0 = Map.empty"
    by (auto simp: init_attributes_def Let_def split: option.splits if_splits)
  then have "lut_attrs self ''frame_lut'' = None"
    using add_segments_other_attrs[OF a, of "''frame_lut''"] by simp
  then show ?thesis by (rule frame_lut_absent_raises)
qed

lemma extended_object_query_raises:
  assumes "add_segments env self pixel_array segment_descriptions plane_positions = Inr self'"
    and "lut_attrs self ''frame_lut'' = None"
  shows "\<exists>e. list_seg_frames_for_segment_number self' segment_number = Inl e"
proof -
  have "lut_attrs self' ''frame_lut'' = None"
    using add_segments_other_attrs[OF assms(1), of "''frame_lut''"] assms(2) by simp
  then show ?thesis by (rule frame_lut_absent_raises)
qed

text \<open>\<^verbatim>\<open>from_dataset\<close> raises for every dataset that has a segment; an object that it
  returns has no segment, so that the query raises KeyError for every segment number.\<close>

lemma from_dataset_with_segments_raises:
  assumes "SegmentSequence (ds_attributes dataset) \<noteq> []"
  shows "\<exists>e. from_dataset functional_groups_error dataset = Inl e"
  using assms
  by (auto simp: from_dataset_def Let_def split: option.splits sum.splits prod.splits)

lemma loaded_object_query_raises:
  assumes "from_dataset functional_groups_error dataset = Inr self"
  shows "list_seg_frames_for_segment_number self segment_number =
           Inl (KeyError ''No segment found with specified segment number'')"
proof -
  from assms obtain d where b: "build_luts d = Inr self" and e: "SegmentSequence d = []"
    by (auto simp: from_dataset_def Let_def split: option.splits sum.splits prod.splits if_splits)
  from build_luts_frame[OF b] e have "SegmentSequence self = []" by auto
  then show ?thesis
    by (simp add: list_seg_frames_for_segment_number_def segment_numbers_of_def
        number_of_segments_def)
qed

text \<open>
  Claim C2. The stored dataset whose frames belong to the segments 1, 2, 1, 2 cannot be
  loaded: \<^verbatim>\<open>from_dataset\<close> raises AttributeError when it converts the first segment
  description. The constructor stores the frames segment by segment: for the labelled
  mask of the example the four frames belong to the segments 1, 1, 2, 2, and
  \<^verbatim>\<open>_build_luts\<close> assigns to \<^verbatim>\<open>_frame_lut\<close> the table with the rows (segment, source
  instance index, source frame) below. On this object
  \<^verbatim>\<open>list_seg_frames_for_segment_number(2)\<close> returns no frame numbers: it raises
  AttributeError, because it reads \<^verbatim>\<open>self.frame_lut\<close>, which is never assigned.
\<close>

theorem list_seg_frames_for_segment_number_raises:
  "(case from_dataset None example_stored_dataset of
      Inl err \<Rightarrow> err = AttributeError ''from_dataset''
    | Inr seg \<Rightarrow> False) \<and>
   (case Segmentation_init no_codecs example_two_segment_args of
      Inl err \<Rightarrow> False
    | Inr seg \<Rightarrow>
        map ReferencedSegmentNumber (PerFrameFunctionalGroupsSequence seg) = [1, 1, 2, 2] \<and>
        get_frame_lut seg ''_frame_lut'' = Inr [[1, 0, 1], [1, 0, 2], [2, 0, 1], [2, 0, 3]] \<and>
        list_seg_frames_for_segment_number seg 2 = Inl (AttributeError ''frame_lut''))"
  by code_simp

subsection \<open>The numbering of added segments\<close>

lemma np_diff_all_one_iff:
  "np_diff_all_one xs \<longleftrightarrow> (\<forall>i. Suc i < length xs \<longrightarrow> xs ! Suc i = xs ! i + 1)"
proof (induction xs rule: np_diff_all_one.induct)
  case (1 x y zs)
  show ?case
  proof
    assume a: "np_diff_all_one (x # y # zs)"
    then have h: "y = x + 1" and r: "\<forall>i. Suc i < length (y # zs) \<longrightarrow> (y # zs) ! Suc i = (y # zs) ! i + 1"
      using 1 by auto
    show "\<forall>i. Suc i < length (x # y # zs) \<longrightarrow> (x # y # zs) ! Suc i = (x # y # zs) ! i + 1"
    proof (intro allI impI)
      fix i assume "Suc i < length (x # y # zs)"
      then show "(x # y # zs) ! Suc i = (x # y # zs) ! i + 1"
        using h r by (cases i) auto
    qed
  next
    assume a: "\<forall>i. Suc i < length (x # y # zs) \<longrightarrow> (x # y # zs) ! Suc i = (x # y # zs) ! i + 1"
    from a[rule_format, of 0] have h: "y = x + 1" by simp
    have "\<forall>i. Suc i < length (y # zs) \<longrightarrow> (y # zs) ! Suc i = (y # zs) ! i + 1"
    proof (intro allI impI)
      fix i assume "Suc i < length (y # zs)"
      then show "(y # zs) ! Suc i = (y # zs) ! i + 1"
        using a[rule_format, of "Suc i"] by simp
    qed
    with 1 h show "np_diff_all_one (x # y # zs)" by simp
  qed
qed simp_all

lemma add_segments_validation_failure_unchanged:
  "validate_segments self pixel_array segment_descriptions = Inl err \<Longrightarrow>
   add_segments env self pixel_array segment_descriptions plane_positions = Inl (err, self)"
  by (simp add: add_segments_def)

lemma validate_segments_numbering:
  assumes "validate_segments self pixel_array segment_descriptions = Inr (pixel_array', nums)"
  shows "np_diff_all_one (map SegmentNumber segment_descriptions) \<and>
         segment_descriptions \<noteq> [] \<and>
         SegmentNumber (hd segment_descriptions) = seg_num_start self"
  using assms
  by (auto simp: validate_segments_def Let_def hd_map split: if_splits sum.splits)

text \<open>Number 3 for an object without segments is refused; number 5 after the segments
  1 to 4 is accepted.\<close>

lemma example_numbering:
  "(case init_attributes example_init_args of
      Inl err \<Rightarrow> False
    | Inr s0 \<Rightarrow>
        segment_inventory s0 = {} \<and>
        (case add_segments no_codecs s0 example_mask [\<lparr>SegmentNumber = 3, SegmentLabel = ''c''\<rparr>] None of
           Inr s' \<Rightarrow> False
         | Inl (err, s') \<Rightarrow>
             err = ValueError ''Segment descriptions should be numbered starting from 1.'')) \<and>
   (case Segmentation_init no_codecs example_label_args of
      Inl err \<Rightarrow> False
    | Inr s4 \<Rightarrow>
        segment_inventory s4 = {1, 2, 3, 4} \<and>
        (case add_segments no_codecs s4 example_fifth_mask [example_fifth_description] None of
           Inl err \<Rightarrow> False
         | Inr s5 \<Rightarrow> segment_inventory s5 = {1, 2, 3, 4, 5} \<and>
             map SegmentNumber (SegmentSequence s5) = [1, 2, 3, 4, 5] \<and> NumberOfFrames s5 = 5))"
  by code_simp

text \<open>
  Claim C6. \<^verbatim>\<open>add_segments\<close> raises (and leaves the object as it is) whenever the numbers
  of the segment descriptions do not ascend by exactly 1 from one description to the
  next, and whenever there is no description or the first number is not the largest
  number in the inventory plus 1 (1 for an empty inventory). In particular, a
  description with number 3 is refused by an object without segments, and a description
  with number 5 is accepted by an object that holds the segments 1 to 4.
\<close>

theorem add_segments_segment_numbering:
  "(\<not> (\<forall>i. Suc i < length segment_descriptions \<longrightarrow>
           SegmentNumber (segment_descriptions ! Suc i) =
             SegmentNumber (segment_descriptions ! i) + 1) \<longrightarrow>
      (\<exists>err. add_segments env self pixel_array segment_descriptions plane_positions =
               Inl (err, self))) \<and>
   (segment_descriptions = [] \<or>
    SegmentNumber (hd segment_descriptions) \<noteq>
      (if segment_inventory self = {} then 1 else Max (segment_inventory self) + 1) \<longrightarrow>
      (\<exists>err. add_segments env self pixel_array segment_descriptions plane_positions =
               Inl (err, self))) \<and>
   (\<exists>s0 err.
      init_attributes example_init_args = Inr s0 \<and> segment_inventory s0 = {} \<and>
      add_segments no_codecs s0 example_mask [\<lparr>SegmentNumber = 3, SegmentLabel = ''c''\<rparr>] None =
        Inl (err, s0)) \<and>
   (\<exists>s4 s5.
      Segmentation_init no_codecs example_label_args = Inr s4 \<and>
      segment_inventory s4 = {1, 2, 3, 4} \<and>
      SegmentNumber example_fifth_description = 5 \<and>
      add_segments no_codecs s4 example_fifth_mask [example_fifth_description] None = Inr s5 \<and>
      segment_inventory s5 = {1, 2, 3, 4, 5} \<and>
      map SegmentNumber (SegmentSequence s5) = [1, 2, 3, 4, 5])"
proof -
  have fail: "\<exists>err. add_segments env self pixel_array segment_descriptions plane_positions =
               Inl (err, self)"
    if "\<not> (np_diff_all_one (map SegmentNumber segment_descriptions) \<and>
         segment_descriptions \<noteq> [] \<and>
         SegmentNumber (hd segment_descriptions) = seg_num_start self)"
    for env self pixel_array segment_descriptions plane_positions
  proof (cases "validate_segments self pixel_array segment_descriptions")
    case (Inl err)
    then show ?thesis using add_segments_validation_failure_unchanged by blast
  next
    case (Inr r)
    then show ?thesis
      using that validate_segments_numbering[of self pixel_array segment_descriptions
          "fst r" "snd r"]
      by simp
  qed
  have d: "np_diff_all_one (map SegmentNumber segment_descriptions) \<longleftrightarrow>
      (\<forall>i. Suc i < length segment_descriptions \<longrightarrow>
           SegmentNumber (segment_descriptions ! Suc i) =
             SegmentNumber (segment_descriptions ! i) + 1)"
    unfolding np_diff_all_one_iff by auto
  have s: "seg_num_start self =
      (if segment_inventory self = {} then 1 else Max (segment_inventory self) + 1)"
    by (simp add: seg_num_start_def)
  have g1: "\<not> (\<forall>i. Suc i < length segment_descriptions \<longrightarrow>
           SegmentNumber (segment_descriptions ! Suc i) =
             SegmentNumber (segment_descriptions ! i) + 1) \<longrightarrow>
      (\<exists>err. add_segments env self pixel_array segment_descriptions plane_positions =
               Inl (err, self))"
    using fail[of segment_descriptions self env pixel_array plane_positions] d by blast
  have g2: "segment_descriptions = [] \<or>
    SegmentNumber (hd segment_descriptions) \<noteq>
      (if segment_inventory self = {} then 1 else Max (segment_inventory self) + 1) \<longrightarrow>
      (\<exists>err. add_segments env self pixel_array segment_descriptions plane_positions =
               Inl (err, self))"
    using fail[of segment_descriptions self env pixel_array plane_positions] s by metis
  from example_numbering obtain s0 s4 s5 where
    i0: "init_attributes example_init_args = Inr s0" and e0: "segment_inventory s0 = {}"
    and i4: "Segmentation_init no_codecs example_label_args = Inr s4"
    and e4: "segment_inventory s4 = {1, 2, 3, 4}"
    and a5: "add_segments no_codecs s4 example_fifth_mask [example_fifth_description] None = Inr s5"
    and e5: "segment_inventory s5 = {1, 2, 3, 4, 5}"
    and q5: "map SegmentNumber (SegmentSequence s5) = [1, 2, 3, 4, 5]"
    by (auto split: sum.splits)
  have "seg_num_start s0 = 1" using e0 by (simp add: seg_num_start_def)
  then have "\<not> (np_diff_all_one (map SegmentNumber [\<lparr>SegmentNumber = 3, SegmentLabel = ''c''\<rparr>]) \<and>
         [\<lparr>SegmentNumber = 3, SegmentLabel = ''c''\<rparr>] \<noteq> [] \<and>
         SegmentNumber (hd [\<lparr>SegmentNumber = 3, SegmentLabel = ''c''\<rparr>]) = seg_num_start s0)"
    by simp
  from fail[OF this, of no_codecs example_mask None] obtain err where
    f0: "add_segments no_codecs s0 example_mask [\<lparr>SegmentNumber = 3, SegmentLabel = ''c''\<rparr>] None =
        Inl (err, s0)"
    by blast
  have g3: "\<exists>s0 err.
      init_attributes example_init_args = Inr s0 \<and> segment_inventory s0 = {} \<and>
      add_segments no_codecs s0 example_mask [\<lparr>SegmentNumber = 3, SegmentLabel = ''c''\<rparr>] None =
        Inl (err, s0)"
    by (rule exI[of _ s0], rule exI[of _ err]) (intro conjI i0 e0 f0)
  have n5: "SegmentNumber example_fifth_description = 5"
    by (simp add: example_fifth_description_def)
  have g4: "\<exists>s4 s5.
      Segmentation_init no_codecs example_label_args = Inr s4 \<and>
      segment_inventory s4 = {1, 2, 3, 4} \<and>
      SegmentNumber example_fifth_description = 5 \<and>
      add_segments no_codecs s4 example_fifth_mask [example_fifth_description] None = Inr s5 \<and>
      segment_inventory s5 = {1, 2, 3, 4, 5} \<and>
      map SegmentNumber (SegmentSequence s5) = [1, 2, 3, 4, 5]"
    by (rule exI[of _ s4], rule exI[of _ s5]) (intro conjI i4 e4 n5 a5 e5 q5)
  show ?thesis by (intro conjI g1 g2 g3 g4)
qed

theorem add_segments_segment_numbering_witness:
  "\<exists>s0 s4 s5.
     init_attributes example_init_args = Inr s0 \<and> segment_inventory s0 = {} \<and>
     (\<exists>err. add_segments no_codecs s0 example_mask
              [\<lparr>SegmentNumber = 3, SegmentLabel = ''c''\<rparr>] None = Inl (err, s0)) \<and>
     Segmentation_init no_codecs example_label_args = Inr s4 \<and>
     segment_inventory s4 = {1, 2, 3, 4} \<and>
     add_segments no_codecs s4 example_fifth_mask [example_fifth_description] None = Inr s5 \<and>
     segment_inventory s5 = {1, 2, 3, 4, 5} \<and>
     map SegmentNumber (SegmentSequence s5) = [1, 2, 3, 4, 5]"
proof -
  from example_numbering obtain s0 s4 s5 where
    i0: "init_attributes example_init_args = Inr s0" and e0: "segment_inventory s0 = {}"
    and i4: "Segmentation_init no_codecs example_label_args = Inr s4"
    and e4: "segment_inventory s4 = {1, 2, 3, 4}"
    and a5: "add_segments no_codecs s4 example_fifth_mask [example_fifth_description] None = Inr s5"
    and e5: "segment_inventory s5 = {1, 2, 3, 4, 5}"
    and q5: "map SegmentNumber (SegmentSequence s5) = [1, 2, 3, 4, 5]"
    by (auto split: sum.splits)
  have h: "[\<lparr>SegmentNumber = 3, SegmentLabel = ''c''\<rparr>] = [] \<or>
    SegmentNumber (hd [\<lparr>SegmentNumber = 3, SegmentLabel = ''c''\<rparr>]) \<noteq>
      (if segment_inventory s0 = {} then 1 else Max (segment_inventory s0) + 1)"
    using e0 by simp
  from add_segments_segment_numbering[of "[\<lparr>SegmentNumber = 3, SegmentLabel = ''c''\<rparr>]"
      no_codecs s0 example_mask None] h
  have f: "\<exists>err. add_segments no_codecs s0 example_mask
              [\<lparr>SegmentNumber = 3, SegmentLabel = ''c''\<rparr>] None = Inl (err, s0)"
    by blast
  show ?thesis
    by (rule exI[of _ s0], rule exI[of _ s4], rule exI[of _ s5])
       (intro conjI i0 e0 i4 e4 a5 e5 q5 f)
qed

subsection \<open>Failed calls of add_segments\<close>

text \<open>A call that fails one of the checks of \<open>validate_segments\<close> leaves the object
  unchanged (lemma \<open>add_segments_validation_failure_unchanged\<close> above). A call that
  fails because the number of plane positions is wrong has assigned Segments Overlap
  before.\<close>

lemma add_segments_plane_count_failure:
  assumes "validate_segments self pixel_array segment_descriptions = Inr (pixel_array', nums)"
    and "source_images self = Some images"
    and "resolve_plane_positions images pixel_array' plane_positions = Inl err"
  shows "add_segments env self pixel_array segment_descriptions plane_positions =
           Inl (err, self\<lparr>SegmentsOverlap :=
                          Some (if segment_inventory self = {} then Overlap_NO
                                else Overlap_UNDEFINED)\<rparr>)"
  using assms by (simp add: add_segments_def Let_def)

text \<open>
  Claim C4, evaluated at a failing input: the object holds the segments 1 to 4 and
  Segments Overlap NO; a call with a mask for segment 5 and an empty list of plane
  positions raises ValueError for the number of plane positions, and leaves Segments
  Overlap UNDEFINED.
\<close>

theorem add_segments_failure_changes_segments_overlap:
  "(case Segmentation_init no_codecs example_label_args of
      Inl err \<Rightarrow> False
    | Inr s \<Rightarrow>
        SegmentsOverlap s = Some Overlap_NO \<and>
        (case add_segments no_codecs s example_fifth_mask [example_fifth_description] (Some []) of
           Inr s' \<Rightarrow> False
         | Inl (err, s') \<Rightarrow>
             err = ValueError
               ''Number of pixel array planes does not match number of provided plane positions.'' \<and>
             SegmentsOverlap s' = Some Overlap_UNDEFINED \<and>
             SegmentsOverlap s' \<noteq> SegmentsOverlap s))"
  by code_simp

end
